theory Spec2Isabelle
  imports Complex_Main "HOL-Library.Log_Nat"
begin

section \<open>GeoViz data tools: fragmenter and validator\<close>

text \<open>
  A shallow embedding of \<^verbatim>\<open>GeoViz_Compatibility_Tool.py\<close> (the fragmenter) and
  \<^verbatim>\<open>GeoViz_Validator.py\<close> (the validator).

  Conventions of the embedding.
  \<^item> Python \<^verbatim>\<open>int\<close> is \<^typ>\<open>int\<close>; a dimension size is \<^typ>\<open>nat\<close>.
  \<^item> Python \<^verbatim>\<open>float\<close> is binary64. A float is a \<^typ>\<open>real\<close>; in the arithmetic that
    decides an estimate or a plan (the estimator, the planner, the fragment count of the
    interactive mode) every operation is rounded to the nearest binary64 number, ties to
    even, with gradual underflow (\<open>float64\<close> below). The exponent range is not bounded
    above: a magnitude of \<^verbatim>\<open>2**1024\<close> or more, where Python gives \<^verbatim>\<open>inf\<close> or raises
    OverflowError, is outside the model. Numbers that are only stored or printed (the
    particle properties, the float32 cells of an array) are exact reals.
  \<^item> A raised exception is the \<open>Inl\<close> branch of a sum.
  \<^item> Console output is left out (the banners, the reports, the overview of the dataset
    and the summary of file sizes), except where evaluating a printed expression can
    raise on the values of the model; then the raise is a branch of the model.
  \<^item> A string is a list of characters. Text of the source outside ASCII stands as its
    UTF-8 bytes; the strings a run receives are taken to be ASCII, where a byte is a
    character.
  \<^item> Reading the source file and writing a fragment are taken to succeed once the source
    file is there; a missing source file is FileNotFoundError.
\<close>

subsection \<open>Errors\<close>

datatype py_error =
  ValueError | ZeroDivisionError | KeyError | EOFError | FileNotFoundError

subsection \<open>Datasets\<close>

text \<open>
  An xarray dataset: dimension sizes, named variables in insertion order (data variables
  and coordinates; \<^verbatim>\<open>ds.variables\<close>), the names that are coordinates, and the global
  attributes. An array holds its dimension names, its numpy dtype, its cells and its
  attributes.
\<close>

datatype dtype = Float32 | Float64 | Int64 | UInt8 | Object | Unicode nat

datatype scalar = Number real | Text string

datatype ndarray = Scalar scalar | Array "ndarray list"

record data_array =
  dims :: "string list"
  dtype :: dtype
  cells :: ndarray
  var_attrs :: "(string \<times> string) list"

datatype attr = AStr string | AInt int

record dataset =
  sizes :: "(string \<times> nat) list"
  variables :: "(string \<times> data_array) list"
  coord_names :: "string list"
  attrs :: "(string \<times> attr) list"

text \<open>\<^verbatim>\<open>name in ds.variables\<close>, \<^verbatim>\<open>name in ds.attrs\<close>, \<^verbatim>\<open>name in ds.sizes\<close>.\<close>

definition has_key :: "string \<Rightarrow> (string \<times> 'a) list \<Rightarrow> bool" where
  "has_key k kvs = (map_of kvs k \<noteq> None)"

text \<open>\<^verbatim>\<open>ds.data_vars\<close>: the variables that are not coordinates.\<close>

definition data_vars :: "dataset \<Rightarrow> (string \<times> data_array) list" where
  "data_vars ds = filter (\<lambda>kv. fst kv \<notin> set (coord_names ds)) (variables ds)"

text \<open>\<^verbatim>\<open>d[k] = v\<close> on an insertion-ordered dictionary.\<close>

fun set_item :: "string \<Rightarrow> 'a \<Rightarrow> (string \<times> 'a) list \<Rightarrow> (string \<times> 'a) list" where
  "set_item k v [] = [(k, v)]"
| "set_item k v ((k', v') # kvs) =
     (if k' = k then (k, v) # kvs else (k', v') # set_item k v kvs)"

subsection \<open>Binary floating point\<close>

text \<open>
  Rounding of a real to binary64 (IEEE 754, round to nearest, ties to even). For
  \<open>x > 0\<close>, \<open>binade x\<close> is the exponent \<open>e\<close> with \<^verbatim>\<open>2**e <= x < 2**(e+1)\<close>; the
  binary64 numbers of that binade are the multiples of \<^verbatim>\<open>2**(e-52)\<close>, and below
  \<^verbatim>\<open>2**-1022\<close> (the subnormal range) the multiples of \<^verbatim>\<open>2**-1074\<close>. \<open>quantum x\<close> is
  the exponent of that spacing and \<open>float64 x\<close> the multiple nearest to \<open>x\<close>.

  Each arithmetic operation of Python on floats is the exact operation followed by
  \<open>float64\<close>: \<^verbatim>\<open>a * b\<close> is \<open>float64 (a * b)\<close>, \<^verbatim>\<open>a / b\<close> is \<open>float64 (a / b)\<close>; an
  \<^verbatim>\<open>int\<close> operand is converted first (\<open>float64 (real n)\<close>), and the true division of
  two \<^verbatim>\<open>int\<close>s is the correctly rounded quotient. \<^verbatim>\<open>np.ceil\<close>, \<^verbatim>\<open>max\<close>, \<^verbatim>\<open>min\<close> and
  the comparisons are exact.
\<close>

definition binade :: "real \<Rightarrow> int" where
  "binade x = (if 1 \<le> x then bitlen \<lfloor>x\<rfloor> - 1 else - bitlen (\<lceil>1 / x\<rceil> - 1))"

definition round_half_even :: "real \<Rightarrow> int" where
  "round_half_even x =
     (let f = \<lfloor>x\<rfloor>; d = x - of_int f
      in if d < 1/2 then f else if 1/2 < d then f + 1 else if even f then f else f + 1)"

definition quantum :: "real \<Rightarrow> int" where
  "quantum x = max (binade \<bar>x\<bar> - 52) (- 1074)"

definition float64 :: "real \<Rightarrow> real" where
  "float64 x =
     (if x = 0 then 0
      else sgn x * of_int (round_half_even (\<bar>x\<bar> / 2 powi quantum x)) * 2 powi quantum x)"

subsection \<open>Memory budget estimator\<close>

text \<open>
  \<^verbatim>\<open>estimate_memory_requirements(ds, percentage)\<close>. The reading of
  \<^verbatim>\<open>psutil.virtual_memory().available\<close> (bytes) is the argument \<open>available\<close>.
  The result is \<^verbatim>\<open>(estimated_mb, available_mb, is_safe, recommended_percentage)\<close>.
  \<^verbatim>\<open>ds.sizes[...]\<close> raises KeyError on a missing dimension, and the float division
  \<^verbatim>\<open>target_mb / estimated_mb\<close> raises ZeroDivisionError on a zero estimate.
  \<^verbatim>\<open>frag_traj\<close> and \<^verbatim>\<open>frag_bytes\<close> are Python \<^verbatim>\<open>int\<close>s; every other quantity is a
  float, with the literal \<^verbatim>\<open>0.3\<close> read as \<open>float64 0.3\<close> (\<^verbatim>\<open>0.5\<close>, \<^verbatim>\<open>100\<close>, \<^verbatim>\<open>3\<close>
  and \<^verbatim>\<open>1024**2\<close> are binary64 numbers).
\<close>

definition estimate_memory_requirements ::
  "dataset \<Rightarrow> real \<Rightarrow> nat \<Rightarrow> py_error + (real \<times> real \<times> bool \<times> real)" where
  "estimate_memory_requirements ds percentage available =
     (let available_mb = float64 (real available / (1024 ^ 2)) in
      case map_of (sizes ds) ''trajectory'' of
        None \<Rightarrow> Inl KeyError
      | Some n_traj \<Rightarrow>
     (case map_of (sizes ds) ''time'' of
        None \<Rightarrow> Inl KeyError
      | Some n_time \<Rightarrow>
     (let n_vars = length (data_vars ds);
          frag_traj = \<lceil>float64 (float64 (float64 (real n_traj) * percentage) / 100)\<rceil>;
          frag_bytes = frag_traj * int n_time * 4 * int n_vars;
          estimated_mb = float64 (float64 (real_of_int frag_bytes / (1024 ^ 2)) * 3);
          is_safe = (estimated_mb < float64 (available_mb * 0.5))
      in if is_safe then Inr (estimated_mb, available_mb, is_safe, percentage)
         else if estimated_mb = 0 then Inl ZeroDivisionError
         else
           (let target_mb = float64 (available_mb * float64 0.3);
                recommended_percentage = float64 (float64 (target_mb / estimated_mb) * percentage)
            in Inr (estimated_mb, available_mb, is_safe,
                    max 1 (min 100 recommended_percentage))))))"

subsection \<open>Partition planner\<close>

text \<open>
  The planning lines of \<^verbatim>\<open>create_fragments\<close>: the percentage check (line 313), the
  two ceilings (lines 316 and 317, each the ceiling of a float;
  \<^verbatim>\<open>n_traj / trajectories_per_fragment\<close> raises ZeroDivisionError on 0) and the bounds
  of fragment \<open>i\<close> of the loop (lines 347, 348).
\<close>

definition trajectories_per_fragment :: "nat \<Rightarrow> real \<Rightarrow> int" where
  "trajectories_per_fragment n_traj percentage =
     \<lceil>float64 (float64 (float64 (real n_traj) * percentage) / 100)\<rceil>"

definition num_fragments :: "nat \<Rightarrow> int \<Rightarrow> py_error + int" where
  "num_fragments n_traj tpf =
     (if tpf = 0 then Inl ZeroDivisionError
      else Inr \<lceil>float64 (real n_traj / real_of_int tpf)\<rceil>)"

definition fragment_bounds :: "nat \<Rightarrow> int \<Rightarrow> nat \<Rightarrow> int \<times> int" where
  "fragment_bounds n_traj tpf i =
     (int i * tpf, min ((int i + 1) * tpf) (int n_traj))"

definition fragment_plan :: "nat \<Rightarrow> real \<Rightarrow> py_error + (int \<times> int) list" where
  "fragment_plan n_traj percentage =
     (if percentage \<le> 0 \<or> percentage > 100 then Inl ValueError
      else case num_fragments n_traj (trajectories_per_fragment n_traj percentage) of
        Inl e \<Rightarrow> Inl e
      | Inr num \<Rightarrow>
          Inr (map (fragment_bounds n_traj (trajectories_per_fragment n_traj percentage))
                 [0..<nat num]))"

subsection \<open>Strings and formatted messages\<close>

text \<open>
  \<^verbatim>\<open>str.strip()\<close> and \<^verbatim>\<open>str.lower()\<close> on ASCII text; a character outside ASCII
  stands as its UTF-8 bytes and is left as it is.
\<close>

definition is_space :: "char \<Rightarrow> bool" where
  "is_space c = (c \<in> set [CHR 0x09, CHR 0x0A, CHR 0x0B, CHR 0x0C, CHR 0x0D,
                            CHR 0x1C, CHR 0x1D, CHR 0x1E, CHR 0x1F, CHR 0x20])"

definition py_strip :: "string \<Rightarrow> string" where
  "py_strip s = rev (dropWhile is_space (rev (dropWhile is_space s)))"

definition lower_char :: "char \<Rightarrow> char" where
  "lower_char c =
     (if 65 \<le> (of_char c :: nat) \<and> (of_char c :: nat) \<le> 90
      then char_of (of_char c + 32 :: nat) else c)"

definition py_lower :: "string \<Rightarrow> string" where
  "py_lower s = map lower_char s"

text \<open>
  An f-string is kept as its pieces: literal text, and the numbers it formats, each with
  its format (\<^verbatim>\<open>{x}\<close> of a float, \<^verbatim>\<open>{x:.2f}\<close>, \<^verbatim>\<open>{n:,}\<close> and \<^verbatim>\<open>{n}\<close> of an
  int). Rendering a float needs its binary representation, which is not modelled.
\<close>

datatype piece = Lit string | Float_repr real | Float_2f real | Int_comma int | Int_str int

type_synonym message = "piece list"

definition quoted :: "string \<Rightarrow> string" where
  "quoted s = CHR 0x27 # s @ [CHR 0x27]"

subsection \<open>Variable synthesizer\<close>

text \<open>
  \<^verbatim>\<open>np.full((n, m), v)\<close>: an \<open>n\<close> by \<open>m\<close> array holding \<open>v\<close> in every cell.
  Casting a string to dtype \<^verbatim>\<open>U6\<close> keeps its first 6 characters.
\<close>

definition np_full :: "nat \<Rightarrow> nat \<Rightarrow> scalar \<Rightarrow> ndarray" where
  "np_full n m v = Array (replicate n (Array (replicate m (Scalar v))))"

definition sediment_array ::
  "nat \<Rightarrow> nat \<Rightarrow> dtype \<Rightarrow> scalar \<Rightarrow> (string \<times> string) list \<Rightarrow> data_array" where
  "sediment_array n_traj n_time dt v as =
     \<lparr>dims = [''trajectory'', ''time''], dtype = dt, cells = np_full n_traj n_time v,
      var_attrs = as\<rparr>"

text \<open>
  One \<^verbatim>\<open>if name not in ds.variables: ds[name] = ...; added_vars.append(...)\<close> block.
\<close>

definition add_if_absent ::
  "string \<Rightarrow> data_array \<Rightarrow> message \<Rightarrow> dataset \<times> message list
     \<Rightarrow> dataset \<times> message list" where
  "add_if_absent name arr msg st =
     (case st of (ds, added_vars) \<Rightarrow>
        if \<not> has_key name (variables ds)
        then (ds\<lparr>variables := set_item name arr (variables ds)\<rparr>, added_vars @ [msg])
        else (ds, added_vars))"

definition superscript_two :: string where
  "superscript_two = [CHR 0xC2, CHR 0xB2]"

definition superscript_three :: string where
  "superscript_three = [CHR 0xC2, CHR 0xB3]"

text \<open>
  The seven blocks of \<^verbatim>\<open>add_missing_sediment_variables\<close> (lines 179 to 241), in the
  order of the source: the name tested and assigned, the array assigned, and the text
  appended to \<^verbatim>\<open>added_vars\<close>.
\<close>

definition sediment_blocks ::
  "nat \<Rightarrow> nat \<Rightarrow> string \<Rightarrow> string \<Rightarrow> real \<Rightarrow> real
     \<Rightarrow> (string \<times> data_array \<times> message) list" where
  "sediment_blocks n_traj n_time particle_class particle_size_class
       particle_diameter particle_density =
     [(''particulate_diameter'',
       sediment_array n_traj n_time Float32 (Number particle_diameter)
         [(''units'', ''m''), (''long_name'', ''Particle diameter'')],
       [Lit ''particulate_diameter ('', Float_repr particle_diameter, Lit '' m)'']),
      (''particulate_density'',
       sediment_array n_traj n_time Float32 (Number particle_density)
         [(''units'', ''kg m-3''), (''long_name'', ''Particle density'')],
       [Lit ''particulate_density ('', Float_repr particle_density,
        Lit ('' kg/m'' @ superscript_three @ '')'')]),
      (''particulate_class'',
       sediment_array n_traj n_time Object (Text particle_class)
         [(''units'', []),
          (''classes'', ''oil,other,bubble,faecal_pellets,copepod,diatom_chain,oily_gas''),
          (''long_name'', ''Particle classification'')],
       [Lit (''particulate_class ('' @ particle_class @ '')'')]),
      (''particulate_size_class'',
       sediment_array n_traj n_time (Unicode 6) (Text (take 6 particle_size_class))
         [(''units'', []),
          (''classes'', ''small,medium,large''),
          (''long_name'', ''Particle size classification'')],
       [Lit (''particulate_size_class ('' @ particle_size_class @ '')'')]),
      (''settled'',
       sediment_array n_traj n_time UInt8 (Number 0)
         [(''units'', ''1''), (''long_name'', ''Particle settled on seafloor'')],
       [Lit ''settled (0)'']),
      (''ocean_vertical_diffusivity'',
       sediment_array n_traj n_time Float32 (Number 0.02)
         [(''units'', ''m'' @ superscript_two @ ''/s''),
          (''long_name'', ''Ocean vertical diffusivity'')],
       [Lit (''ocean_vertical_diffusivity (0.02 m'' @ superscript_two @ ''/s)'')]),
      (''ocean_mixed_layer_thickness'',
       sediment_array n_traj n_time Float32 (Number 50)
         [(''units'', ''m''), (''long_name'', ''Ocean mixed layer thickness'')],
       [Lit ''ocean_mixed_layer_thickness (50 m)''])]"

text \<open>
  \<^verbatim>\<open>add_missing_sediment_variables(ds, particle_class, particle_size_class,
  particle_diameter, particle_density)\<close>: the two sizes are read, the seven blocks run in
  order, the global attribute is set if absent. The result is the dataset after the call
  and the list the call returns.
\<close>

definition add_missing_sediment_variables ::
  "dataset \<Rightarrow> string \<Rightarrow> string \<Rightarrow> real \<Rightarrow> real
     \<Rightarrow> py_error + (dataset \<times> message list)" where
  "add_missing_sediment_variables ds particle_class particle_size_class
       particle_diameter particle_density =
     (case map_of (sizes ds) ''trajectory'' of
        None \<Rightarrow> Inl KeyError
      | Some n_traj \<Rightarrow>
     (case map_of (sizes ds) ''time'' of
        None \<Rightarrow> Inl KeyError
      | Some n_time \<Rightarrow>
     (let st = fold (\<lambda>b. add_if_absent (fst b) (fst (snd b)) (snd (snd b)))
                 (sediment_blocks n_traj n_time particle_class particle_size_class
                    particle_diameter particle_density)
                 (ds, []);
          ds7 = fst st
      in Inr (if \<not> has_key ''opendrift_class'' (attrs ds7)
              then ds7\<lparr>attrs := set_item ''opendrift_class'' (AStr ''SedimentDrift'')
                                      (attrs ds7)\<rparr>
              else ds7,
              snd st))))"

subsection \<open>Slicing and file names\<close>

text \<open>
  \<^verbatim>\<open>ds.isel(trajectory=slice(start, end))\<close> with \<open>0 \<le> start \<le> end\<close>: every variable
  that has the trajectory dimension is cut along it, the others are kept, and the size
  of the dimension follows.
\<close>

fun slice_axis :: "nat \<Rightarrow> nat \<Rightarrow> nat \<Rightarrow> ndarray \<Rightarrow> ndarray" where
  "slice_axis 0 s e (Array xs) = Array (take (e - s) (drop s xs))"
| "slice_axis (Suc k) s e (Array xs) = Array (map (slice_axis k s e) xs)"
| "slice_axis k s e (Scalar v) = Scalar v"

definition axis_of :: "string \<Rightarrow> string list \<Rightarrow> nat" where
  "axis_of d ds = length (takeWhile (\<lambda>x. x \<noteq> d) ds)"

definition isel_trajectory :: "nat \<Rightarrow> nat \<Rightarrow> dataset \<Rightarrow> dataset" where
  "isel_trajectory start_idx end_idx ds =
     ds\<lparr>sizes :=
          map (\<lambda>dn. if fst dn = ''trajectory''
                     then (fst dn, min end_idx (snd dn) - min start_idx (snd dn))
                     else dn) (sizes ds),
        variables :=
          map (\<lambda>kv. if ''trajectory'' \<in> set (dims (snd kv))
                     then (fst kv,
                           (snd kv)\<lparr>cells :=
                              slice_axis (axis_of ''trajectory'' (dims (snd kv)))
                                start_idx end_idx (cells (snd kv))\<rparr>)
                     else kv) (variables ds)\<rparr>"

text \<open>\<^verbatim>\<open>input_file.replace('.nc', '')\<close>.\<close>

fun remove_nc :: "string \<Rightarrow> string" where
  "remove_nc (a # b # c # cs) =
     (if [a, b, c] = ''.nc'' then remove_nc cs else a # remove_nc (b # c # cs))"
| "remove_nc cs = cs"

text \<open>\<^verbatim>\<open>os.path.basename\<close> on a POSIX path.\<close>

definition basename :: "string \<Rightarrow> string" where
  "basename p = rev (takeWhile (\<lambda>c. c \<noteq> CHR ''/'') (rev p))"

text \<open>\<^verbatim>\<open>f"{n:03d}"\<close>: decimal digits, padded with zeros to three characters.\<close>

fun str_nat :: "nat \<Rightarrow> string" where
  "str_nat n =
     (if n < 10 then [char_of (48 + n)]
      else str_nat (n div 10) @ [char_of (48 + n mod 10)])"

declare str_nat.simps [simp del]

definition fmt_03d :: "nat \<Rightarrow> string" where
  "fmt_03d n = replicate (3 - length (str_nat n)) (CHR ''0'') @ str_nat n"

subsection \<open>The world a run acts on\<close>

text \<open>
  The readable dataset files, the reading of available memory, the lines the console
  will answer to \<^verbatim>\<open>input()\<close>, and the trace of what the run did: opening and closing
  the source, running the memory check, prompting, and writing a fragment file
  (\<^verbatim>\<open>to_netcdf\<close>; the write itself is taken to succeed).
\<close>

datatype event =
  Open_Dataset string | Memory_Check | Prompt | Close_Dataset | To_Netcdf string dataset

record world =
  input_files :: "(string \<times> dataset) list"
  available :: nat
  stdin :: "string list"
  trace :: "event list"

definition emit :: "event \<Rightarrow> world \<Rightarrow> world" where
  "emit ev w = w\<lparr>trace := trace w @ [ev]\<rparr>"

definition py_input :: "world \<Rightarrow> (py_error + string) \<times> world" where
  "py_input w =
     (case stdin w of
        [] \<Rightarrow> (Inl EOFError, emit Prompt w)
      | l # ls \<Rightarrow> (Inr l, emit Prompt (w\<lparr>stdin := ls\<rparr>)))"

text \<open>Sequencing: an exception ends the run where it is raised.\<close>

definition and_then ::
  "(py_error + 'a) \<times> world \<Rightarrow> ('a \<Rightarrow> world \<Rightarrow> (py_error + 'b) \<times> world)
     \<Rightarrow> (py_error + 'b) \<times> world" where
  "and_then r f = (case r of (Inl e, w) \<Rightarrow> (Inl e, w) | (Inr x, w) \<Rightarrow> f x w)"

subsection \<open>Memory check\<close>

text \<open>
  \<^verbatim>\<open>check_memory_safety(ds, percentage)\<close>. Printing
  \<^verbatim>\<open>(estimated_mb/available_mb)*100\<close> raises on a zero reading, and
  \<^verbatim>\<open>int(100/recommended_percentage)\<close> on a zero recommendation.
\<close>

definition check_memory_safety :: "dataset \<Rightarrow> real \<Rightarrow> world \<Rightarrow> (py_error + bool) \<times> world" where
  "check_memory_safety ds percentage w0 =
     (let w = emit Memory_Check w0 in
      case estimate_memory_requirements ds percentage (available w) of
        Inl e \<Rightarrow> (Inl e, w)
      | Inr (estimated_mb, available_mb, is_safe, recommended_percentage) \<Rightarrow>
          if available_mb = 0 then (Inl ZeroDivisionError, w)
          else if \<not> is_safe then
            (if recommended_percentage = 0 then (Inl ZeroDivisionError, w)
             else and_then (py_input w)
                    (\<lambda>response w'. (Inr (py_lower (py_strip response) = ''y''), w')))
          else (Inr True, w))"

subsection \<open>Fragmentation orchestrator\<close>

text \<open>
  One pass of the loop of \<^verbatim>\<open>create_fragments\<close> (lines 346 to 392): slice, synthesize
  when asked, set the six provenance attributes, write. The result is the output path.
\<close>

definition write_fragment ::
  "dataset \<Rightarrow> string \<Rightarrow> string \<Rightarrow> bool \<Rightarrow> string \<Rightarrow> string \<Rightarrow> real \<Rightarrow> real
     \<Rightarrow> nat \<Rightarrow> nat \<Rightarrow> int \<times> int \<Rightarrow> world \<Rightarrow> (py_error + string) \<times> world" where
  "write_fragment ds input_file output_prefix add_sediment_vars particle_class
       particle_size_class particle_diameter particle_density num i bounds w =
     (let start_idx = fst bounds;
          end_idx = snd bounds;
          fragment_num = i + 1;
          output_file = output_prefix @ ''_fragment_'' @ fmt_03d fragment_num
                          @ ''_of_'' @ fmt_03d num @ ''.nc'';
          ds_fragment = isel_trajectory (nat start_idx) (nat end_idx) ds
      in case (if add_sediment_vars
               then (case add_missing_sediment_variables ds_fragment particle_class
                            particle_size_class particle_diameter particle_density of
                       Inl e \<Rightarrow> Inl e
                     | Inr r \<Rightarrow> Inr (fst r))
               else Inr ds_fragment) of
           Inl e \<Rightarrow> (Inl e, w)
         | Inr ds1 \<Rightarrow>
             (let ds2 = ds1\<lparr>attrs :=
                    set_item ''modified_by'' (AStr ''fragment_with_sediment.py'')
                   (set_item ''original_file'' (AStr (basename input_file))
                   (set_item ''fragment_trajectory_end'' (AInt end_idx)
                   (set_item ''fragment_trajectory_start'' (AInt start_idx)
                   (set_item ''total_fragments'' (AInt (int num))
                   (set_item ''fragment_number'' (AInt (int fragment_num))
                      (attrs ds1))))))\<rparr>
              in (Inr output_file, emit (To_Netcdf output_file ds2) w)))"

text \<open>The loop: the first exception ends it; \<open>output_files\<close> grows by one path a pass.\<close>

fun for_each_fragment ::
  "(nat \<Rightarrow> int \<times> int \<Rightarrow> world \<Rightarrow> (py_error + string) \<times> world)
     \<Rightarrow> (nat \<times> int \<times> int) list \<Rightarrow> string list \<Rightarrow> world
     \<Rightarrow> (py_error + string list) \<times> world" where
  "for_each_fragment body [] output_files w = (Inr output_files, w)"
| "for_each_fragment body (ib # rest) output_files w =
     (case body (fst ib) (snd ib) w of
        (Inl e, w') \<Rightarrow> (Inl e, w')
      | (Inr f, w') \<Rightarrow> for_each_fragment body rest (output_files @ [f]) w')"

text \<open>
  \<^verbatim>\<open>create_fragments(input_file, output_prefix, percentage, add_sediment_vars,
  particle_class, particle_size_class, particle_diameter, particle_density)\<close>, in the
  order of the source: open the dataset, read the two sizes, run the memory check, and
  only then check the percentage and plan.
\<close>

definition create_fragments ::
  "string \<Rightarrow> string option \<Rightarrow> real \<Rightarrow> bool \<Rightarrow> string \<Rightarrow> string \<Rightarrow> real \<Rightarrow> real
     \<Rightarrow> world \<Rightarrow> (py_error + string list) \<times> world" where
  "create_fragments input_file output_prefix0 percentage add_sediment_vars particle_class
       particle_size_class particle_diameter particle_density w0 =
     (let output_prefix =
            (case output_prefix0 of None \<Rightarrow> remove_nc input_file | Some p \<Rightarrow> p)
      in case map_of (input_files w0) input_file of
           None \<Rightarrow> (Inl FileNotFoundError, w0)
         | Some ds \<Rightarrow>
        (let w1 = emit (Open_Dataset input_file) w0 in
         case map_of (sizes ds) ''trajectory'' of
           None \<Rightarrow> (Inl KeyError, w1)
         | Some n_traj \<Rightarrow>
        (case map_of (sizes ds) ''time'' of
           None \<Rightarrow> (Inl KeyError, w1)
         | Some n_time \<Rightarrow>
        and_then (check_memory_safety ds percentage w1)
          (\<lambda>ok w2.
             if \<not> ok then (Inr [], emit Close_Dataset w2)
             else case fragment_plan n_traj percentage of
                    Inl e \<Rightarrow> (Inl e, w2)
                  | Inr ranges \<Rightarrow>
                      and_then
                        (for_each_fragment
                           (write_fragment ds input_file output_prefix add_sediment_vars
                              particle_class particle_size_class particle_diameter
                              particle_density (length ranges))
                           (zip [0..<length ranges] ranges) [] w2)
                        (\<lambda>output_files w3. (Inr output_files, emit Close_Dataset w3))))))"

subsection \<open>Entry points of the fragmenter\<close>

text \<open>
  Python's \<^verbatim>\<open>float(s)\<close> is a parameter of the entry points: \<open>None\<close> is its
  ValueError. \<^verbatim>\<open>str.isdigit\<close> and \<^verbatim>\<open>int\<close> are modelled on ASCII digits.
\<close>

type_synonym float_parser = "string \<Rightarrow> real option"

definition py_isdigit :: "string \<Rightarrow> bool" where
  "py_isdigit s = (s \<noteq> [] \<and> list_all (\<lambda>c. 48 \<le> (of_char c :: nat) \<and> (of_char c :: nat) \<le> 57) s)"

definition py_int :: "string \<Rightarrow> nat" where
  "py_int s = foldl (\<lambda>acc c. 10 * acc + (of_char c - 48)) 0 s"

definition classes :: "string list" where
  "classes = [''oil'', ''other'', ''bubble'', ''faecal_pellets'', ''copepod'',
              ''diatom_chain'', ''oily_gas'']"

definition size_classes :: "string list" where
  "size_classes = [''small'', ''medium'', ''large'']"

text \<open>
  The block \<^verbatim>\<open>if add_sediment_vars:\<close> of \<^verbatim>\<open>interactive_mode\<close> (lines 444 to 465):
  class, size class, diameter in millimeters (divided by 1000) and density.
\<close>

definition ask_particle_properties ::
  "float_parser \<Rightarrow> world \<Rightarrow> (py_error + (string \<times> string \<times> real \<times> real)) \<times> world" where
  "ask_particle_properties flt w0 =
     and_then (py_input w0) (\<lambda>l1 w1.
       let choice = py_strip l1;
           particle_class =
             (if py_isdigit choice \<and> 1 \<le> py_int choice \<and> py_int choice \<le> 7
              then classes ! (py_int choice - 1) else ''other'')
       in and_then (py_input w1) (\<lambda>l2 w2.
       let choice2 = py_strip l2;
           particle_size_class =
             (if py_isdigit choice2 \<and> 1 \<le> py_int choice2 \<and> py_int choice2 \<le> 3
              then size_classes ! (py_int choice2 - 1) else ''medium'')
       in and_then (py_input w2) (\<lambda>l3 w3.
       let diameter_input = py_strip l3 in
       case (if diameter_input \<noteq> [] then map_option (\<lambda>d. d / 1000) (flt diameter_input)
             else Some 0.0001) of
         None \<Rightarrow> (Inl ValueError, w3)
       | Some particle_diameter \<Rightarrow>
       and_then (py_input w3) (\<lambda>l4 w4.
       let density_input = py_strip l4 in
       case (if density_input \<noteq> [] then flt density_input else Some 1027) of
         None \<Rightarrow> (Inl ValueError, w4)
       | Some particle_density \<Rightarrow>
           (Inr (particle_class, particle_size_class, particle_diameter, particle_density),
            w4)))))"

text \<open>
  \<^verbatim>\<open>interactive_mode(input_file)\<close>: \<open>None\<close> is the cancelled run. The preview opens
  the dataset by itself; \<^verbatim>\<open>100 / percentage\<close> and
  \<^verbatim>\<open>n_traj // num_fragments\<close> raise on zero.
\<close>

definition interactive_mode ::
  "float_parser \<Rightarrow> string \<Rightarrow> world \<Rightarrow> (py_error + string list option) \<times> world" where
  "interactive_mode flt input_file w0 =
     and_then (py_input w0) (\<lambda>l1 w1.
       let percentage_input = py_strip l1 in
       case (if percentage_input \<noteq> [] then flt percentage_input else Some 10) of
         None \<Rightarrow> (Inl ValueError, w1)
       | Some percentage \<Rightarrow>
       (case map_of (input_files w1) input_file of
         None \<Rightarrow> (Inl FileNotFoundError, w1)
       | Some ds \<Rightarrow>
       (let w2 = emit (Open_Dataset input_file) w1 in
        case map_of (sizes ds) ''trajectory'' of
          None \<Rightarrow> (Inl KeyError, w2)
        | Some n_traj \<Rightarrow>
        if percentage = 0 then (Inl ZeroDivisionError, w2)
        else if \<lceil>float64 (100 / percentage)\<rceil> = 0 then (Inl ZeroDivisionError, w2)
        else
        and_then (py_input (emit Close_Dataset w2)) (\<lambda>l2 w3.
        let add_sediment_vars = (py_lower (py_strip l2) \<noteq> ''n'') in
        and_then (if add_sediment_vars then ask_particle_properties flt w3
                  else (Inr (''other'', ''medium'', 0.0001, 1027), w3)) (\<lambda>props w4.
        and_then (py_input w4) (\<lambda>l3 w5.
        let output_prefix = (if py_strip l3 = [] then None else Some (py_strip l3)) in
        and_then (py_input w5) (\<lambda>l4 w6.
        if py_lower (py_strip l4) = ''n'' then (Inr None, w6)
        else and_then
               (create_fragments input_file output_prefix percentage add_sediment_vars
                  (fst props) (fst (snd props)) (fst (snd (snd props)))
                  (snd (snd (snd props))) w6)
               (\<lambda>files w7. (Inr (Some files), w7)))))))))"

text \<open>
  \<^verbatim>\<open>main()\<close> of the fragmenter, on \<^verbatim>\<open>sys.argv\<close>. In command-line mode it reads
  \<^verbatim>\<open>argv[2]\<close> and \<^verbatim>\<open>argv[3]\<close> only and calls
  \<^verbatim>\<open>create_fragments(input_file, output_prefix, percentage)\<close>, so the other
  parameters of \<^verbatim>\<open>create_fragments\<close> take their defaults.
\<close>

definition fragmenter_main ::
  "float_parser \<Rightarrow> string list \<Rightarrow> world \<Rightarrow> (py_error + unit) \<times> world" where
  "fragmenter_main flt argv w =
     (if length argv < 2 then (Inr (), w)
      else
        (let input_file = argv ! 1 in
         if length argv = 2
         then and_then (interactive_mode flt input_file w) (\<lambda>r w'. (Inr (), w'))
         else case flt (argv ! 2) of
                None \<Rightarrow> (Inl ValueError, w)
              | Some percentage \<Rightarrow>
                  and_then
                    (create_fragments input_file
                       (if length argv > 3 then Some (argv ! 3) else None)
                       percentage True ''other'' ''medium'' 0.0001 1027 w)
                    (\<lambda>r w'. (Inr (), w'))))"

subsection \<open>Validator: results\<close>

text \<open>
  \<^verbatim>\<open>class ValidationResult\<close>: five lists of messages. Each \<^verbatim>\<open>add_\<close> method puts
  its fixed prefix (a symbol, given by its UTF-8 bytes, and a label) before the message.
\<close>

record validation_result =
  errors :: "message list"
  warnings :: "message list"
  missing :: "message list"
  info :: "message list"
  passed :: "message list"

definition new_result :: validation_result where
  "new_result = \<lparr>errors = [], warnings = [], missing = [], info = [], passed = []\<rparr>"

definition warning_sign :: string where
  "warning_sign = [CHR 0xE2, CHR 0x9A, CHR 0xA0, CHR 0xEF, CHR 0xB8, CHR 0x8F]"

definition add_error :: "message \<Rightarrow> validation_result \<Rightarrow> validation_result" where
  "add_error m r =
     r\<lparr>errors := errors r @ [Lit ([CHR 0xE2, CHR 0x9D, CHR 0x8C] @ '' ERROR: '') # m]\<rparr>"

definition add_warning :: "message \<Rightarrow> validation_result \<Rightarrow> validation_result" where
  "add_warning m r = r\<lparr>warnings := warnings r @ [Lit (warning_sign @ ''  WARNING: '') # m]\<rparr>"

definition add_missing :: "message \<Rightarrow> validation_result \<Rightarrow> validation_result" where
  "add_missing m r = r\<lparr>missing := missing r @ [Lit (warning_sign @ ''  MISSING: '') # m]\<rparr>"

definition add_info :: "message \<Rightarrow> validation_result \<Rightarrow> validation_result" where
  "add_info m r =
     r\<lparr>info := info r @
        [Lit ([CHR 0xE2, CHR 0x84, CHR 0xB9, CHR 0xEF, CHR 0xB8, CHR 0x8F] @ ''  INFO: '') # m]\<rparr>"

definition add_pass :: "message \<Rightarrow> validation_result \<Rightarrow> validation_result" where
  "add_pass m r = r\<lparr>passed := passed r @ [Lit ([CHR 0xE2, CHR 0x9C, CHR 0x93] @ '' '') # m]\<rparr>"

definition is_valid :: "validation_result \<Rightarrow> bool" where
  "is_valid r = (length (errors r) = 0)"

definition has_all_required :: "validation_result \<Rightarrow> bool" where
  "has_all_required r = (length (missing r) = 0)"

subsection \<open>Validator: the checks\<close>

text \<open>
  What a validation run finds outside the program: whether the path exists and is a
  file, the file's size in bytes, what \<^verbatim>\<open>xr.open_dataset\<close> gives (\<open>Inl\<close> is the text
  of the exception it raises), and the values of the random samples of \<^verbatim>\<open>lon\<close> and
  \<^verbatim>\<open>lat\<close> (\<open>None\<close> is NaN; \<open>Inl\<close> is the text of an exception raised while
  sampling).
\<close>

record validator_env =
  path_exists :: bool
  path_is_file :: bool
  file_size :: nat
  opened :: "string + dataset"
  lon_sample :: "string + real option list"
  lat_sample :: "string + real option list"

definition py_endswith :: "string \<Rightarrow> string \<Rightarrow> bool" where
  "py_endswith s suffix = (length suffix \<le> length s \<and> drop (length s - length suffix) s = suffix)"

definition validate_file_access :: "validator_env \<Rightarrow> string \<Rightarrow> validation_result" where
  "validate_file_access env filepath =
     (if \<not> path_exists env
      then add_error [Lit (''File not found: '' @ filepath)] new_result
      else if \<not> path_is_file env
      then add_error [Lit (''Path is not a file: '' @ filepath)] new_result
      else
        (let r1 = (if \<not> py_endswith filepath ''.nc''
                   then add_warning [Lit ''File does not have .nc extension''] new_result
                   else new_result);
             r2 = add_info [Lit ''File size: '', Float_2f (real (file_size env) / 1024 ^ 2),
                            Lit '' MB''] r1
         in add_pass [Lit ''File exists and is accessible''] r2))"

definition check_dimension :: "dataset \<Rightarrow> string \<Rightarrow> validation_result \<Rightarrow> validation_result" where
  "check_dimension ds d r =
     (case map_of (sizes ds) d of
        Some n \<Rightarrow>
          add_pass [Lit (''Required dimension '' @ quoted d @ '' present (''),
                    Int_comma (int n), Lit '' elements)''] r
      | None \<Rightarrow> add_error [Lit (''Missing required dimension: '' @ d)] r)"

definition validate_dimensions :: "dataset \<Rightarrow> validation_result" where
  "validate_dimensions ds =
     (let r = fold (check_dimension ds) [''trajectory'', ''time''] new_result in
      case (map_of (sizes ds) ''trajectory'', map_of (sizes ds) ''time'') of
        (Some n_traj, Some n_time) \<Rightarrow>
          (let r1 = add_info [Lit ''Total data points: '', Int_comma (int (n_traj * n_time))] r;
               r2 = (if n_traj < 1 then add_error [Lit ''No trajectories in dataset''] r1
                     else if n_traj < 10
                     then add_warning [Lit ''Very few trajectories ('', Int_str (int n_traj),
                                       Lit '')''] r1
                     else r1)
           in if n_time < 1 then add_error [Lit ''No time steps in dataset''] r2
              else if n_time < 10
              then add_warning [Lit ''Very few time steps ('', Int_str (int n_time),
                                Lit '')''] r2
              else r2)
      | _ \<Rightarrow> r)"

text \<open>
  \<^verbatim>\<open>validate_sediment_variables(ds)\<close>: the two dictionaries of the source, each walked
  in its order.
\<close>

definition required_vars :: "(string \<times> string) list" where
  "required_vars =
     [(''particulate_diameter'', ''Particle diameter''),
      (''particulate_density'', ''Particle density''),
      (''particulate_class'', ''Particle classification''),
      (''particulate_size_class'', ''Particle size classification''),
      (''settled'', ''Settlement status'')]"

definition optional_vars :: "(string \<times> string) list" where
  "optional_vars =
     [(''ocean_vertical_diffusivity'', ''Ocean vertical mixing coefficient''),
      (''ocean_mixed_layer_thickness'', ''Mixed layer depth'')]"

definition check_required :: "dataset \<Rightarrow> string \<times> string \<Rightarrow> validation_result \<Rightarrow> validation_result" where
  "check_required ds nd r =
     (if has_key (fst nd) (variables ds)
      then add_pass [Lit (''Required variable '' @ quoted (fst nd) @ '' present'')] r
      else add_missing [Lit (fst nd @ '' ('' @ snd nd @ '')'')] r)"

definition check_optional :: "dataset \<Rightarrow> string \<times> string \<Rightarrow> validation_result \<Rightarrow> validation_result" where
  "check_optional ds nd r =
     (if has_key (fst nd) (variables ds)
      then add_pass [Lit (''Optional variable '' @ quoted (fst nd) @ '' present'')] r
      else add_info [Lit (''Optional variable '' @ quoted (fst nd) @ '' not present (''
                          @ snd nd @ '')'')] r)"

definition validate_sediment_variables :: "dataset \<Rightarrow> validation_result" where
  "validate_sediment_variables ds =
     fold (check_optional ds) optional_vars
       (fold (check_required ds) required_vars new_result)"

definition common_vars :: "(string \<times> string) list" where
  "common_vars =
     [(''lon'', ''Longitude''), (''lat'', ''Latitude''), (''z'', ''Depth''),
      (''status'', ''Particle status'')]"

definition check_common :: "dataset \<Rightarrow> string \<times> string \<Rightarrow> validation_result \<Rightarrow> validation_result" where
  "check_common ds nd r =
     (if has_key (fst nd) (variables ds)
      then add_pass [Lit (''Trajectory variable '' @ quoted (fst nd) @ '' present (''
                          @ snd nd @ '')'')] r
      else add_warning [Lit (''Common variable '' @ quoted (fst nd) @ '' not found (''
                             @ snd nd @ '')'')] r)"

definition validate_trajectory_variables :: "dataset \<Rightarrow> validation_result" where
  "validate_trajectory_variables ds = fold (check_common ds) common_vars new_result"

definition attr_pieces :: "attr \<Rightarrow> message" where
  "attr_pieces a = (case a of AStr s \<Rightarrow> [Lit s] | AInt i \<Rightarrow> [Int_str i])"

definition check_recommended :: "dataset \<Rightarrow> string \<Rightarrow> validation_result \<Rightarrow> validation_result" where
  "check_recommended ds a r =
     (if has_key a (attrs ds)
      then add_pass [Lit (''Metadata attribute '' @ quoted a @ '' present'')] r
      else add_info [Lit (''Optional metadata '' @ quoted a @ '' not present'')] r)"

definition validate_attributes :: "dataset \<Rightarrow> validation_result" where
  "validate_attributes ds =
     (let r1 =
        (case map_of (attrs ds) ''opendrift_class'' of
           Some opendrift_class \<Rightarrow>
             (let r0 = add_pass (Lit ''OpenDrift class: '' # attr_pieces opendrift_class)
                         new_result
              in if opendrift_class \<noteq> AStr ''SedimentDrift''
                 then add_info ([Lit (''OpenDrift class is '' @ [CHR 0x27])]
                                @ attr_pieces opendrift_class
                                @ [Lit ([CHR 0x27] @ '' (expected ''
                                        @ quoted ''SedimentDrift'' @ '')'')]) r0
                 else r0)
         | None \<Rightarrow>
             add_warning [Lit (''Missing '' @ quoted ''opendrift_class'' @ '' attribute'')]
               new_result)
      in fold (check_recommended ds)
           [''title'', ''institution'', ''source'', ''history'', ''Conventions''] r1)"

text \<open>
  One of the two blocks of \<^verbatim>\<open>validate_data_integrity\<close> that check a coordinate
  against its range on the sample: the NaN values are dropped, and an exception raised
  while sampling becomes a warning.
\<close>

definition check_sample ::
  "string \<Rightarrow> string \<Rightarrow> real \<Rightarrow> string \<Rightarrow> string + real option list
     \<Rightarrow> validation_result \<Rightarrow> validation_result" where
  "check_sample label lower_label bound range_text sample r =
     (case sample of
        Inl e \<Rightarrow> add_warning [Lit (''Could not validate '' @ lower_label @ '': '' @ e)] r
      | Inr vals \<Rightarrow>
          (let valid = map the (filter (\<lambda>v. v \<noteq> None) vals) in
           if length valid > 0 then
             (let lo = fold min (tl valid) (hd valid);
                  hi = fold max (tl valid) (hd valid)
              in if lo < - bound \<or> hi > bound
                 then add_warning
                        [Lit (label @ '' sample values outside valid range '' @ range_text
                              @ '': [''),
                         Float_2f lo, Lit '', '', Float_2f hi, Lit '']''] r
                 else add_pass
                        [Lit (label @ '' sample range valid: [''),
                         Float_2f lo, Lit '', '', Float_2f hi, Lit '']''] r)
           else r))"

definition validate_data_integrity ::
  "validator_env \<Rightarrow> dataset \<Rightarrow> bool \<Rightarrow> validation_result" where
  "validate_data_integrity env ds quick =
     (if quick then add_info [Lit ''Skipping data sampling (--quick mode)''] new_result
      else
        (let r0 = add_info [Lit ''Sampling data for integrity checks...''] new_result;
             n_traj = (case map_of (sizes ds) ''trajectory'' of Some n \<Rightarrow> n | None \<Rightarrow> 0);
             n_time = (case map_of (sizes ds) ''time'' of Some n \<Rightarrow> n | None \<Rightarrow> 0);
             sample_traj = min 100 n_traj;
             sample_time = min 100 n_time;
             r1 = (if has_key ''lon'' (variables ds)
                   then check_sample ''Longitude'' ''longitude'' 180 ''[-180, 180]''
                          (lon_sample env) r0
                   else r0);
             r2 = (if has_key ''lat'' (variables ds)
                   then check_sample ''Latitude'' ''latitude'' 90 ''[-90, 90]''
                          (lat_sample env) r1
                   else r1)
         in add_info [Lit ''Data integrity checked using '', Int_str (int sample_traj),
                      Lit [CHR 0xC3, CHR 0x97], Int_str (int sample_time), Lit '' sample'']
              r2))"

subsection \<open>Validator: the run and its exit status\<close>

text \<open>
  The loop of \<^verbatim>\<open>validate_dataset\<close> over its five checks: the result of a check is
  merged into the overall result, list by list; a check that raises adds one error and
  the loop goes on.
\<close>

definition merge_result :: "validation_result \<Rightarrow> validation_result \<Rightarrow> validation_result" where
  "merge_result overall check_result =
     overall\<lparr>passed := passed overall @ passed check_result,
             info := info overall @ info check_result,
             warnings := warnings overall @ warnings check_result,
             missing := missing overall @ missing check_result,
             errors := errors overall @ errors check_result\<rparr>"

definition run_check ::
  "dataset \<Rightarrow> (dataset \<Rightarrow> string + validation_result) \<Rightarrow> validation_result
     \<Rightarrow> validation_result" where
  "run_check ds check_func overall =
     (case check_func ds of
        Inr check_result \<Rightarrow> merge_result overall check_result
      | Inl e \<Rightarrow> add_error [Lit (''Validation check failed: '' @ e)] overall)"

definition checks :: "validator_env \<Rightarrow> bool \<Rightarrow> (dataset \<Rightarrow> string + validation_result) list" where
  "checks env quick =
     [\<lambda>ds. Inr (validate_dimensions ds),
      \<lambda>ds. Inr (validate_sediment_variables ds),
      \<lambda>ds. Inr (validate_trajectory_variables ds),
      \<lambda>ds. Inr (validate_attributes ds),
      \<lambda>ds. Inr (validate_data_integrity env ds quick)]"

definition validate_dataset ::
  "validator_env \<Rightarrow> string \<Rightarrow> bool \<Rightarrow> bool \<Rightarrow> validation_result" where
  "validate_dataset env filepath verbose quick =
     (let file_result = validate_file_access env filepath in
      if \<not> is_valid file_result then file_result
      else case opened env of
             Inl e \<Rightarrow> add_error [Lit (''Failed to open NetCDF file: '' @ e)] new_result
           | Inr ds \<Rightarrow> fold (run_check ds) (checks env quick) new_result)"

text \<open>
  \<^verbatim>\<open>main()\<close> of the validator; its value is the exit status
  (\<^verbatim>\<open>sys.exit(main())\<close>). \<open>exit_status\<close> is the expression of line 529.
\<close>

definition exit_status :: "validation_result \<Rightarrow> nat" where
  "exit_status r = (if is_valid r \<and> has_all_required r then 0 else 1)"

definition validator_main :: "validator_env \<Rightarrow> string list \<Rightarrow> nat" where
  "validator_main env argv =
     (if length argv < 2 then 1
      else
        (let input_file = argv ! 1;
             verbose = (''--verbose'' \<in> set argv \<or> ''-v'' \<in> set argv);
             quick = (''--quick'' \<in> set argv \<or> ''-q'' \<in> set argv);
             r = validate_dataset env input_file verbose quick
         in exit_status r))"

subsection \<open>Example inputs\<close>

text \<open>
  A source of one million trajectories by one thousand time steps holding one data
  variable; the witnesses and counterexamples below evaluate the model on it.
\<close>

definition example_lon :: data_array where
  "example_lon = \<lparr>dims = [''trajectory'', ''time''], dtype = Float32,
                   cells = np_full 1000000 1000 (Number 0), var_attrs = []\<rparr>"

definition example_source :: dataset where
  "example_source =
     \<lparr>sizes = [(''trajectory'', 1000000), (''time'', 1000)],
      variables = [(''lon'', example_lon)],
      coord_names = [],
      attrs = []\<rparr>"

text \<open>
  The binary64 number nearest to one tenth, the value of \<^verbatim>\<open>float('0.1')\<close>
  (lemma \<open>tenth_double\<close> below).
\<close>

definition tenth :: real where
  "tenth = 3602879701896397 / 36028797018963968"

text \<open>
  A fragment of 50 trajectories by 10 time steps that already holds a
  \<^verbatim>\<open>particulate_diameter\<close> variable (0.002 in every cell).
\<close>

definition example_diameter :: data_array where
  "example_diameter = \<lparr>dims = [''trajectory'', ''time''], dtype = Float32,
                        cells = np_full 50 10 (Number 0.002), var_attrs = []\<rparr>"

definition example_fragment :: dataset where
  "example_fragment =
     \<lparr>sizes = [(''trajectory'', 50), (''time'', 10)],
      variables = [(''lon'', \<lparr>dims = [''trajectory'', ''time''], dtype = Float32,
                              cells = np_full 50 10 (Number 0), var_attrs = []\<rparr>),
                   (''particulate_diameter'', example_diameter)],
      coord_names = [],
      attrs = []\<rparr>"

text \<open>
  Two machines holding the example source as \<^verbatim>\<open>mydata.nc\<close>, with 64 GB and with
  100 MB of available memory; the console answers \<^verbatim>\<open>n\<close> to a prompt.
\<close>

definition example_world :: world where
  "example_world =
     \<lparr>input_files = [(''mydata.nc'', example_source)],
      available = 64000000000,
      stdin = [''n''],
      trace = []\<rparr>"

definition low_memory_world :: world where
  "low_memory_world =
     \<lparr>input_files = [(''mydata.nc'', example_source)],
      available = 100000000,
      stdin = [''n''],
      trace = []\<rparr>"

text \<open>
  A source of two trajectories by one time step, a machine holding it with 8 GB
  available, and a float parser that knows the spellings the examples use.
\<close>

definition small_source :: dataset where
  "small_source =
     \<lparr>sizes = [(''trajectory'', 2), (''time'', 1)],
      variables = [(''lon'', \<lparr>dims = [''trajectory'', ''time''], dtype = Float32,
                              cells = Array [Array [Scalar (Number 4)], Array [Scalar (Number 5)]],
                              var_attrs = []\<rparr>)],
      coord_names = [],
      attrs = []\<rparr>"

definition small_world :: world where
  "small_world =
     \<lparr>input_files = [(''mydata.nc'', small_source)],
      available = 8000000000,
      stdin = [],
      trace = []\<rparr>"

definition table_float :: float_parser where
  "table_float s = (if s = ''50'' then Some 50 else if s = ''5.0'' then Some 5
                    else if s = ''900'' then Some 900 else None)"

text \<open>What a trace event stored under \<^verbatim>\<open>particulate_diameter\<close>, if it wrote a file.\<close>

definition written_diameter :: "event \<Rightarrow> ndarray option" where
  "written_diameter ev =
     (case ev of
        To_Netcdf f d \<Rightarrow> map_option cells (map_of (variables d) ''particulate_diameter'')
      | _ \<Rightarrow> None)"

text \<open>
  A validation run: a file of two trajectories by one time step that lacks
  \<^verbatim>\<open>particulate_diameter\<close> and \<^verbatim>\<open>settled\<close> and whose longitudes are -200 and
  170; the samples are the whole variables.
\<close>

definition scenario_dataset :: dataset where
  "scenario_dataset =
     \<lparr>sizes = [(''trajectory'', 2), (''time'', 1)],
      variables =
        [(''lon'', \<lparr>dims = [''trajectory'', ''time''], dtype = Float32,
                    cells = Array [Array [Scalar (Number (- 200))], Array [Scalar (Number 170)]],
                    var_attrs = []\<rparr>),
         (''lat'', \<lparr>dims = [''trajectory'', ''time''], dtype = Float32,
                    cells = Array [Array [Scalar (Number 10)], Array [Scalar (Number 20)]],
                    var_attrs = []\<rparr>),
         (''particulate_density'', sediment_array 2 1 Float32 (Number 1027) []),
         (''particulate_class'', sediment_array 2 1 Object (Text ''other'') []),
         (''particulate_size_class'', sediment_array 2 1 (Unicode 6) (Text ''medium'') [])],
      coord_names = [],
      attrs = []\<rparr>"

definition scenario_env :: validator_env where
  "scenario_env =
     \<lparr>path_exists = True, path_is_file = True, file_size = 2048,
      opened = Inr scenario_dataset,
      lon_sample = Inr [Some (- 200), Some 170],
      lat_sample = Inr [Some 10, Some 20]\<rparr>"

text \<open>
  The bounds a trace event recorded in the provenance attributes, if it wrote a file.
\<close>

definition written_bounds :: "event \<Rightarrow> (int \<times> int) option" where
  "written_bounds ev =
     (case ev of
        To_Netcdf f d \<Rightarrow>
          (case (map_of (attrs d) ''fragment_trajectory_start'',
                 map_of (attrs d) ''fragment_trajectory_end'') of
             (Some (AInt s), Some (AInt e)) \<Rightarrow> Some (s, e)
           | _ \<Rightarrow> None)
      | _ \<Rightarrow> None)"

section \<open>Verified properties\<close>

subsection \<open>Binary floating point\<close>

text \<open>
  The rounding is monotone, fixes every number \<open>m * 2\<^sup>q\<close> with \<open>\<bar>m\<bar> < 2\<^sup>5\<^sup>3\<close> and
  \<open>q \<ge> -1074\<close>, and moves a number of the normal range by at most the fraction
  \<open>2\<^sup>-\<^sup>5\<^sup>3\<close> of itself.
\<close>

lemma binade_bounds:
  assumes "0 < x"
  shows "2 powi binade x \<le> x" and "x < 2 powi (binade x + 1)"
proof -
  have "2 powi binade x \<le> x \<and> x < 2 powi (binade x + 1)"
  proof (cases "1 \<le> x")
    case True
    define m where "m = \<lfloor>x\<rfloor>"
    have m1: "1 \<le> m" using True by (simp add: m_def le_floor_iff)
    then have m0: "0 < m" by simp
    have b: "2 ^ nat (bitlen m - 1) \<le> m \<and> m < 2 ^ nat (bitlen m)" by (rule bitlen_bounds[OF m0])
    have bl: "1 \<le> bitlen m"
    proof (rule ccontr)
      assume "\<not> 1 \<le> bitlen m"
      then have "nat (bitlen m) = 0" by simp
      with b m1 show False by simp
    qed
    have e: "binade x = bitlen m - 1" using True by (simp add: binade_def m_def)
    have lo: "(2::real) powi (bitlen m - 1) = of_int (2 ^ nat (bitlen m - 1))"
      using bl by (simp add: power_int_nonneg_exp)
    have hi: "(2::real) powi (bitlen m) = of_int (2 ^ nat (bitlen m))"
      using bl by (simp add: power_int_nonneg_exp)
    have "real_of_int (2 ^ nat (bitlen m - 1)) \<le> real_of_int m" using b by (simp only: of_int_le_iff)
    also have "\<dots> \<le> x" by (simp add: m_def)
    finally have 1: "2 powi (bitlen m - 1) \<le> x" by (simp only: lo)
    have "m + 1 \<le> 2 ^ nat (bitlen m)" using b by simp
    then have "real_of_int (m + 1) \<le> real_of_int (2 ^ nat (bitlen m))" by (simp only: of_int_le_iff)
    moreover have "x < real_of_int (m + 1)" by (simp add: m_def)
    ultimately have 2: "x < 2 powi (bitlen m)" by (simp only: hi)
    show ?thesis using 1 2 by (simp add: e)
  next
    case False
    then have x1: "x < 1" by simp
    define m where "m = \<lceil>1 / x\<rceil> - 1"
    have "1 < 1 / x" using assms x1 by simp
    then have "1 < \<lceil>1 / x\<rceil>" by (simp add: less_ceiling_iff)
    then have m1: "1 \<le> m" by (simp add: m_def)
    then have m0: "0 < m" by simp
    have b: "2 ^ nat (bitlen m - 1) \<le> m \<and> m < 2 ^ nat (bitlen m)" by (rule bitlen_bounds[OF m0])
    have bl: "1 \<le> bitlen m"
    proof (rule ccontr)
      assume "\<not> 1 \<le> bitlen m"
      then have "nat (bitlen m) = 0" by simp
      with b m1 show False by simp
    qed
    have e: "binade x = - bitlen m" using False by (simp add: binade_def m_def)
    have lo: "(2::real) powi (bitlen m - 1) = of_int (2 ^ nat (bitlen m - 1))"
      using bl by (simp add: power_int_nonneg_exp)
    have hi: "(2::real) powi (bitlen m) = of_int (2 ^ nat (bitlen m))"
      using bl by (simp add: power_int_nonneg_exp)
    have "real_of_int m < 1 / x" using ceiling_correct[of "1 / x"] by (simp add: m_def)
    moreover have "real_of_int (2 ^ nat (bitlen m - 1)) \<le> real_of_int m" using b by (simp only: of_int_le_iff)
    ultimately have 1: "2 powi (bitlen m - 1) < 1 / x" by (simp only: lo)
    have "m + 1 \<le> 2 ^ nat (bitlen m)" using b by simp
    then have "real_of_int (m + 1) \<le> real_of_int (2 ^ nat (bitlen m))" by (simp only: of_int_le_iff)
    moreover have "1 / x \<le> real_of_int (m + 1)" by (simp add: m_def)
    ultimately have 2: "1 / x \<le> 2 powi (bitlen m)" by (simp only: hi)
    have p1: "0 < (2::real) powi (bitlen m)" by simp
    have p2: "0 < (2::real) powi (bitlen m - 1)" by simp
    have a: "2 powi (- bitlen m) \<le> x"
    proof -
      have "1 \<le> 2 powi (bitlen m) * x" using 2 assms by (simp add: pos_divide_le_eq)
      then have "1 / 2 powi (bitlen m) \<le> x" using p1 by (simp add: pos_divide_le_eq mult.commute)
      then show ?thesis by (simp add: power_int_minus_divide)
    qed
    have b': "x < 2 powi (- bitlen m + 1)"
    proof -
      have "2 powi (bitlen m - 1) * x < 1" using 1 assms by (simp add: pos_less_divide_eq)
      then have "x < 1 / 2 powi (bitlen m - 1)" using p2 by (simp add: pos_less_divide_eq mult.commute)
      moreover have "- bitlen m + 1 = - (bitlen m - 1)" by simp
      ultimately show ?thesis by (simp only: power_int_minus_divide)
    qed
    show ?thesis using a b' by (simp add: e)
  qed
  then show "2 powi binade x \<le> x" and "x < 2 powi (binade x + 1)" by simp_all
qed

lemma pow2_less_cancel:
  assumes "(2::real) powi a < 2 powi b"
  shows "a < b"
proof (rule ccontr)
  assume "\<not> a < b"
  then have "b \<le> a" by simp
  then have "(2::real) powi b \<le> 2 powi a" by (rule power_int_increasing) simp
  with assms show False by simp
qed

lemma binade_unique:
  assumes "0 < x" "2 powi e \<le> x" "x < 2 powi (e + 1)"
  shows "binade x = e"
proof -
  have "(2::real) powi e < 2 powi (binade x + 1)"
    using assms(2) binade_bounds(2)[OF assms(1)] by linarith
  then have 1: "e < binade x + 1" by (rule pow2_less_cancel)
  have "(2::real) powi binade x < 2 powi (e + 1)"
    using assms(3) binade_bounds(1)[OF assms(1)] by linarith
  then have 2: "binade x < e + 1" by (rule pow2_less_cancel)
  show ?thesis using 1 2 by simp
qed

lemma binade_mono:
  assumes "0 < x" "x \<le> y"
  shows "binade x \<le> binade y"
proof -
  have y: "0 < y" using assms by simp
  have "(2::real) powi binade x < 2 powi (binade y + 1)"
    using binade_bounds(1)[OF assms(1)] binade_bounds(2)[OF y] assms(2) by linarith
  then have "binade x < binade y + 1" by (rule pow2_less_cancel)
  then show ?thesis by simp
qed

lemma round_half_even_int [simp]: "round_half_even (of_int k) = k"
  by (simp add: round_half_even_def)

lemma round_half_even_near:
  "\<bar>real_of_int (round_half_even x) - x\<bar> \<le> 1 / 2"
proof -
  have "real_of_int \<lfloor>x\<rfloor> \<le> x" "x < real_of_int \<lfloor>x\<rfloor> + 1" by linarith+
  then show ?thesis by (auto simp: round_half_even_def Let_def)
qed

lemma round_half_even_ge:
  assumes "real_of_int k \<le> x"
  shows "k \<le> round_half_even x"
proof -
  have "k \<le> \<lfloor>x\<rfloor>" using assms by (simp add: le_floor_iff)
  then show ?thesis by (auto simp: round_half_even_def Let_def)
qed

lemma round_half_even_le:
  assumes "x \<le> real_of_int k"
  shows "round_half_even x \<le> k"
proof (cases "x = real_of_int k")
  case True
  then show ?thesis by simp
next
  case False
  then have "x < real_of_int k" using assms by simp
  then have "\<lfloor>x\<rfloor> < k" by (simp add: floor_less_iff)
  then have "\<lfloor>x\<rfloor> + 1 \<le> k" by simp
  then show ?thesis by (auto simp: round_half_even_def Let_def)
qed

lemma round_half_even_mono:
  assumes "x \<le> y"
  shows "round_half_even x \<le> round_half_even y"
proof (cases "\<lfloor>x\<rfloor> = \<lfloor>y\<rfloor>")
  case True
  have "x - real_of_int \<lfloor>x\<rfloor> \<le> y - real_of_int \<lfloor>y\<rfloor>" using assms True by simp
  then show ?thesis using True by (auto simp: round_half_even_def Let_def)
next
  case False
  have "\<lfloor>x\<rfloor> \<le> \<lfloor>y\<rfloor>" using assms by (rule floor_mono)
  with False have "\<lfloor>x\<rfloor> + 1 \<le> \<lfloor>y\<rfloor>" by simp
  then have "real_of_int (\<lfloor>x\<rfloor> + 1) \<le> y" by (simp only: le_floor_iff)
  then have a: "\<lfloor>x\<rfloor> + 1 \<le> round_half_even y" by (rule round_half_even_ge)
  have "x \<le> real_of_int (\<lfloor>x\<rfloor> + 1)" by simp
  then have "round_half_even x \<le> \<lfloor>x\<rfloor> + 1" by (rule round_half_even_le)
  with a show ?thesis by simp
qed

lemma pow2_pos [simp]: "0 < (2::real) powi q" by simp

lemma pow2_split: "(2::real) powi (a + b) = 2 powi a * 2 powi b"
  by (simp add: power_int_add)

lemma pow2_diff: "(2::real) powi a / 2 powi b = 2 powi (a - b)"
  by (simp add: power_int_diff)

lemma pow2_nat: "0 \<le> a \<Longrightarrow> (2::real) powi a = real_of_int (2 ^ nat a)"
  by (simp add: power_int_nonneg_exp)

text \<open>The value on positive arguments.\<close>

lemma float64_pos:
  assumes "0 < x"
  shows "float64 x = real_of_int (round_half_even (x / 2 powi quantum x)) * 2 powi quantum x"
  using assms by (simp add: float64_def)

lemma float64_minus: "float64 (- x) = - float64 x"
  by (simp add: float64_def quantum_def sgn_if)

lemma float64_zero [simp]: "float64 0 = 0"
  by (simp add: float64_def)

text \<open>Below and above a point of the grid of \<open>x\<close>.\<close>

lemma float64_le_grid:
  assumes "0 < x" "x \<le> real_of_int k * 2 powi quantum x"
  shows "float64 x \<le> real_of_int k * 2 powi quantum x"
proof -
  have "x / 2 powi quantum x \<le> real_of_int k" using assms(2) by (simp add: pos_divide_le_eq)
  then have "round_half_even (x / 2 powi quantum x) \<le> k" by (rule round_half_even_le)
  then have "real_of_int (round_half_even (x / 2 powi quantum x)) \<le> real_of_int k"
    by (simp only: of_int_le_iff)
  then show ?thesis unfolding float64_pos[OF assms(1)] by (simp add: mult_right_mono)
qed

lemma float64_ge_grid:
  assumes "0 < x" "real_of_int k * 2 powi quantum x \<le> x"
  shows "real_of_int k * 2 powi quantum x \<le> float64 x"
proof -
  have "real_of_int k \<le> x / 2 powi quantum x" using assms(2) by (simp add: pos_le_divide_eq)
  then have "k \<le> round_half_even (x / 2 powi quantum x)" by (rule round_half_even_ge)
  then have "real_of_int k \<le> real_of_int (round_half_even (x / 2 powi quantum x))"
    by (simp only: of_int_le_iff)
  then show ?thesis unfolding float64_pos[OF assms(1)] by (simp add: mult_right_mono)
qed

lemma float64_nonneg:
  assumes "0 \<le> x"
  shows "0 \<le> float64 x"
proof (cases "x = 0")
  case True then show ?thesis by simp
next
  case False
  then have x: "0 < x" using assms by simp
  show ?thesis using float64_ge_grid[OF x, of 0] x by simp
qed

lemma quantum_mono:
  assumes "0 < x" "x \<le> y"
  shows "quantum x \<le> quantum y"
proof -
  have "binade \<bar>x\<bar> \<le> binade \<bar>y\<bar>" using assms binade_mono[of x y] by simp
  then show ?thesis by (simp add: quantum_def)
qed

lemma float64_mono_pos:
  assumes x: "0 < x" and xy: "x \<le> y"
  shows "float64 x \<le> float64 y"
proof -
  have y: "0 < y" using x xy by simp
  have q: "quantum x \<le> quantum y" by (rule quantum_mono[OF x xy])
  show ?thesis
  proof (cases "quantum x = quantum y")
    case True
    have "x / 2 powi quantum y \<le> y / 2 powi quantum y" using xy by (simp add: divide_right_mono)
    then have "round_half_even (x / 2 powi quantum y) \<le> round_half_even (y / 2 powi quantum y)"
      by (rule round_half_even_mono)
    then have "real_of_int (round_half_even (x / 2 powi quantum y))
        \<le> real_of_int (round_half_even (y / 2 powi quantum y))" by (simp only: of_int_le_iff)
    then show ?thesis unfolding float64_pos[OF x] float64_pos[OF y] True
      by (simp add: mult_right_mono)
  next
    case False
    with q have lt: "quantum x < quantum y" by simp
    define e where "e = binade y"
    have ax: "\<bar>x\<bar> = x" "\<bar>y\<bar> = y" using x y by simp_all
    have qy: "quantum y = e - 52" using lt by (simp add: quantum_def e_def ax max_def split: if_splits)
    have ex: "binade x < e" using lt by (simp add: quantum_def e_def ax max_def split: if_splits)
    have xb: "x < 2 powi e"
    proof -
      have "x < 2 powi (binade x + 1)" by (rule binade_bounds(2)[OF x])
      also have "\<dots> \<le> 2 powi e" using ex by (intro power_int_increasing) simp_all
      finally show ?thesis .
    qed
    have yb: "2 powi e \<le> y" unfolding e_def by (rule binade_bounds(1)[OF y])
    have d: "0 \<le> e - quantum x" using lt qy by simp
    have gx: "(2::real) powi e = real_of_int (2 ^ nat (e - quantum x)) * 2 powi quantum x"
    proof -
      have "(2::real) powi e = 2 powi ((e - quantum x) + quantum x)" by simp
      also have "\<dots> = 2 powi (e - quantum x) * 2 powi quantum x" by (rule pow2_split)
      finally show ?thesis by (simp only: pow2_nat[OF d])
    qed
    have gy: "(2::real) powi e = real_of_int (2 ^ 52) * 2 powi quantum y"
    proof -
      have "(2::real) powi e = 2 powi (52 + (e - 52))" by simp
      also have "\<dots> = 2 powi 52 * 2 powi (e - 52)" by (rule pow2_split)
      finally show ?thesis by (simp add: qy)
    qed
    have "float64 x \<le> 2 powi e"
      using float64_le_grid[OF x, of "2 ^ nat (e - quantum x)"] xb gx by simp
    moreover have "2 powi e \<le> float64 y"
      using float64_ge_grid[OF y, of "2 ^ 52"] yb gy by simp
    ultimately show ?thesis by simp
  qed
qed

lemma float64_mono:
  assumes "x \<le> y"
  shows "float64 x \<le> float64 y"
proof -
  consider "0 < x" | "x \<le> 0" "0 \<le> y" | "y < 0" by linarith
  then show ?thesis
  proof cases
    case 1
    then show ?thesis using assms by (rule float64_mono_pos)
  next
    case 2
    have "0 \<le> float64 (- x)" using 2 by (intro float64_nonneg) simp
    then have "float64 x \<le> 0" by (simp add: float64_minus)
    moreover have "0 \<le> float64 y" using 2 by (intro float64_nonneg)
    ultimately show ?thesis by simp
  next
    case 3
    have "float64 (- y) \<le> float64 (- x)" using 3 assms by (intro float64_mono_pos) simp_all
    then show ?thesis by (simp add: float64_minus)
  qed
qed

text \<open>Representable numbers are fixed.\<close>

lemma float64_exact_pos:
  assumes m: "0 < m" "m < 2 ^ 53" and q: "- 1074 \<le> q"
  shows "float64 (real_of_int m * 2 powi q) = real_of_int m * 2 powi q"
proof -
  define x where "x = real_of_int m * 2 powi q"
  have x: "0 < x" using m by (simp add: x_def)
  have qq: "quantum x \<le> q"
  proof (rule ccontr)
    assume "\<not> quantum x \<le> q"
    then have "q < binade x - 52" using q x by (simp add: quantum_def)
    then have "q + 53 \<le> binade x" by simp
    then have "(2::real) powi (q + 53) \<le> 2 powi binade x" by (intro power_int_increasing) simp_all
    also have "\<dots> \<le> x" by (rule binade_bounds(1)[OF x])
    finally have "2 powi q * 2 powi 53 \<le> real_of_int m * 2 powi q" by (simp add: pow2_split x_def)
    then have "(2::real) powi 53 \<le> real_of_int m" by (simp add: mult.commute)
    moreover have "real_of_int m < real_of_int (2 ^ 53)" using m(2) by (simp only: of_int_less_iff)
    ultimately show False by simp
  qed
  then have d: "0 \<le> q - quantum x" by simp
  have "(2::real) powi q = 2 powi ((q - quantum x) + quantum x)" by simp
  also have "\<dots> = 2 powi (q - quantum x) * 2 powi quantum x" by (rule pow2_split)
  finally have g: "(2::real) powi q = real_of_int (2 ^ nat (q - quantum x)) * 2 powi quantum x"
    by (simp only: pow2_nat[OF d])
  have "x = real_of_int m * 2 powi q" by (rule x_def)
  also have "\<dots> = real_of_int m * (real_of_int (2 ^ nat (q - quantum x)) * 2 powi quantum x)"
    by (rule arg_cong[OF g])
  finally have xg: "x = real_of_int (m * 2 ^ nat (q - quantum x)) * 2 powi quantum x"
    by (simp only: of_int_mult mult.assoc)
  have "x / 2 powi quantum x = real_of_int (m * 2 ^ nat (q - quantum x))"
    by (subst xg) simp
  then have "float64 x = real_of_int (m * 2 ^ nat (q - quantum x)) * 2 powi quantum x"
    unfolding float64_pos[OF x] by (simp only: round_half_even_int)
  then have "float64 x = x" by (simp only: xg[symmetric])
  then show ?thesis by (simp only: x_def)
qed

lemma float64_exact:
  assumes m: "\<bar>m\<bar> < 2 ^ 53" and q: "- 1074 \<le> q"
  shows "float64 (real_of_int m * 2 powi q) = real_of_int m * 2 powi q"
proof -
  consider "0 < m" | "m = 0" | "m < 0" by linarith
  then show ?thesis
  proof cases
    case 1
    then show ?thesis using m q by (intro float64_exact_pos) simp_all
  next
    case 2
    then show ?thesis by simp
  next
    case 3
    have "float64 (real_of_int (- m) * 2 powi q) = real_of_int (- m) * 2 powi q"
      using 3 m q by (intro float64_exact_pos) simp_all
    then have "float64 (- (real_of_int m * 2 powi q)) = - (real_of_int m * 2 powi q)" by simp
    then show ?thesis by (simp only: float64_minus neg_equal_iff_equal)
  qed
qed

lemma float64_of_int:
  assumes "\<bar>m\<bar> < 2 ^ 53"
  shows "float64 (real_of_int m) = real_of_int m"
  using float64_exact[OF assms, of 0] by simp

lemma float64_of_nat:
  assumes "n < 2 ^ 53"
  shows "float64 (real n) = real n"
proof -
  have "\<bar>int n\<bar> < 2 ^ 53" using assms by simp
  then show ?thesis using float64_of_int[of "int n"] by simp
qed

text \<open>The error of one rounding.\<close>

lemma float64_abs_error:
  assumes "0 < x"
  shows "\<bar>float64 x - x\<bar> \<le> 2 powi quantum x / 2"
proof -
  define r where "r = real_of_int (round_half_even (x / 2 powi quantum x))"
  have "\<bar>r - x / 2 powi quantum x\<bar> \<le> 1 / 2" unfolding r_def by (rule round_half_even_near)
  then have "\<bar>r - x / 2 powi quantum x\<bar> * 2 powi quantum x \<le> 1 / 2 * 2 powi quantum x"
    by (rule mult_right_mono) simp
  moreover have "\<bar>r - x / 2 powi quantum x\<bar> * 2 powi quantum x = \<bar>r * 2 powi quantum x - x\<bar>"
  proof -
    have "\<bar>r - x / 2 powi quantum x\<bar> * 2 powi quantum x
        = \<bar>(r - x / 2 powi quantum x) * 2 powi quantum x\<bar>" by (simp add: abs_mult)
    also have "(r - x / 2 powi quantum x) * 2 powi quantum x = r * 2 powi quantum x - x"
      by (simp add: algebra_simps)
    finally show ?thesis .
  qed
  ultimately show ?thesis unfolding float64_pos[OF assms] r_def by simp
qed

lemma float64_rel_error:
  assumes "2 powi (- 1022) \<le> x"
  shows "\<bar>float64 x - x\<bar> \<le> x / 2 ^ 53"
proof -
  have "0 < (2::real) powi (- 1022)" by (rule pow2_pos)
  with assms have x: "0 < x" by linarith
  have b: "- 1022 \<le> binade x"
  proof -
    have "(2::real) powi (- 1022) < 2 powi (binade x + 1)"
      using assms binade_bounds(2)[OF x] by linarith
    then have "- 1022 < binade x + 1" by (rule pow2_less_cancel)
    then show ?thesis by simp
  qed
  then have q: "quantum x = binade x - 52" using x by (simp add: quantum_def)
  have "(2::real) powi quantum x / 2 = 2 powi binade x / 2 ^ 53"
  proof -
    have "(2::real) powi binade x = 2 powi (quantum x + 52)" by (simp add: q)
    also have "\<dots> = 2 powi quantum x * 2 powi 52" by (rule pow2_split)
    finally show ?thesis by simp
  qed
  also have "\<dots> \<le> x / 2 ^ 53" using binade_bounds(1)[OF x] by (simp add: divide_right_mono)
  finally show ?thesis using float64_abs_error[OF x] by linarith
qed

text \<open>The value, once the binade is known.\<close>

lemma float64_eval:
  assumes "0 < x" "2 powi e \<le> x" "x < 2 powi (e + 1)"
  shows "float64 x = real_of_int (round_half_even (x / 2 powi (max (e - 52) (- 1074))))
           * 2 powi (max (e - 52) (- 1074))"
proof -
  have "binade x = e" using assms by (rule binade_unique)
  then have "quantum x = max (e - 52) (- 1074)" using assms(1) by (simp add: quantum_def)
  then show ?thesis using float64_pos[OF assms(1)] by simp
qed

lemma float64_underflow:
  assumes "0 \<le> x" "x \<le> 2 powi (- 1075)"
  shows "float64 x = 0"
proof (cases "x = 0")
  case True
  then show ?thesis by simp
next
  case False
  then have x: "0 < x" using assms by simp
  have h: "(2::real) powi (- 1074) = 2 * 2 powi (- 1075)"
    using pow2_split[of 1 "- 1075"] by simp
  have u: "0 < (2::real) powi (- 1075)" by (rule pow2_pos)
  have "2 powi binade x \<le> x" by (rule binade_bounds(1)[OF x])
  also have "x < 2 powi (- 1074)" using assms(2) h u by linarith
  finally have "binade x < - 1074" by (rule pow2_less_cancel)
  then have q: "quantum x = - 1074" using x by (simp add: quantum_def)
  have "x / 2 powi (- 1074) \<le> 1 / 2"
  proof -
    have "x * 2 \<le> 2 powi (- 1074)" using assms(2) h by linarith
    then have "x \<le> 2 powi (- 1074) / 2" by simp
    then have "x / 2 powi (- 1074) \<le> (2 powi (- 1074) / 2) / 2 powi (- 1074)"
      by (rule divide_right_mono) simp
    then show ?thesis by simp
  qed
  moreover have "0 \<le> x / 2 powi (- 1074)" using x by simp
  ultimately have "round_half_even (x / 2 powi (- 1074)) = 0"
  proof -
    assume a: "x / 2 powi (- 1074) \<le> 1 / 2" "0 \<le> x / 2 powi (- 1074)"
    then have "\<lfloor>x / 2 powi (- 1074)\<rfloor> = 0" by (simp only: floor_eq_iff) simp
    then show ?thesis using a by (simp add: round_half_even_def Let_def)
  qed
  then show ?thesis unfolding float64_pos[OF x] q by simp
qed

lemma float64_le_int:
  assumes "x \<le> real_of_int k" "\<bar>k\<bar> < 2 ^ 53"
  shows "float64 x \<le> real_of_int k"
  using float64_mono[OF assms(1)] float64_of_int[OF assms(2)] by simp

lemma float64_ge_int:
  assumes "real_of_int k \<le> x" "\<bar>k\<bar> < 2 ^ 53"
  shows "real_of_int k \<le> float64 x"
  using float64_mono[OF assms(1)] float64_of_int[OF assms(2)] by simp

lemma float64_le_pow2:
  assumes "x \<le> 2 powi q" "- 1074 \<le> q"
  shows "float64 x \<le> 2 powi q"
  using float64_mono[OF assms(1)] float64_exact[of 1 q] assms(2) by simp

lemma float64_ge_pow2:
  assumes "2 powi q \<le> x" "- 1074 \<le> q"
  shows "2 powi q \<le> float64 x"
  using float64_mono[OF assms(1)] float64_exact[of 1 q] assms(2) by simp

lemma float64_numeral:
  assumes "(numeral k :: int) < 2 ^ 53"
  shows "float64 (numeral k) = numeral k"
  using float64_of_int[of "numeral k"] assms by simp

lemma float64_one [simp]: "float64 1 = 1"
  using float64_of_int[of 1] by simp

lemma float64_upper:
  assumes "2 powi (- 1022) \<le> x"
  shows "float64 x \<le> x + x / 2 ^ 53"
  using float64_rel_error[OF assms] by linarith

lemma float64_lower:
  assumes "2 powi (- 1022) \<le> x"
  shows "x - x / 2 ^ 53 \<le> float64 x"
  using float64_rel_error[OF assms] by linarith

lemma float64_three_tenths:
  "0 \<le> float64 (3 / 10)" "float64 (3 / 10) \<le> 5 / 16"
proof -
  show "0 \<le> float64 (3 / 10)" by (rule float64_nonneg) simp
  have "float64 (3 / 10) \<le> float64 (real_of_int 5 * 2 powi (- 4))"
    by (rule float64_mono) simp
  also have "\<dots> = real_of_int 5 * 2 powi (- 4)" by (rule float64_exact) simp_all
  finally show "float64 (3 / 10) \<le> 5 / 16" by simp
qed

subsection \<open>Partition planner\<close>

lemma num_bounds:
  fixes t :: int
  assumes "1 \<le> t"
  shows "(\<lceil>real n / real_of_int t\<rceil> - 1) * t < int n" and "int n \<le> \<lceil>real n / real_of_int t\<rceil> * t"
proof -
  let ?q = "\<lceil>real n / real_of_int t\<rceil>"
  have tpos: "0 < real_of_int t" using assms by simp
  have "real_of_int ?q - 1 < real n / real_of_int t" using ceiling_correct by blast
  then have "(real_of_int ?q - 1) * real_of_int t < real n" using tpos by (simp add: pos_less_divide_eq)
  then have "real_of_int ((?q - 1) * t) < real_of_int (int n)" by simp
  then show "(?q - 1) * t < int n" by (simp only: of_int_less_iff)
  have "real n / real_of_int t \<le> real_of_int ?q" by (rule le_of_int_ceiling)
  then have "real n \<le> real_of_int ?q * real_of_int t" using tpos by (simp only: pos_divide_le_eq)
  then have "real_of_int (int n) \<le> real_of_int (?q * t)" by simp
  then show "int n \<le> ?q * t" by (simp only: of_int_le_iff)
qed


lemma plan_general:
  fixes t :: int
  assumes t1: "1 \<le> t" and n1: "1 \<le> n"
  defines "q \<equiv> \<lceil>real n / real_of_int t\<rceil>"
  defines "rs \<equiv> map (fragment_bounds n t) [0..<nat q]"
  shows "length rs = nat q"
    and "1 \<le> q"
    and "\<forall>k<length rs. rs ! k = (int k * t, min ((int k + 1) * t) (int n))"
    and "\<forall>k. Suc k < length rs \<longrightarrow> rs ! k = (int k * t, (int k + 1) * t)"
    and "rs ! (nat q - 1) = ((q - 1) * t, int n)"
    and "\<forall>k<length rs. fst (rs ! k) < snd (rs ! k)"
    and "(\<Union>(s, e) \<in> set rs. {s..<e}) = {0..<int n}"
proof -
  have lo: "(q - 1) * t < int n" and hi: "int n \<le> q * t"
    unfolding q_def using num_bounds[OF t1, of n] by auto
  show len: "length rs = nat q" by (simp add: rs_def)
  show q1: "1 \<le> q"
  proof (rule ccontr)
    assume "\<not> 1 \<le> q"
    then have "q \<le> 0" by simp
    then have "q * t \<le> 0" using t1 by (simp add: mult_le_0_iff)
    with hi n1 show False by simp
  qed
  show nth: "\<forall>k<length rs. rs ! k = (int k * t, min ((int k + 1) * t) (int n))"
    by (simp add: rs_def fragment_bounds_def)
  have inner: "(int k + 1) * t \<le> int n" if "Suc k < length rs" for k
  proof -
    have "int k + 1 \<le> q - 1" using that len by linarith
    then have "(int k + 1) * t \<le> (q - 1) * t" using t1 by (simp add: mult_right_mono)
    with lo show ?thesis by simp
  qed
  show full: "\<forall>k. Suc k < length rs \<longrightarrow> rs ! k = (int k * t, (int k + 1) * t)"
    using nth inner by (simp add: min_def)
  have "nat q - 1 < length rs" using len q1 by simp
  moreover have "int (nat q - 1) = q - 1" using q1 by simp
  ultimately show "rs ! (nat q - 1) = ((q - 1) * t, int n)"
    using nth hi by (simp add: min_def)
  show "\<forall>k<length rs. fst (rs ! k) < snd (rs ! k)"
  proof (intro allI impI)
    fix k assume k: "k < length rs"
    have "int k \<le> q - 1" using k len by linarith
    then have "int k * t \<le> (q - 1) * t" using t1 by (simp add: mult_right_mono)
    then have "int k * t < int n" using lo by simp
    moreover have "int k * t < (int k + 1) * t" using t1 by (simp add: algebra_simps)
    ultimately show "fst (rs ! k) < snd (rs ! k)" using nth k by simp
  qed
  show "(\<Union>(s, e) \<in> set rs. {s..<e}) = {0..<int n}"
  proof (intro set_eqI iffI)
    fix x assume "x \<in> (\<Union>(s, e) \<in> set rs. {s..<e})"
    then obtain k where k: "k < length rs" and x: "x \<in> {fst (rs ! k)..<snd (rs ! k)}"
      by (auto simp: in_set_conv_nth)
    have "0 \<le> int k * t" using t1 by simp
    then show "x \<in> {0..<int n}" using x nth k by simp
  next
    fix x assume x: "x \<in> {0..<int n}"
    define k where "k = nat (x div t)"
    have xd: "0 \<le> x div t" using x t1 by (simp add: pos_imp_zdiv_nonneg_iff)
    then have ik: "int k = x div t" by (simp add: k_def)
    have tp: "0 < t" using t1 by simp
    have dm: "t * (x div t) + x mod t = x" by (rule mult_div_mod_eq)
    have m0: "0 \<le> x mod t" using tp by (rule pos_mod_sign)
    have m1: "x mod t < t" using tp by (rule pos_mod_bound)
    have a': "t * (x div t) \<le> x" using dm m0 by linarith
    have b': "x < t * (x div t) + t" using dm m1 by linarith
    have a: "int k * t \<le> x" using a' by (simp only: ik mult.commute)
    have "(int k + 1) * t = t * (x div t) + t" by (simp add: ik algebra_simps)
    then have b: "x < (int k + 1) * t" using b' by simp
    have "int k < q"
    proof (rule ccontr)
      assume "\<not> int k < q"
      then have "q \<le> int k" by simp
      then have "q * t \<le> int k * t" using t1 by (simp add: mult_right_mono)
      with hi a x show False by simp
    qed
    then have kl: "k < length rs" using len by linarith
    have "x < min ((int k + 1) * t) (int n)" using b x by simp
    then have "x \<in> {fst (rs ! k)..<snd (rs ! k)}" using a nth kl by simp
    moreover have "rs ! k \<in> set rs" using kl by simp
    ultimately show "x \<in> (\<Union>(s, e) \<in> set rs. {s..<e})"
      by (auto simp: case_prod_beta intro!: bexI[of _ "rs ! k"])
  qed
qed

text \<open>The values the examples use: one tenth, and a thousand tenths.\<close>

lemma tenth_double: "float64 (1 / 10) = tenth"
proof -
  have "float64 (1 / 10) = real_of_int (round_half_even ((1 / 10) / 2 powi (max (- 4 - 52) (- 1074))))
           * 2 powi (max (- 4 - 52) (- 1074))"
    by (rule float64_eval) simp_all
  then show ?thesis by (simp add: round_half_even_def Let_def tenth_def)
qed

lemma thousand_tenths: "float64 (float64 1000 * tenth) = 100"
proof -
  have a: "float64 1000 = 1000" using float64_of_nat[of 1000] by simp
  have "float64 (1000 * tenth) = real_of_int (round_half_even ((1000 * tenth) / 2 powi (max (6 - 52) (- 1074))))
           * 2 powi (max (6 - 52) (- 1074))"
    by (rule float64_eval) (simp_all add: tenth_def)
  then have "float64 (1000 * tenth) = 100" by (simp add: round_half_even_def Let_def tenth_def)
  then show ?thesis by (simp only: a)
qed

text \<open>
  The number of trajectories per fragment against the exact ceiling, where it is positive,
  and the second ceiling, which is exact below \<open>2\<^sup>5\<^sup>3\<close> trajectories.
\<close>

lemma tpf_bounds:
  assumes n: "n < 2 ^ 53" and np: "\<bar>real n * p\<bar> < 2 ^ 52"
  shows "\<lceil>real n * p / 100\<rceil> - 1 \<le> trajectories_per_fragment n p"
    and "trajectories_per_fragment n p \<le> \<lceil>real n * p / 100\<rceil>"
proof -
  define x where "x = real n * p / 100"
  define K where "K = \<lceil>x\<rceil>"
  have fn: "float64 (real n) = real n" by (rule float64_of_nat[OF n])
  have ax: "\<bar>x\<bar> * 100 < 2 ^ 52" using np by (simp add: x_def)
  have k1: "real_of_int K - 1 < x" and k2: "x \<le> real_of_int K"
    unfolding K_def using ceiling_correct[of x] by simp_all
  have "\<bar>real_of_int K\<bar> < \<bar>x\<bar> + 1" using k1 k2 by linarith
  then have "\<bar>real_of_int K\<bar> * 100 < 2 ^ 53" using ax by simp
  then have "real_of_int (\<bar>100 * K\<bar>) < real_of_int (2 ^ 53)" by (simp add: abs_mult)
  then have r1: "\<bar>100 * K\<bar> < 2 ^ 53" by (simp only: of_int_less_iff)
  then have r2: "\<bar>K\<bar> < 2 ^ 53" by simp
  have "\<bar>real_of_int K - 1\<bar> \<le> \<bar>x\<bar> + 1" using k1 k2 by linarith
  then have "100 * \<bar>real_of_int K - 1\<bar> < 2 ^ 53" using ax by simp
  moreover have "real_of_int (\<bar>100 * (K - 1)\<bar>) = 100 * \<bar>real_of_int K - 1\<bar>"
  proof -
    have "real_of_int (\<bar>100 * (K - 1)\<bar>) = \<bar>100 * (real_of_int K - 1)\<bar>" by simp
    also have "\<dots> = \<bar>100\<bar> * \<bar>real_of_int K - 1\<bar>" by (rule abs_mult)
    finally show ?thesis by simp
  qed
  ultimately have "real_of_int (\<bar>100 * (K - 1)\<bar>) < real_of_int (2 ^ 53)" by simp
  then have r3: "\<bar>100 * (K - 1)\<bar> < 2 ^ 53" by (simp only: of_int_less_iff)
  then have r4: "\<bar>K - 1\<bar> < 2 ^ 53" by simp
  have "real n * p \<le> real_of_int (100 * K)" using k2 by (simp add: x_def)
  then have "float64 (real n * p) \<le> real_of_int (100 * K)" using r1 by (rule float64_le_int)
  then have "float64 (real n * p) / 100 \<le> real_of_int K" by simp
  then have "float64 (float64 (real n * p) / 100) \<le> real_of_int K" using r2 by (rule float64_le_int)
  then have "\<lceil>float64 (float64 (real n * p) / 100)\<rceil> \<le> K" by (simp only: ceiling_le_iff)
  then show "trajectories_per_fragment n p \<le> \<lceil>real n * p / 100\<rceil>"
    by (simp add: trajectories_per_fragment_def fn K_def x_def)
  have "real_of_int (100 * (K - 1)) \<le> real n * p" using k1 by (simp add: x_def)
  then have "real_of_int (100 * (K - 1)) \<le> float64 (real n * p)" using r3 by (rule float64_ge_int)
  then have "real_of_int (K - 1) \<le> float64 (real n * p) / 100" by simp
  then have "real_of_int (K - 1) \<le> float64 (float64 (real n * p) / 100)"
    using r4 by (rule float64_ge_int)
  then have "K - 1 \<le> \<lceil>float64 (float64 (real n * p) / 100)\<rceil>"
  proof -
    assume a: "real_of_int (K - 1) \<le> float64 (float64 (real n * p) / 100)"
    have "float64 (float64 (real n * p) / 100)
            \<le> real_of_int \<lceil>float64 (float64 (real n * p) / 100)\<rceil>"
      by (rule le_of_int_ceiling)
    with a have "real_of_int (K - 1)
            \<le> real_of_int \<lceil>float64 (float64 (real n * p) / 100)\<rceil>" by linarith
    then show ?thesis by (simp only: of_int_le_iff)
  qed
  then show "\<lceil>real n * p / 100\<rceil> - 1 \<le> trajectories_per_fragment n p"
    by (simp add: trajectories_per_fragment_def fn K_def x_def)
qed

lemma tpf_nonneg:
  assumes "0 \<le> p"
  shows "0 \<le> trajectories_per_fragment n p"
proof -
  have "0 \<le> float64 (real n)" by (rule float64_nonneg) simp
  then have "0 \<le> float64 (real n) * p" using assms by simp
  then have "0 \<le> float64 (float64 (real n) * p)" by (rule float64_nonneg)
  then have "0 \<le> float64 (float64 (real n) * p) / 100" by simp
  then have "0 \<le> float64 (float64 (float64 (real n) * p) / 100)" by (rule float64_nonneg)
  then show ?thesis by (simp add: trajectories_per_fragment_def)
qed

lemma tpf_pos:
  assumes n1: "1 \<le> n" and n: "n < 2 ^ 53" and p: "2 powi (- 1067) \<le> p"
  shows "1 \<le> trajectories_per_fragment n p"
proof -
  have fn: "float64 (real n) = real n" by (rule float64_of_nat[OF n])
  have p0: "0 < p" using p pow2_pos[of "- 1067"] by linarith
  have "1 * p \<le> real n * p" using n1 p0 by (intro mult_right_mono) simp_all
  then have "2 powi (- 1067) \<le> real n * p" using p by linarith
  then have a: "2 powi (- 1067) \<le> float64 (real n * p)" by (rule float64_ge_pow2) simp
  have "(2::real) powi (7 + (- 1074)) = 2 powi 7 * 2 powi (- 1074)" by (rule pow2_split)
  moreover have "(7::int) + (- 1074) = - 1067" by simp
  moreover have "(2::real) powi 7 = 128" by simp
  ultimately have "(2::real) powi (- 1067) = 128 * 2 powi (- 1074)" by (simp only:)
  then have "100 * 2 powi (- 1074) \<le> float64 (real n * p)"
    using a pow2_pos[of "- 1074"] by linarith
  then have "2 powi (- 1074) \<le> float64 (real n * p) / 100" by linarith
  then have "2 powi (- 1074) \<le> float64 (float64 (real n * p) / 100)"
    by (rule float64_ge_pow2) simp
  then have "0 < float64 (float64 (real n * p) / 100)" using pow2_pos[of "- 1074"] by linarith
  then have "0 < \<lceil>float64 (float64 (real n * p) / 100)\<rceil>" by (simp only: less_ceiling_iff of_int_0)
  then show ?thesis by (simp add: trajectories_per_fragment_def fn)
qed

lemma num_fragments_exact:
  fixes t :: int
  assumes t1: "1 \<le> t" and tn: "t \<le> int n" and n: "n < 2 ^ 53"
  shows "\<lceil>float64 (real n / real_of_int t)\<rceil> = \<lceil>real n / real_of_int t\<rceil>"
proof -
  define x where "x = real n / real_of_int t"
  define q where "q = \<lceil>x\<rceil>"
  have tp: "0 < real_of_int t" using t1 by simp
  have lo: "(q - 1) * t < int n" and hi: "int n \<le> q * t"
    unfolding q_def x_def using num_bounds[OF t1, of n] by auto
  have x1: "1 \<le> x"
  proof -
    have "real_of_int t \<le> real_of_int (int n)" using tn by (simp only: of_int_le_iff)
    then have "real_of_int t \<le> real n" by simp
    then show ?thesis using tp by (simp add: x_def)
  qed
  have xn: "x \<le> real n"
  proof -
    have "real n \<le> real n * real_of_int t" using t1 by (simp add: mult_le_cancel_left1)
    then show ?thesis using tp by (simp add: x_def pos_divide_le_eq)
  qed
  have xq: "x \<le> real_of_int q" unfolding q_def by (rule le_of_int_ceiling)
  have qn: "q \<le> int n"
  proof -
    have "\<lceil>x\<rceil> \<le> \<lceil>real_of_int (int n)\<rceil>" using xn by (intro ceiling_mono) simp
    then show ?thesis by (simp add: q_def)
  qed
  have q1: "1 \<le> q"
  proof -
    have "0 < x" using x1 by simp
    then show ?thesis by (simp add: q_def less_ceiling_iff[symmetric])
  qed
  have "\<bar>q\<bar> < 2 ^ 53" using q1 qn n by simp
  with xq have "float64 x \<le> real_of_int q" by (rule float64_le_int)
  then have up: "\<lceil>float64 x\<rceil> \<le> q" by (simp only: ceiling_le_iff)
  have "(2::real) powi (- 1022) \<le> 2 powi 0" by (rule power_int_increasing) simp_all
  moreover have "(2::real) powi 0 = 1" by (rule power_int_0_right)
  ultimately have "2 powi (- 1022) \<le> x" using x1 by linarith
  then have fl: "x - x / 2 ^ 53 \<le> float64 x" by (rule float64_lower)
  have "(q - 1) * t + 1 \<le> int n" using lo by simp
  then have "real_of_int ((q - 1) * t + 1) \<le> real_of_int (int n)" by (simp only: of_int_le_iff)
  then have "real_of_int (q - 1) * real_of_int t + 1 \<le> real n" by simp
  then have "(real_of_int (q - 1) * real_of_int t + 1) / real_of_int t \<le> real n / real_of_int t"
    by (rule divide_right_mono) (use tp in simp)
  then have g: "real_of_int (q - 1) + 1 / real_of_int t \<le> x"
    using tp by (simp add: x_def add_divide_distrib)
  have "real n < real (2 ^ 53)" using n by (simp only: of_nat_less_iff)
  then have "real n < 2 ^ 53" by simp
  then have "real n / 2 ^ 53 < 1" by simp
  then have "(real n / 2 ^ 53) / real_of_int t < 1 / real_of_int t"
    using tp by (rule divide_strict_right_mono)
  moreover have "x / 2 ^ 53 = (real n / 2 ^ 53) / real_of_int t" by (simp add: x_def)
  ultimately have "x / 2 ^ 53 < 1 / real_of_int t" by (simp only:)
  then have "real_of_int (q - 1) < float64 x" using g fl by linarith
  then have "q - 1 < \<lceil>float64 x\<rceil>" by (simp only: less_ceiling_iff)
  then show ?thesis using up by (simp add: q_def x_def)
qed

lemma plan_of_tpf:
  assumes p0: "0 < percentage" and p100: "percentage \<le> 100"
      and t1: "1 \<le> trajectories_per_fragment n_traj percentage"
      and tn: "trajectories_per_fragment n_traj percentage \<le> int n_traj"
      and n: "n_traj < 2 ^ 53"
  shows "fragment_plan n_traj percentage =
           Inr (map (fragment_bounds n_traj (trajectories_per_fragment n_traj percentage))
                  [0..<nat \<lceil>real n_traj / real_of_int (trajectories_per_fragment n_traj percentage)\<rceil>])"
  using p0 p100 t1 num_fragments_exact[OF t1 tn n]
  by (simp add: fragment_plan_def num_fragments_def)

text \<open>
  Claim C1, as stated, fails: the two ceilings are taken of floats. With 1000
  trajectories and the percentage \<^verbatim>\<open>0.1\<close> (the binary64 number nearest to one tenth,
  which lies above it) the product \<^verbatim>\<open>n_traj * percentage\<close> rounds to 100.0, so a
  fragment holds 1 trajectory and the plan has 1000 ranges, where
  \<open>\<lceil>n_traj / \<lceil>n_traj * percentage / 100\<rceil>\<rceil>\<close> is 500.
\<close>

theorem fragment_plan_counterexample:
  "float64 (1 / 10) = 3602879701896397 / 36028797018963968
   \<and> (0::real) < 3602879701896397 / 36028797018963968
   \<and> (3602879701896397 / 36028797018963968 :: real) \<le> 100
   \<and> fragment_plan 1000 (3602879701896397 / 36028797018963968)
       = Inr (map (fragment_bounds 1000 1) [0..<1000])
   \<and> length (map (fragment_bounds 1000 1) [0..<1000]) = 1000
   \<and> nat \<lceil>real 1000 / real_of_int \<lceil>real 1000 * (3602879701896397 / 36028797018963968) / 100\<rceil>\<rceil> = 500"
proof -
  have t: "trajectories_per_fragment 1000 tenth = 1"
    by (simp add: trajectories_per_fragment_def thousand_tenths)
  have f: "float64 1000 = 1000" using float64_of_nat[of 1000] by simp
  have b: "0 < tenth" "tenth \<le> 100" by (simp_all add: tenth_def)
  have plan: "fragment_plan 1000 tenth = Inr (map (fragment_bounds 1000 1) [0..<1000])"
    using b by (simp add: fragment_plan_def num_fragments_def t f)
  show ?thesis using plan[unfolded tenth_def] tenth_double[unfolded tenth_def] by simp
qed

text \<open>
  Claim C1, amended. For \<open>1 \<le> n_traj < 2\<^sup>4\<^sup>5\<close> and a percentage in \<open>(0, 100]\<close>, the
  number of trajectories per fragment that line 316 computes is
  \<open>\<lceil>n_traj * percentage / 100\<rceil>\<close> or one less; it is at least 1 for every percentage
  from \<open>2\<^sup>-\<^sup>1\<^sup>0\<^sup>6\<^sup>7\<close> on; where it is 0 the run raises ZeroDivisionError (line 317);
  and where it is at least 1 the plan is produced, its length is
  \<open>\<lceil>n_traj / tpf\<rceil>\<close> for that number \<open>tpf\<close>, range \<open>k\<close> is
  \<open>[k * tpf, min ((k + 1) * tpf) n_traj)\<close>, the ranges start at 0, end at \<open>n_traj\<close>,
  each ends where the next starts, none is empty, they are pairwise disjoint, their
  union is \<open>[0, n_traj)\<close>, every range but the last holds exactly \<open>tpf\<close>
  trajectories, and the last holds at most \<open>tpf\<close>.
\<close>

theorem fragment_plan_partition:
  assumes n1: "1 \<le> n_traj" and n45: "n_traj < 2 ^ 45"
      and p0: "0 < percentage" and p100: "percentage \<le> 100"
  shows "\<lceil>real n_traj * percentage / 100\<rceil> - 1 \<le> trajectories_per_fragment n_traj percentage
    \<and> trajectories_per_fragment n_traj percentage \<le> \<lceil>real n_traj * percentage / 100\<rceil>
    \<and> (2 powi (- 1067) \<le> percentage \<longrightarrow> 1 \<le> trajectories_per_fragment n_traj percentage)
    \<and> (trajectories_per_fragment n_traj percentage < 1 \<longrightarrow>
          fragment_plan n_traj percentage = Inl ZeroDivisionError)
    \<and> (1 \<le> trajectories_per_fragment n_traj percentage \<longrightarrow>
         (\<exists>rs. fragment_plan n_traj percentage = Inr rs
           \<and> length rs = nat \<lceil>real n_traj
                 / real_of_int (trajectories_per_fragment n_traj percentage)\<rceil>
           \<and> (\<forall>k<length rs. rs ! k =
                 (int k * trajectories_per_fragment n_traj percentage,
                  min ((int k + 1) * trajectories_per_fragment n_traj percentage) (int n_traj)))
           \<and> rs \<noteq> [] \<and> fst (hd rs) = 0 \<and> snd (last rs) = int n_traj
           \<and> (\<forall>k. Suc k < length rs \<longrightarrow> snd (rs ! k) = fst (rs ! Suc k))
           \<and> (\<forall>k<length rs. fst (rs ! k) < snd (rs ! k))
           \<and> (\<forall>j k. j < k \<and> k < length rs \<longrightarrow>
                 {fst (rs ! j)..<snd (rs ! j)} \<inter> {fst (rs ! k)..<snd (rs ! k)} = {})
           \<and> (\<Union>(s, e) \<in> set rs. {s..<e}) = {0..<int n_traj}
           \<and> (\<forall>k. Suc k < length rs \<longrightarrow>
                 snd (rs ! k) - fst (rs ! k) = trajectories_per_fragment n_traj percentage)
           \<and> snd (last rs) - fst (last rs) \<le> trajectories_per_fragment n_traj percentage))"
proof -
  define t where "t = trajectories_per_fragment n_traj percentage"
  define q where "q = \<lceil>real n_traj / real_of_int t\<rceil>"
  define rs where "rs = map (fragment_bounds n_traj t) [0..<nat q]"
  have n53: "n_traj < 2 ^ 53"
  proof -
    have "(2::nat) ^ 45 \<le> 2 ^ 53" by simp
    with n45 show ?thesis by linarith
  qed
  have rn: "real n_traj < 2 ^ 45"
  proof -
    have "real n_traj < real (2 ^ 45)" using n45 by (simp only: of_nat_less_iff)
    then show ?thesis by simp
  qed
  have np: "\<bar>real n_traj * percentage\<bar> < 2 ^ 52"
  proof -
    have "real n_traj * percentage \<le> real n_traj * 100"
      using p100 by (intro mult_left_mono) simp_all
    moreover have "0 \<le> real n_traj * percentage" using p0 by simp
    ultimately show ?thesis using rn by simp
  qed
  have lower: "\<lceil>real n_traj * percentage / 100\<rceil> - 1 \<le> t"
    unfolding t_def by (rule tpf_bounds(1)[OF n53 np])
  have upper: "t \<le> \<lceil>real n_traj * percentage / 100\<rceil>"
    unfolding t_def by (rule tpf_bounds(2)[OF n53 np])
  have tn: "t \<le> int n_traj"
  proof -
    have "real n_traj * percentage / 100 \<le> real_of_int (int n_traj)"
      using p100 by (simp add: mult_left_mono)
    then have "\<lceil>real n_traj * percentage / 100\<rceil> \<le> int n_traj" by (simp only: ceiling_le_iff)
    with upper show ?thesis by simp
  qed
  have pos: "2 powi (- 1067) \<le> percentage \<longrightarrow> 1 \<le> t"
    unfolding t_def using tpf_pos[OF n1 n53] by blast
  have zero: "t < 1 \<longrightarrow> fragment_plan n_traj percentage = Inl ZeroDivisionError"
  proof
    assume "t < 1"
    moreover have "0 \<le> t" unfolding t_def by (rule tpf_nonneg) (use p0 in simp)
    ultimately have "t = 0" by simp
    then show "fragment_plan n_traj percentage = Inl ZeroDivisionError"
      using p0 p100 by (simp add: fragment_plan_def num_fragments_def t_def)
  qed
  have part: "\<exists>rs. fragment_plan n_traj percentage = Inr rs
           \<and> length rs = nat \<lceil>real n_traj / real_of_int t\<rceil>
           \<and> (\<forall>k<length rs. rs ! k = (int k * t, min ((int k + 1) * t) (int n_traj)))
           \<and> rs \<noteq> [] \<and> fst (hd rs) = 0 \<and> snd (last rs) = int n_traj
           \<and> (\<forall>k. Suc k < length rs \<longrightarrow> snd (rs ! k) = fst (rs ! Suc k))
           \<and> (\<forall>k<length rs. fst (rs ! k) < snd (rs ! k))
           \<and> (\<forall>j k. j < k \<and> k < length rs \<longrightarrow>
                 {fst (rs ! j)..<snd (rs ! j)} \<inter> {fst (rs ! k)..<snd (rs ! k)} = {})
           \<and> (\<Union>(s, e) \<in> set rs. {s..<e}) = {0..<int n_traj}
           \<and> (\<forall>k. Suc k < length rs \<longrightarrow> snd (rs ! k) - fst (rs ! k) = t)
           \<and> snd (last rs) - fst (last rs) \<le> t" if t1: "1 \<le> t"
  proof -
    note g = plan_general[OF t1 n1, folded q_def, folded rs_def]
    have len: "length rs = nat q" by (rule g(1))
    have q1: "1 \<le> q" by (rule g(2))
    have nth: "\<forall>k<length rs. rs ! k = (int k * t, min ((int k + 1) * t) (int n_traj))"
      by (rule g(3))
    have full: "\<forall>k. Suc k < length rs \<longrightarrow> rs ! k = (int k * t, (int k + 1) * t)"
      by (rule g(4))
    have lastr: "rs ! (nat q - 1) = ((q - 1) * t, int n_traj)" by (rule g(5))
    have ne: "rs \<noteq> []" using len q1 by auto
    have plan: "fragment_plan n_traj percentage = Inr rs"
      using plan_of_tpf[OF p0 p100 t1[unfolded t_def] tn[unfolded t_def] n53]
      by (simp add: rs_def q_def t_def)
    have hd0: "fst (hd rs) = 0"
    proof -
      have "hd rs = rs ! 0" using ne by (simp add: hd_conv_nth)
      moreover have "0 < length rs" using ne by simp
      ultimately show ?thesis using nth by simp
    qed
    have lastn: "snd (last rs) = int n_traj"
    proof -
      have "last rs = rs ! (length rs - 1)" using ne by (simp add: last_conv_nth)
      then show ?thesis using lastr len by simp
    qed
    have contig: "\<forall>k. Suc k < length rs \<longrightarrow> snd (rs ! k) = fst (rs ! Suc k)"
    proof (intro allI impI)
      fix k assume k: "Suc k < length rs"
      have "fst (rs ! Suc k) = int (Suc k) * t" using nth k by simp
      moreover have "snd (rs ! k) = (int k + 1) * t" using full k by simp
      ultimately show "snd (rs ! k) = fst (rs ! Suc k)" by (simp add: algebra_simps)
    qed
    have disj: "\<forall>j k. j < k \<and> k < length rs \<longrightarrow>
        {fst (rs ! j)..<snd (rs ! j)} \<inter> {fst (rs ! k)..<snd (rs ! k)} = {}"
    proof (intro allI impI)
      fix j k assume jk: "j < k \<and> k < length rs"
      then have "Suc j < length rs" by simp
      then have ej: "snd (rs ! j) = (int j + 1) * t" using full by simp
      have sk: "fst (rs ! k) = int k * t" using nth jk by simp
      have "int j + 1 \<le> int k" using jk by simp
      then have "(int j + 1) * t \<le> int k * t" using t1 by (simp add: mult_right_mono)
      then have "snd (rs ! j) \<le> fst (rs ! k)" using ej sk by simp
      then show "{fst (rs ! j)..<snd (rs ! j)} \<inter> {fst (rs ! k)..<snd (rs ! k)} = {}"
        by auto
    qed
    have short: "\<forall>k. Suc k < length rs \<longrightarrow> snd (rs ! k) - fst (rs ! k) = t"
      using full by (simp add: algebra_simps)
    have remainder: "snd (last rs) - fst (last rs) \<le> t"
    proof -
      have hi: "int n_traj \<le> q * t" unfolding q_def by (rule num_bounds(2)[OF t1])
      have "last rs = rs ! (length rs - 1)" using ne by (simp add: last_conv_nth)
      then have "last rs = ((q - 1) * t, int n_traj)" using lastr len by simp
      then show ?thesis using hi by (simp add: algebra_simps)
    qed
    show ?thesis
    proof (intro exI[of _ rs] conjI)
      show "snd (last rs) - fst (last rs) \<le> t" by (rule remainder)
      show "fragment_plan n_traj percentage = Inr rs" by (rule plan)
      show "length rs = nat \<lceil>real n_traj / real_of_int t\<rceil>" using len by (simp only: q_def)
      show "\<forall>k<length rs. rs ! k = (int k * t, min ((int k + 1) * t) (int n_traj))"
        by (rule nth)
      show "rs \<noteq> []" by (rule ne)
      show "fst (hd rs) = 0" by (rule hd0)
      show "snd (last rs) = int n_traj" by (rule lastn)
      show "\<forall>k. Suc k < length rs \<longrightarrow> snd (rs ! k) = fst (rs ! Suc k)" by (rule contig)
      show "\<forall>k<length rs. fst (rs ! k) < snd (rs ! k)" by (rule g(6))
      show "\<forall>j k. j < k \<and> k < length rs \<longrightarrow>
        {fst (rs ! j)..<snd (rs ! j)} \<inter> {fst (rs ! k)..<snd (rs ! k)} = {}" by (rule disj)
      show "(\<Union>(s, e) \<in> set rs. {s..<e}) = {0..<int n_traj}" by (rule g(7))
      show "\<forall>k. Suc k < length rs \<longrightarrow> snd (rs ! k) - fst (rs ! k) = t" by (rule short)
    qed
  qed
  show ?thesis
    unfolding t_def[symmetric]
  proof (intro conjI)
    show "\<lceil>real n_traj * percentage / 100\<rceil> - 1 \<le> t" by (rule lower)
    show "t \<le> \<lceil>real n_traj * percentage / 100\<rceil>" by (rule upper)
    show "2 powi (- 1067) \<le> percentage \<longrightarrow> 1 \<le> t" by (rule pos)
    show "t < 1 \<longrightarrow> fragment_plan n_traj percentage = Inl ZeroDivisionError" by (rule zero)
    show "1 \<le> t \<longrightarrow> (\<exists>rs. fragment_plan n_traj percentage = Inr rs
           \<and> length rs = nat \<lceil>real n_traj / real_of_int t\<rceil>
           \<and> (\<forall>k<length rs. rs ! k = (int k * t, min ((int k + 1) * t) (int n_traj)))
           \<and> rs \<noteq> [] \<and> fst (hd rs) = 0 \<and> snd (last rs) = int n_traj
           \<and> (\<forall>k. Suc k < length rs \<longrightarrow> snd (rs ! k) = fst (rs ! Suc k))
           \<and> (\<forall>k<length rs. fst (rs ! k) < snd (rs ! k))
           \<and> (\<forall>j k. j < k \<and> k < length rs \<longrightarrow>
                 {fst (rs ! j)..<snd (rs ! j)} \<inter> {fst (rs ! k)..<snd (rs ! k)} = {})
           \<and> (\<Union>(s, e) \<in> set rs. {s..<e}) = {0..<int n_traj}
           \<and> (\<forall>k. Suc k < length rs \<longrightarrow> snd (rs ! k) - fst (rs ! k) = t)
           \<and> snd (last rs) - fst (last rs) \<le> t)"
      using part by blast
  qed
qed

lemma tpf_underflow: "trajectories_per_fragment 1 (2 powi (- 1074)) = 0"
proof -
  have a: "float64 (real 1) = 1" by simp
  have b: "float64 (1 * 2 powi (- 1074)) = 2 powi (- 1074)"
    using float64_exact[of 1 "- 1074"] by simp
  have h: "(2::real) powi (- 1074) = 2 * 2 powi (- 1075)"
    using pow2_split[of 1 "- 1075"] by simp
  have u: "0 < (2::real) powi (- 1075)" by (rule pow2_pos)
  have "float64 (2 powi (- 1074) / 100) = 0"
    by (rule float64_underflow) (use h u in linarith)+
  then show ?thesis
    unfolding trajectories_per_fragment_def a b by simp
qed

theorem fragment_plan_partition_witness:
  "(1::nat) \<le> 250 \<and> (250::nat) < 2 ^ 45 \<and> (0::real) < 40 \<and> (40::real) \<le> 100
   \<and> 2 powi (- 1067) \<le> (40::real)
   \<and> 1 \<le> trajectories_per_fragment 250 40
   \<and> trajectories_per_fragment 250 40 = 100
   \<and> (\<exists>rs. fragment_plan 250 40 = Inr rs \<and> length rs = 3 \<and> rs \<noteq> []
        \<and> fst (hd rs) = 0 \<and> snd (last rs) = 250
        \<and> (\<Union>(s, e) \<in> set rs. {s..<e}) = {0..<250})
   \<and> (1::nat) \<le> 1 \<and> (1::nat) < 2 ^ 45 \<and> (0::real) < 2 powi (- 1074)
   \<and> (2 powi (- 1074) :: real) \<le> 100
   \<and> trajectories_per_fragment 1 (2 powi (- 1074)) < 1
   \<and> fragment_plan 1 (2 powi (- 1074)) = Inl ZeroDivisionError"
proof -
  have h: "(1::nat) \<le> 250" "(250::nat) < 2 ^ 45" "(0::real) < 40" "(40::real) \<le> 100"
    by simp_all
  have f: "float64 250 = 250" "float64 10000 = 10000" "float64 100 = 100"
    by (simp_all add: float64_numeral)
  have t: "trajectories_per_fragment 250 40 = 100"
    by (simp add: trajectories_per_fragment_def f)
  have s: "2 powi (- 1067) \<le> (40::real)"
  proof -
    have "(2::real) powi (- 1067) \<le> 2 powi 0" by (rule power_int_increasing) simp_all
    then show ?thesis by simp
  qed
  note c = fragment_plan_partition[OF h]
  have t1: "1 \<le> trajectories_per_fragment 250 40"
    using c[THEN conjunct2, THEN conjunct2, THEN conjunct1] s by (rule mp)
  note c5 = c[THEN conjunct2, THEN conjunct2, THEN conjunct2, THEN conjunct2, THEN mp, OF t1]
  obtain rs where r: "fragment_plan 250 40 = Inr rs
           \<and> length rs = nat \<lceil>real 250
                 / real_of_int (trajectories_per_fragment 250 40)\<rceil>
           \<and> (\<forall>k<length rs. rs ! k =
                 (int k * trajectories_per_fragment 250 40,
                  min ((int k + 1) * trajectories_per_fragment 250 40) (int 250)))
           \<and> rs \<noteq> [] \<and> fst (hd rs) = 0 \<and> snd (last rs) = int 250
           \<and> (\<forall>k. Suc k < length rs \<longrightarrow> snd (rs ! k) = fst (rs ! Suc k))
           \<and> (\<forall>k<length rs. fst (rs ! k) < snd (rs ! k))
           \<and> (\<forall>j k. j < k \<and> k < length rs \<longrightarrow>
                 {fst (rs ! j)..<snd (rs ! j)} \<inter> {fst (rs ! k)..<snd (rs ! k)} = {})
           \<and> (\<Union>(s, e) \<in> set rs. {s..<e}) = {0..<int 250}
           \<and> (\<forall>k. Suc k < length rs \<longrightarrow>
                 snd (rs ! k) - fst (rs ! k) = trajectories_per_fragment 250 40)
           \<and> snd (last rs) - fst (last rs) \<le> trajectories_per_fragment 250 40"
    using c5 ..
  have a: "fragment_plan 250 40 = Inr rs" using r by (rule conjunct1)
  have b: "length rs = 3" using r[THEN conjunct2, THEN conjunct1] by (simp add: t)
  note r3 = r[THEN conjunct2, THEN conjunct2, THEN conjunct2]
  have c: "rs \<noteq> []" using r3 by (rule conjunct1)
  have d: "fst (hd rs) = 0" using r3[THEN conjunct2] by (rule conjunct1)
  have e: "snd (last rs) = 250" using r3[THEN conjunct2, THEN conjunct2, THEN conjunct1] by simp
  note r9 = r3[THEN conjunct2, THEN conjunct2, THEN conjunct2, THEN conjunct2,
      THEN conjunct2, THEN conjunct2]
  have f: "(\<Union>(s, e) \<in> set rs. {s..<e}) = {0..<250}" using r9[THEN conjunct1] by simp
  have ex: "\<exists>rs. fragment_plan 250 40 = Inr rs \<and> length rs = 3 \<and> rs \<noteq> []
        \<and> fst (hd rs) = 0 \<and> snd (last rs) = 250
        \<and> (\<Union>(s, e) \<in> set rs. {s..<e}) = {0..<250}"
    by (intro conjI exI[of _ rs]) (rule a b c d e f)+
  have g: "(1::nat) \<le> 1" "(1::nat) < 2 ^ 45" "(0::real) < 2 powi (- 1074)"
    "(2 powi (- 1074) :: real) \<le> 100"
  proof -
    show "(1::nat) \<le> 1" "(1::nat) < 2 ^ 45" by simp_all
    show "(0::real) < 2 powi (- 1074)" by (rule pow2_pos)
    have "(2::real) powi (- 1074) \<le> 2 powi 0" by (rule power_int_increasing) simp_all
    then show "(2 powi (- 1074) :: real) \<le> 100" by simp
  qed
  have u: "trajectories_per_fragment 1 (2 powi (- 1074)) < 1" by (simp only: tpf_underflow)
  note z = fragment_plan_partition[OF g, THEN conjunct2, THEN conjunct2, THEN conjunct2,
      THEN conjunct1, rule_format, OF u]
  show ?thesis
    by (intro conjI) (rule h s t1 t ex g u z)+
qed

subsection \<open>Memory budget estimator\<close>

text \<open>The estimator, with the estimate and the reading in megabytes named.\<close>

lemma est_cases:
  fixes percentage :: real and avail :: nat
  assumes tr: "map_of (sizes ds) ''trajectory'' = Some n_traj"
      and ti: "map_of (sizes ds) ''time'' = Some n_time"
  defines "E \<equiv> float64 (float64 (real_of_int (trajectories_per_fragment n_traj percentage
                   * int n_time * 4 * int (length (data_vars ds))) / 1024 ^ 2) * 3)"
  defines "A \<equiv> float64 (real avail / 1024 ^ 2)"
  shows "estimate_memory_requirements ds percentage avail =
     (if E < float64 (A * 0.5) then Inr (E, A, True, percentage)
      else if E = 0 then Inl ZeroDivisionError
      else Inr (E, A, False,
             max 1 (min 100 (float64 (float64 (float64 (A * float64 0.3) / E) * percentage)))))"
  unfolding estimate_memory_requirements_def Let_def tr ti option.case E_def A_def
    trajectories_per_fragment_def
  by simp

lemma example_source_facts:
  "map_of (sizes example_source) ''trajectory'' = Some 1000000"
  "map_of (sizes example_source) ''time'' = Some 1000"
  "length (data_vars example_source) = 1"
  by (simp_all add: example_source_def data_vars_def)

lemma small_source_facts:
  "map_of (sizes small_source) ''trajectory'' = Some 2"
  "map_of (sizes small_source) ''time'' = Some 1"
  "length (data_vars small_source) = 1"
  by (simp_all add: small_source_def data_vars_def)

lemma mb_exact:
  assumes "\<bar>m\<bar> < 2 ^ 53"
  shows "float64 (real_of_int m / 1024 ^ 2) = real_of_int m / 1024 ^ 2"
  using float64_exact[OF assms, of "- 20"] by simp

lemma half_mb_exact:
  assumes "\<bar>m\<bar> < 2 ^ 53"
  shows "float64 (real_of_int m / 1024 ^ 2 * 0.5) = real_of_int m / 1024 ^ 2 * 0.5"
  using float64_exact[OF assms, of "- 21"] by simp

lemma available_mb_pos:
  fixes avail :: nat
  assumes "0 < avail"
  shows "2 powi (- 20) \<le> float64 (real avail / 1024 ^ 2)"
proof -
  have "1 \<le> real avail" using assms by simp
  then have "2 powi (- 20) \<le> real avail / 1024 ^ 2" by simp
  then show ?thesis by (rule float64_ge_pow2) simp
qed

lemma half_lower:
  assumes A: "2 powi (- 20) \<le> A"
  shows "A / 2 - A / 2 / 2 ^ 53 \<le> float64 (A * 0.5)" and "0 < float64 (A * 0.5)"
proof -
  have s: "(2::real) powi (- 20) = 2 * 2 powi (- 21)" using pow2_split[of 1 "- 21"] by simp
  have u: "0 < (2::real) powi (- 21)" by (rule pow2_pos)
  have h: "2 powi (- 21) \<le> A * 0.5" using A s by simp
  have "(2::real) powi (- 1022) \<le> 2 powi (- 21)" by (rule power_int_increasing) simp_all
  with h have "2 powi (- 1022) \<le> A * 0.5" by linarith
  then have "A * 0.5 - A * 0.5 / 2 ^ 53 \<le> float64 (A * 0.5)" by (rule float64_lower)
  then show "A / 2 - A / 2 / 2 ^ 53 \<le> float64 (A * 0.5)" by simp
  have "2 powi (- 21) \<le> float64 (A * 0.5)" using h by (rule float64_ge_pow2) simp
  with u show "0 < float64 (A * 0.5)" by linarith
qed

lemma target_upper:
  assumes A: "2 powi (- 20) \<le> A"
  shows "float64 (A * float64 0.3) \<le> 5 / 16 * A + 5 / 16 * A / 2 ^ 53"
    and "0 \<le> float64 (A * float64 0.3)"
proof -
  define c where "c = float64 (3 / 10)"
  have c1: "c \<le> 5 / 16" unfolding c_def by (rule float64_three_tenths(2))
  have c0: "1 / 4 \<le> c"
  proof -
    have "float64 (real_of_int 1 * 2 powi (- 2)) \<le> float64 (3 / 10)" by (rule float64_mono) simp
    moreover have "float64 (real_of_int 1 * 2 powi (- 2)) = real_of_int 1 * 2 powi (- 2)"
      by (rule float64_exact) simp_all
    ultimately show ?thesis by (simp add: c_def)
  qed
  have A0: "0 < A" using A pow2_pos[of "- 20"] by linarith
  have s: "(2::real) powi (- 20) = 4 * 2 powi (- 22)" using pow2_split[of 2 "- 22"] by simp
  have "A * (1 / 4) \<le> A * c" using c0 A0 by (intro mult_left_mono) simp_all
  then have "2 powi (- 22) \<le> A * c" using A s by linarith
  moreover have "(2::real) powi (- 1022) \<le> 2 powi (- 22)" by (rule power_int_increasing) simp_all
  ultimately have "2 powi (- 1022) \<le> A * c" by linarith
  then have u: "float64 (A * c) \<le> A * c + A * c / 2 ^ 53" by (rule float64_upper)
  have "A * c \<le> A * (5 / 16)" using c1 A0 by (intro mult_left_mono) simp_all
  then have "A * c + A * c / 2 ^ 53 \<le> 5 / 16 * A + 5 / 16 * A / 2 ^ 53" by simp
  with u show "float64 (A * float64 0.3) \<le> 5 / 16 * A + 5 / 16 * A / 2 ^ 53"
    by (simp add: c_def)
  have "0 \<le> A * c" using A0 c0 by simp
  then have "0 \<le> float64 (A * c)" by (rule float64_nonneg)
  then show "0 \<le> float64 (A * float64 0.3)" by (simp add: c_def)
qed

text \<open>When the scaled estimate dominates the budget, the recommendation is clamped to 1.\<close>

lemma recommendation_clamped:
  assumes A: "2 powi (- 20) \<le> A" and E: "0 < E" and p: "0 \<le> p" and j: "- 1074 \<le> j"
      and b1: "3 * A \<le> 8 * E * 2 powi j" and b2: "p * 2 powi j \<le> 1"
  shows "max 1 (min 100 (float64 (float64 (float64 (A * float64 0.3) / E) * p))) = 1"
proof -
  define T where "T = float64 (A * float64 0.3)"
  have A0: "0 < A" using A pow2_pos[of "- 20"] by linarith
  have T1: "T \<le> 5 / 16 * A + 5 / 16 * A / 2 ^ 53" unfolding T_def by (rule target_upper(1)[OF A])
  have T0: "0 \<le> T" unfolding T_def by (rule target_upper(2)[OF A])
  have "T \<le> 3 / 8 * A" using T1 A0 by simp
  then have "T \<le> E * 2 powi j" using b1 by linarith
  then have "T / E \<le> 2 powi j" using E by (simp add: pos_divide_le_eq mult.commute)
  then have r1: "float64 (T / E) \<le> 2 powi j" using j by (rule float64_le_pow2)
  have r0: "0 \<le> float64 (T / E)" by (rule float64_nonneg) (use T0 E in simp)
  have "float64 (T / E) * p \<le> 2 powi j * p" using r1 p by (rule mult_right_mono)
  then have "float64 (T / E) * p \<le> 1" using b2 by (simp add: mult.commute)
  then have "float64 (float64 (T / E) * p) \<le> float64 1" by (rule float64_mono)
  then have "float64 (float64 (T / E) * p) \<le> 1" by simp
  then show ?thesis by (simp add: T_def)
qed

text \<open>The estimator where every step is exact: sizes and readings below \<open>2\<^sup>5\<^sup>3\<close>.\<close>

lemma est_exact:
  fixes avail :: nat
  assumes tr: "map_of (sizes ds) ''trajectory'' = Some n_traj"
      and ti: "map_of (sizes ds) ''time'' = Some n_time"
      and av: "0 < avail" and av53: "avail < 2 ^ 53"
      and Bdef: "B = trajectories_per_fragment n_traj percentage * int n_time * 4
                       * int (length (data_vars ds)) * 3"
      and B: "\<bar>B\<bar> < 2 ^ 53"
  shows "estimate_memory_requirements ds percentage avail =
     (if real_of_int B < 0.5 * real avail
      then Inr (real_of_int B / 1024 ^ 2, real avail / 1024 ^ 2, True, percentage)
      else Inr (real_of_int B / 1024 ^ 2, real avail / 1024 ^ 2, False,
             max 1 (min 100 (float64 (float64 (float64 (real avail / 1024 ^ 2 * float64 0.3)
                                        / (real_of_int B / 1024 ^ 2)) * percentage)))))"
proof -
  define fb where "fb = trajectories_per_fragment n_traj percentage * int n_time * 4
                       * int (length (data_vars ds))"
  have Bfb: "B = fb * 3" by (simp add: Bdef fb_def)
  then have fb53: "\<bar>fb\<bar> < 2 ^ 53" using B by simp
  have e1: "float64 (real_of_int fb / 1024 ^ 2) = real_of_int fb / 1024 ^ 2"
    by (rule mb_exact[OF fb53])
  have "float64 (real_of_int B / 1024 ^ 2) = real_of_int B / 1024 ^ 2" by (rule mb_exact[OF B])
  then have e2: "float64 (real_of_int fb / 1024 ^ 2 * 3) = real_of_int B / 1024 ^ 2"
    by (simp add: Bfb)
  have a53: "\<bar>int avail\<bar> < 2 ^ 53" using av53 by simp
  have a1: "float64 (real avail / 1024 ^ 2) = real avail / 1024 ^ 2"
    using mb_exact[OF a53] by simp
  have a2: "float64 (real avail / 1024 ^ 2 * 0.5) = real avail / 1024 ^ 2 * 0.5"
    using half_mb_exact[OF a53] by simp
  have s: "(real_of_int B / 1024 ^ 2 < real avail / 1024 ^ 2 * 0.5)
             = (real_of_int B < 0.5 * real avail)" by (simp add: field_simps)
  have z: "\<not> real_of_int B < 0.5 * real avail \<Longrightarrow> real_of_int B / 1024 ^ 2 \<noteq> 0"
    using av by auto
  show ?thesis
    unfolding est_cases[OF tr ti] fb_def[symmetric] e1 e2 a1 a2 s
    using z by simp
qed

lemma float64_numerals:
  "float64 2 = 2" "float64 50 = 50" "float64 100 = 100" "float64 250 = 250"
  "float64 1000 = 1000"
  "float64 5000 = 5000" "float64 10000 = 10000" "float64 20000 = 20000"
  "float64 50000 = 50000" "float64 100000 = 100000" "float64 500000 = 500000"
  "float64 1000000 = 1000000" "float64 1500000 = 1500000" "float64 2000000 = 2000000"
  "float64 5000000 = 5000000" "float64 10000000 = 10000000" "float64 150000000 = 150000000"
  by (simp_all add: float64_numeral)

lemma example_tpf:
  "trajectories_per_fragment 1000000 (1 / 2) = 5000"
  "trajectories_per_fragment 1000000 2 = 20000"
  "trajectories_per_fragment 1000000 5 = 50000"
  "trajectories_per_fragment 1000000 10 = 100000"
  "trajectories_per_fragment 1000000 150 = 1500000"
  "trajectories_per_fragment 2 50 = 1"
  by (simp_all add: trajectories_per_fragment_def float64_numerals)

lemma million_tenths: "trajectories_per_fragment 1000000 tenth = 1000"
proof -
  have "float64 (1000000 * tenth)
      = real_of_int (round_half_even ((1000000 * tenth) / 2 powi (max (16 - 52) (- 1074))))
           * 2 powi (max (16 - 52) (- 1074))"
    by (rule float64_eval) (simp_all add: tenth_def)
  then have "float64 (1000000 * tenth) = 100000"
    by (simp add: round_half_even_def Let_def tenth_def)
  then show ?thesis by (simp add: trajectories_per_fragment_def float64_numerals)
qed

lemma example_estimates:
  "estimate_memory_requirements example_source (1 / 2) 100000000 =
     Inr (60000000 / 1024 ^ 2, 100000000 / 1024 ^ 2, False, 1)"
  "estimate_memory_requirements example_source 2 100000000 =
     Inr (240000000 / 1024 ^ 2, 100000000 / 1024 ^ 2, False, 1)"
  "estimate_memory_requirements example_source 5 100000000 =
     Inr (600000000 / 1024 ^ 2, 100000000 / 1024 ^ 2, False, 1)"
  "estimate_memory_requirements example_source 10 100000000 =
     Inr (1200000000 / 1024 ^ 2, 100000000 / 1024 ^ 2, False, 1)"
  "estimate_memory_requirements example_source 150 100000000 =
     Inr (18000000000 / 1024 ^ 2, 100000000 / 1024 ^ 2, False, 1)"
proof -
  note ex = est_exact[OF example_source_facts(1,2), of 100000000, OF _ _ refl]
  have A: "(2::real) powi (- 20) \<le> 100000000 / 1024 ^ 2" by simp
  have r: "max 1 (min 100 (float64 (float64 (float64 (100000000 / 1024 ^ 2 * float64 0.3)
                                        / E) * p))) = 1"
    if "0 < E" "0 \<le> p" "- 1074 \<le> j" "3 * (100000000 / 1024 ^ 2) \<le> 8 * E * 2 powi j"
       "p * 2 powi j \<le> 1" for E p :: real and j :: int
    using recommendation_clamped[OF A that] .
  show "estimate_memory_requirements example_source (1 / 2) 100000000 =
     Inr (60000000 / 1024 ^ 2, 100000000 / 1024 ^ 2, False, 1)"
    using r[of "60000000 / 1024 ^ 2" "1 / 2" 0]
    by (subst ex) (simp_all add: example_source_facts example_tpf)
  show "estimate_memory_requirements example_source 2 100000000 =
     Inr (240000000 / 1024 ^ 2, 100000000 / 1024 ^ 2, False, 1)"
    using r[of "240000000 / 1024 ^ 2" 2 "- 2"]
    by (subst ex) (simp_all add: example_source_facts example_tpf)
  show "estimate_memory_requirements example_source 5 100000000 =
     Inr (600000000 / 1024 ^ 2, 100000000 / 1024 ^ 2, False, 1)"
    using r[of "600000000 / 1024 ^ 2" 5 "- 4"]
    by (subst ex) (simp_all add: example_source_facts example_tpf)
  show "estimate_memory_requirements example_source 10 100000000 =
     Inr (1200000000 / 1024 ^ 2, 100000000 / 1024 ^ 2, False, 1)"
    using r[of "1200000000 / 1024 ^ 2" 10 "- 4"]
    by (subst ex) (simp_all add: example_source_facts example_tpf)
  show "estimate_memory_requirements example_source 150 100000000 =
     Inr (18000000000 / 1024 ^ 2, 100000000 / 1024 ^ 2, False, 1)"
    using r[of "18000000000 / 1024 ^ 2" 150 "- 8"]
    by (subst ex) (simp_all add: example_source_facts example_tpf)
qed

lemma example_safe_estimates:
  "estimate_memory_requirements example_source 10 8000000000 =
     Inr (1200000000 / 1024 ^ 2, 8000000000 / 1024 ^ 2, True, 10)"
  "estimate_memory_requirements example_source 150 64000000000 =
     Inr (18000000000 / 1024 ^ 2, 64000000000 / 1024 ^ 2, True, 150)"
  "estimate_memory_requirements example_source tenth 8000000000 =
     Inr (12000000 / 1024 ^ 2, 8000000000 / 1024 ^ 2, True, tenth)"
  "estimate_memory_requirements small_source 50 8000000000 =
     Inr (12 / 1024 ^ 2, 8000000000 / 1024 ^ 2, True, 50)"
proof -
  show "estimate_memory_requirements example_source 10 8000000000 =
     Inr (1200000000 / 1024 ^ 2, 8000000000 / 1024 ^ 2, True, 10)"
    by (subst est_exact[OF example_source_facts(1,2) _ _ refl])
       (simp_all add: example_source_facts example_tpf)
  show "estimate_memory_requirements example_source 150 64000000000 =
     Inr (18000000000 / 1024 ^ 2, 64000000000 / 1024 ^ 2, True, 150)"
    by (subst est_exact[OF example_source_facts(1,2) _ _ refl])
       (simp_all add: example_source_facts example_tpf)
  show "estimate_memory_requirements example_source tenth 8000000000 =
     Inr (12000000 / 1024 ^ 2, 8000000000 / 1024 ^ 2, True, tenth)"
    by (subst est_exact[OF example_source_facts(1,2) _ _ refl])
       (simp_all add: example_source_facts million_tenths)
  show "estimate_memory_requirements small_source 50 8000000000 =
     Inr (12 / 1024 ^ 2, 8000000000 / 1024 ^ 2, True, 50)"
    by (subst est_exact[OF small_source_facts(1,2) _ _ refl])
       (simp_all add: small_source_facts example_tpf)
qed

text \<open>
  Claim C2, as stated, fails: \<^verbatim>\<open>frag_traj\<close> is the ceiling of a float. On the example
  source (one million trajectories, one thousand time steps, one variable) at the
  percentage \<^verbatim>\<open>0.1\<close> the estimator returns 12000000 bytes (in megabytes), where
  \<open>\<lceil>n_traj * percentage / 100\<rceil> * n_time * 4 * n_vars * 3\<close> is 12012000.
\<close>

theorem estimate_formula_counterexample:
  "float64 (1 / 10) = 3602879701896397 / 36028797018963968
   \<and> map_of (sizes example_source) ''trajectory'' = Some 1000000
   \<and> map_of (sizes example_source) ''time'' = Some 1000
   \<and> length (data_vars example_source) = 1
   \<and> estimate_memory_requirements example_source (3602879701896397 / 36028797018963968)
        8000000000
      = Inr (12000000 / 1024 ^ 2, 8000000000 / 1024 ^ 2, True,
             3602879701896397 / 36028797018963968)
   \<and> \<lceil>real 1000000 * (3602879701896397 / 36028797018963968) / 100\<rceil>
        * int 1000 * 4 * int 1 * 3 = 12012000
   \<and> (12000000 / 1024 ^ 2 :: real) * 1024 ^ 2 \<noteq> 12012000"
  using example_safe_estimates(3)[unfolded tenth_def] tenth_double[unfolded tenth_def]
  by (simp add: example_source_facts)

text \<open>
  Claim C2, amended. On a dataset with both dimensions, fewer than \<open>2\<^sup>5\<^sup>3\<close>
  trajectories, a product \<open>n_traj * percentage\<close> below \<open>2\<^sup>5\<^sup>2\<close> in magnitude and a
  positive reading of available memory below \<open>2\<^sup>5\<^sup>3\<close> bytes, and as long as the
  estimate is below \<open>2\<^sup>5\<^sup>3\<close> bytes, the estimator returns; its estimate, in bytes (the
  returned megabytes times \<open>1024\<^sup>2\<close>), is \<open>frag_traj * n_time * 4 * n_vars * 3\<close>,
  where \<open>frag_traj\<close> is the ceiling of the float \<^verbatim>\<open>n_traj * percentage / 100\<close>, which is
  \<open>\<lceil>n_traj * percentage / 100\<rceil>\<close> or one less; and it answers safe exactly when that
  estimate is less than half the available bytes.
\<close>

theorem estimate_memory_formula:
  fixes avail :: nat
  assumes tr: "map_of (sizes ds) ''trajectory'' = Some n_traj"
      and ti: "map_of (sizes ds) ''time'' = Some n_time"
      and av: "0 < avail" and av53: "avail < 2 ^ 53"
      and n53: "n_traj < 2 ^ 53" and np: "\<bar>real n_traj * percentage\<bar> < 2 ^ 52"
      and B: "\<bar>trajectories_per_fragment n_traj percentage * int n_time * 4
                * int (length (data_vars ds)) * 3\<bar> < 2 ^ 53"
  shows "(\<exists>recommended. estimate_memory_requirements ds percentage avail =
           Inr (real_of_int (trajectories_per_fragment n_traj percentage * int n_time * 4
                               * int (length (data_vars ds)) * 3) / 1024 ^ 2,
                real avail / 1024 ^ 2,
                real_of_int (trajectories_per_fragment n_traj percentage * int n_time * 4
                               * int (length (data_vars ds)) * 3) < 0.5 * real avail,
                recommended))
       \<and> trajectories_per_fragment n_traj percentage
           = \<lceil>float64 (float64 (float64 (real n_traj) * percentage) / 100)\<rceil>
       \<and> \<lceil>real n_traj * percentage / 100\<rceil> - 1 \<le> trajectories_per_fragment n_traj percentage
       \<and> trajectories_per_fragment n_traj percentage \<le> \<lceil>real n_traj * percentage / 100\<rceil>"
proof (intro conjI)
  show "\<exists>recommended. estimate_memory_requirements ds percentage avail =
           Inr (real_of_int (trajectories_per_fragment n_traj percentage * int n_time * 4
                               * int (length (data_vars ds)) * 3) / 1024 ^ 2,
                real avail / 1024 ^ 2,
                real_of_int (trajectories_per_fragment n_traj percentage * int n_time * 4
                               * int (length (data_vars ds)) * 3) < 0.5 * real avail,
                recommended)"
    unfolding est_exact[OF tr ti av av53 refl B] by simp
  show "trajectories_per_fragment n_traj percentage
           = \<lceil>float64 (float64 (float64 (real n_traj) * percentage) / 100)\<rceil>"
    by (rule trajectories_per_fragment_def)
  show "\<lceil>real n_traj * percentage / 100\<rceil> - 1 \<le> trajectories_per_fragment n_traj percentage"
    by (rule tpf_bounds(1)[OF n53 np])
  show "trajectories_per_fragment n_traj percentage \<le> \<lceil>real n_traj * percentage / 100\<rceil>"
    by (rule tpf_bounds(2)[OF n53 np])
qed

theorem estimate_memory_formula_witness:
  "map_of (sizes example_source) ''trajectory'' = Some 1000000 \<and>
   map_of (sizes example_source) ''time'' = Some 1000 \<and>
   (0::nat) < 8000000000 \<and> (8000000000::nat) < 2 ^ 53 \<and> (1000000::nat) < 2 ^ 53 \<and>
   \<bar>real 1000000 * 10\<bar> < 2 ^ 52 \<and>
   \<bar>trajectories_per_fragment 1000000 10 * int 1000 * 4
       * int (length (data_vars example_source)) * 3\<bar> < 2 ^ 53 \<and>
   trajectories_per_fragment 1000000 10 = 100000 \<and>
   (\<exists>recommended. estimate_memory_requirements example_source 10 8000000000 =
      Inr (1200000000 / 1024 ^ 2, 8000000000 / 1024 ^ 2, True, recommended))"
proof -
  have h: "(0::nat) < 8000000000" "(8000000000::nat) < 2 ^ 53" "(1000000::nat) < 2 ^ 53"
    "\<bar>real 1000000 * 10\<bar> < 2 ^ 52"
    "\<bar>trajectories_per_fragment 1000000 10 * int 1000 * 4
       * int (length (data_vars example_source)) * 3\<bar> < 2 ^ 53"
    by (simp_all add: example_tpf example_source_facts)
  have "\<exists>recommended. estimate_memory_requirements example_source 10 8000000000 =
      Inr (1200000000 / 1024 ^ 2, 8000000000 / 1024 ^ 2, True, recommended)"
    using estimate_memory_formula[OF example_source_facts(1,2) h, THEN conjunct1]
    by (simp add: example_source_facts example_tpf)
  then show ?thesis using h example_source_facts example_tpf(4) by simp
qed

lemma estimate_mono:
  fixes n_traj n_time n_vars :: nat
  assumes "p1 \<le> p2"
  shows "float64 (float64 (real_of_int (trajectories_per_fragment n_traj p1
                   * int n_time * 4 * int n_vars) / 1024 ^ 2) * 3)
       \<le> float64 (float64 (real_of_int (trajectories_per_fragment n_traj p2
                   * int n_time * 4 * int n_vars) / 1024 ^ 2) * 3)"
proof -
  have "0 \<le> float64 (real n_traj)" by (rule float64_nonneg) simp
  then have "float64 (real n_traj) * p1 \<le> float64 (real n_traj) * p2"
    using assms by (rule mult_left_mono[rotated])
  then have "float64 (float64 (real n_traj) * p1) \<le> float64 (float64 (real n_traj) * p2)"
    by (rule float64_mono)
  then have "float64 (float64 (real n_traj) * p1) / 100 \<le> float64 (float64 (real n_traj) * p2) / 100"
    by simp
  then have "float64 (float64 (float64 (real n_traj) * p1) / 100)
           \<le> float64 (float64 (float64 (real n_traj) * p2) / 100)"
    by (rule float64_mono)
  then have "trajectories_per_fragment n_traj p1 \<le> trajectories_per_fragment n_traj p2"
    unfolding trajectories_per_fragment_def by (rule ceiling_mono)
  then have "trajectories_per_fragment n_traj p1 * (int n_time * 4 * int n_vars)
          \<le> trajectories_per_fragment n_traj p2 * (int n_time * 4 * int n_vars)"
    by (rule mult_right_mono) simp
  then have "trajectories_per_fragment n_traj p1 * int n_time * 4 * int n_vars
          \<le> trajectories_per_fragment n_traj p2 * int n_time * 4 * int n_vars"
    by (simp only: mult.assoc)
  then have "real_of_int (trajectories_per_fragment n_traj p1 * int n_time * 4 * int n_vars)
          \<le> real_of_int (trajectories_per_fragment n_traj p2 * int n_time * 4 * int n_vars)"
    by (simp only: of_int_le_iff)
  then have "real_of_int (trajectories_per_fragment n_traj p1 * int n_time * 4 * int n_vars) / 1024 ^ 2
          \<le> real_of_int (trajectories_per_fragment n_traj p2 * int n_time * 4 * int n_vars) / 1024 ^ 2"
    by (rule divide_right_mono) simp
  then have "float64 (real_of_int (trajectories_per_fragment n_traj p1 * int n_time * 4 * int n_vars) / 1024 ^ 2)
          \<le> float64 (real_of_int (trajectories_per_fragment n_traj p2 * int n_time * 4 * int n_vars) / 1024 ^ 2)"
    by (rule float64_mono)
  then have "float64 (real_of_int (trajectories_per_fragment n_traj p1 * int n_time * 4 * int n_vars) / 1024 ^ 2) * 3
          \<le> float64 (real_of_int (trajectories_per_fragment n_traj p2 * int n_time * 4 * int n_vars) / 1024 ^ 2) * 3"
    by simp
  then show ?thesis by (rule float64_mono)
qed

text \<open>With a positive reading the estimator returns, and an unsafe estimate is positive.\<close>

lemma estimate_returns:
  fixes avail :: nat and percentage :: real
  assumes tr: "map_of (sizes ds) ''trajectory'' = Some n_traj"
      and ti: "map_of (sizes ds) ''time'' = Some n_time"
      and av: "0 < avail"
  defines "E \<equiv> float64 (float64 (real_of_int (trajectories_per_fragment n_traj percentage
                   * int n_time * 4 * int (length (data_vars ds))) / 1024 ^ 2) * 3)"
  defines "A \<equiv> float64 (real avail / 1024 ^ 2)"
  shows "estimate_memory_requirements ds percentage avail =
     (if E < float64 (A * 0.5) then Inr (E, A, True, percentage)
      else Inr (E, A, False,
             max 1 (min 100 (float64 (float64 (float64 (A * float64 0.3) / E) * percentage)))))"
    and "\<not> E < float64 (A * 0.5) \<Longrightarrow> 0 < E"
proof -
  have A: "2 powi (- 20) \<le> A" unfolding A_def by (rule available_mb_pos[OF av])
  show pos: "0 < E" if "\<not> E < float64 (A * 0.5)"
    using that half_lower(2)[OF A] by linarith
  show "estimate_memory_requirements ds percentage avail =
     (if E < float64 (A * 0.5) then Inr (E, A, True, percentage)
      else Inr (E, A, False,
             max 1 (min 100 (float64 (float64 (float64 (A * float64 0.3) / E) * percentage)))))"
    unfolding est_cases[OF tr ti] E_def[symmetric] A_def[symmetric]
    using pos by auto
qed

text \<open>
  Claim C3, as stated, fails below one percent: the recommendation is clamped to at least
  1. At half a percent on the example source with 100 MB available the estimate is
  unsafe and the recommendation is 1, which is not less than 1/2.
\<close>

theorem recommendation_counterexample:
  "estimate_memory_requirements example_source (1/2) 100000000 =
     Inr (60000000 / 1024 ^ 2, 100000000 / 1024 ^ 2, False, 1) \<and> \<not> (1::real) < 1/2"
  using example_estimates(1) by simp

text \<open>
  Claim C3, amended. For a fixed dataset and a positive reading of available memory the
  estimate is returned for every percentage and is non-decreasing in it; and for every
  percentage in \<open>(1, 100]\<close> that the estimator reports unsafe, the recommended
  percentage is strictly less than the percentage.
\<close>

theorem estimate_monotone_recommendation:
  fixes avail :: nat
  assumes tr: "map_of (sizes ds) ''trajectory'' = Some n_traj"
      and ti: "map_of (sizes ds) ''time'' = Some n_time"
      and av: "0 < avail"
  shows "(\<forall>p1 p2. p1 \<le> p2 \<longrightarrow>
            (\<exists>e1 a1 s1 r1 e2 a2 s2 r2.
               estimate_memory_requirements ds p1 avail = Inr (e1, a1, s1, r1) \<and>
               estimate_memory_requirements ds p2 avail = Inr (e2, a2, s2, r2) \<and>
               e1 \<le> e2))
       \<and> (\<forall>p e a r. 1 < p \<and> p \<le> 100 \<and>
               estimate_memory_requirements ds p avail = Inr (e, a, False, r) \<longrightarrow> r < p)"
proof (intro conjI allI impI)
  fix p1 p2 :: real
  assume le: "p1 \<le> p2"
  define E where "E p = float64 (float64 (real_of_int (trajectories_per_fragment n_traj p
                   * int n_time * 4 * int (length (data_vars ds))) / 1024 ^ 2) * 3)" for p
  define A where "A = float64 (real avail / 1024 ^ 2)"
  have ret: "\<exists>s r. estimate_memory_requirements ds p avail = Inr (E p, A, s, r)" for p
    unfolding estimate_returns(1)[OF tr ti av] E_def A_def by auto
  have "E p1 \<le> E p2" unfolding E_def by (rule estimate_mono[OF le])
  then show "\<exists>e1 a1 s1 r1 e2 a2 s2 r2.
               estimate_memory_requirements ds p1 avail = Inr (e1, a1, s1, r1) \<and>
               estimate_memory_requirements ds p2 avail = Inr (e2, a2, s2, r2) \<and>
               e1 \<le> e2"
    using ret[of p1] ret[of p2] by blast
next
  fix p e a r :: real
  assume h: "1 < p \<and> p \<le> 100 \<and> estimate_memory_requirements ds p avail = Inr (e, a, False, r)"
  define E where "E = float64 (float64 (real_of_int (trajectories_per_fragment n_traj p
                   * int n_time * 4 * int (length (data_vars ds))) / 1024 ^ 2) * 3)"
  define A where "A = float64 (real avail / 1024 ^ 2)"
  define T where "T = float64 (A * float64 0.3)"
  have p1: "1 < p" using h by simp
  have eq: "estimate_memory_requirements ds p avail = Inr (e, a, False, r)" using h by simp
  note ec = estimate_returns(1)[OF tr ti av, of p, folded E_def A_def, folded T_def]
  have unsafe: "\<not> E < float64 (A * 0.5)"
  proof
    assume "E < float64 (A * 0.5)"
    then have "estimate_memory_requirements ds p avail = Inr (E, A, True, p)"
      by (simp only: ec if_True)
    with eq show False by simp
  qed
  then have "estimate_memory_requirements ds p avail
               = Inr (E, A, False, max 1 (min 100 (float64 (float64 (T / E) * p))))"
    by (simp only: ec if_False)
  then have "Inr (e, a, False, r)
               = (Inr (E, A, False, max 1 (min 100 (float64 (float64 (T / E) * p))))
                  :: py_error + (real \<times> real \<times> bool \<times> real))"
    by (simp only: eq)
  then have r: "r = max 1 (min 100 (float64 (float64 (T / E) * p)))"
    by (simp only: sum.inject prod.inject)
  have Apos: "2 powi (- 20) \<le> A" unfolding A_def by (rule available_mb_pos[OF av])
  have A0: "0 < A" using Apos pow2_pos[of "- 20"] by linarith
  have Epos: "0 < E"
    using estimate_returns(2)[OF tr ti av, of p, folded E_def A_def] unsafe by simp
  have Elow: "A / 2 - A / 2 / 2 ^ 53 \<le> E" using unsafe half_lower(1)[OF Apos] by linarith
  have T1: "T \<le> 5 / 16 * A + 5 / 16 * A / 2 ^ 53" unfolding T_def by (rule target_upper(1)[OF Apos])
  have T0: "0 \<le> T" unfolding T_def by (rule target_upper(2)[OF Apos])
  have "T \<le> 3 / 4 * E" using T1 Elow A0 by simp
  then have "T / E \<le> 3 / 4" using Epos by (simp add: pos_divide_le_eq)
  then have "float64 (T / E) \<le> float64 (real_of_int 3 * 2 powi (- 2))"
    by (intro float64_mono) simp
  moreover have "float64 (real_of_int 3 * 2 powi (- 2)) = real_of_int 3 * 2 powi (- 2)"
    by (rule float64_exact) simp_all
  ultimately have q1: "float64 (T / E) \<le> 3 / 4" by simp
  have q0: "0 \<le> float64 (T / E)" by (rule float64_nonneg) (use T0 Epos in simp)
  define X where "X = float64 (T / E) * p"
  have X1: "X \<le> 3 / 4 * p" unfolding X_def using q1 p1 by (intro mult_right_mono) simp_all
  have rec: "float64 X < p"
  proof (cases "X < 1")
    case True
    then have "float64 X \<le> float64 1" by (intro float64_mono) simp
    then show ?thesis using p1 by simp
  next
    case False
    have "(2::real) powi (- 1022) \<le> 2 powi 0" by (rule power_int_increasing) simp_all
    moreover have "(2::real) powi 0 = 1" by (rule power_int_0_right)
    ultimately have "2 powi (- 1022) \<le> X" using False by linarith
    then have "float64 X \<le> X + X / 2 ^ 53" by (rule float64_upper)
    then show ?thesis using X1 p1 by simp
  qed
  then have "min 100 (float64 X) < p" by simp
  then show "r < p" using p1 r by (simp add: X_def)
qed

theorem estimate_monotone_recommendation_witness:
  "map_of (sizes example_source) ''trajectory'' = Some 1000000 \<and>
   map_of (sizes example_source) ''time'' = Some 1000 \<and> (0::nat) < 100000000 \<and>
   (\<exists>e1 a1 s1 r1 e2 a2 s2 r2.
      estimate_memory_requirements example_source 2 100000000 = Inr (e1, a1, s1, r1) \<and>
      estimate_memory_requirements example_source 5 100000000 = Inr (e2, a2, s2, r2) \<and>
      e1 \<le> e2) \<and>
   estimate_memory_requirements example_source 5 100000000 =
     Inr (600000000 / 1024 ^ 2, 100000000 / 1024 ^ 2, False, 1) \<and> (1::real) < 5"
proof -
  have h: "(0::nat) < 100000000" by simp
  note t = estimate_monotone_recommendation[OF example_source_facts(1,2) h]
  have m: "\<exists>e1 a1 s1 r1 e2 a2 s2 r2.
      estimate_memory_requirements example_source 2 100000000 = Inr (e1, a1, s1, r1) \<and>
      estimate_memory_requirements example_source 5 100000000 = Inr (e2, a2, s2, r2) \<and>
      e1 \<le> e2"
    using t[THEN conjunct1, rule_format, of 2 5] by simp
  have v: "estimate_memory_requirements example_source 5 100000000 =
     Inr (600000000 / 1024 ^ 2, 100000000 / 1024 ^ 2, False, 1)"
    by (rule example_estimates(3))
  have "(1::real) < 5"
    using t[THEN conjunct2, rule_format, of 5 "600000000 / 1024 ^ 2" "100000000 / 1024 ^ 2" 1] v
    by simp
  then show ?thesis using m v example_source_facts by simp
qed

lemma estimate_Inr_sizes:
  assumes "estimate_memory_requirements ds p avail = Inr res"
  shows "\<exists>n m. map_of (sizes ds) ''trajectory'' = Some n \<and> map_of (sizes ds) ''time'' = Some m"
  using assms
  by (auto simp: estimate_memory_requirements_def Let_def split: option.splits)

lemma estimate_Inr_available:
  fixes avail :: nat
  assumes "estimate_memory_requirements ds p avail = Inr (e, a, s, r)"
  shows "a = float64 (real avail / 1024 ^ 2)"
proof -
  from estimate_Inr_sizes[OF assms] obtain n m where
    tr: "map_of (sizes ds) ''trajectory'' = Some n" and ti: "map_of (sizes ds) ''time'' = Some m"
    by blast
  show ?thesis
    using assms unfolding est_cases[OF tr ti] by (auto split: if_splits)
qed

lemma estimate_unsafe_recommendation:
  fixes avail :: nat
  assumes "estimate_memory_requirements ds p avail = Inr (e, a, False, r)"
  shows "1 \<le> r"
proof -
  from estimate_Inr_sizes[OF assms] obtain n m where
    tr: "map_of (sizes ds) ''trajectory'' = Some n" and ti: "map_of (sizes ds) ''time'' = Some m"
    by blast
  show ?thesis
    using assms unfolding est_cases[OF tr ti] by (auto split: if_splits)
qed

subsection \<open>Variable synthesizer\<close>

lemma has_key_append: "has_key k (xs @ ys) = (has_key k xs \<or> has_key k ys)"
  by (auto simp: has_key_def map_add_def split: option.splits)

lemma has_key_single: "has_key k [(k', v)] = (k = k')"
  by (simp add: has_key_def)

lemma set_item_absent: "\<not> has_key k kvs \<Longrightarrow> set_item k v kvs = kvs @ [(k, v)]"
  by (induction kvs) (auto simp: has_key_def)

lemma has_key_set_item: "has_key k (set_item k v kvs)"
  by (induction kvs) (auto simp: has_key_def)

lemma map_of_append_left: "map_of xs k = Some v \<Longrightarrow> map_of (xs @ ys) k = Some v"
  by (simp add: map_add_def)

lemma map_of_append_right: "\<not> has_key k xs \<Longrightarrow> map_of (xs @ ys) k = map_of ys k"
  by (auto simp: has_key_def map_add_def split: option.splits)

lemma add_if_absent_present:
  "has_key n (variables ds) \<Longrightarrow> add_if_absent n arr msg (ds, added) = (ds, added)"
  by (simp add: add_if_absent_def)

lemma add_if_absent_absent:
  "\<not> has_key n (variables ds) \<Longrightarrow>
   add_if_absent n arr msg (ds, added) =
     (ds\<lparr>variables := variables ds @ [(n, arr)]\<rparr>, added @ [msg])"
  by (simp add: add_if_absent_def set_item_absent)

lemma has_key_iff: "has_key k xs = (k \<in> fst ` set xs)"
  by (simp add: has_key_def map_of_eq_None_iff)

lemma fold_blocks:
  assumes "distinct (map fst bs)"
  shows "fold (\<lambda>b. add_if_absent (fst b) (fst (snd b)) (snd (snd b))) bs (d, a) =
     (d\<lparr>variables := variables d @
          map (\<lambda>b. (fst b, fst (snd b)))
            (filter (\<lambda>b. \<not> has_key (fst b) (variables d)) bs)\<rparr>,
      a @ map (\<lambda>b. snd (snd b)) (filter (\<lambda>b. \<not> has_key (fst b) (variables d)) bs))"
  using assms
proof (induction bs arbitrary: d a)
  case Nil
  then show ?case by simp
next
  case (Cons b bs)
  have dist: "distinct (map fst bs)" and nin: "fst b \<notin> fst ` set bs"
    using Cons.prems by auto
  show ?case
  proof (cases "has_key (fst b) (variables d)")
    case True
    then show ?thesis
      using Cons.IH[OF dist, of d a] by (simp add: add_if_absent_present)
  next
    case False
    let ?d1 = "d\<lparr>variables := variables d @ [(fst b, fst (snd b))]\<rparr>"
    have same: "filter (\<lambda>b'. \<not> has_key (fst b') (variables d @ [(fst b, fst (snd b))])) bs
              = filter (\<lambda>b'. \<not> has_key (fst b') (variables d)) bs"
    proof (rule filter_cong[OF refl])
      fix b' assume "b' \<in> set bs"
      then have mem: "fst b' \<in> fst ` set bs" by (rule imageI)
      have "fst b' \<noteq> fst b"
      proof
        assume "fst b' = fst b"
        with mem have "fst b \<in> fst ` set bs" by (simp only:)
        with nin show False by (rule notE)
      qed
      then show "(\<not> has_key (fst b') (variables d @ [(fst b, fst (snd b))]))
                  = (\<not> has_key (fst b') (variables d))"
        by (simp add: has_key_append has_key_single)
    qed
    show ?thesis
      using False Cons.IH[OF dist, of ?d1 "a @ [snd (snd b)]"]
      by (simp add: add_if_absent_absent same)
  qed
qed

lemma blocks_names:
  "map fst (sediment_blocks n m pc ps pd pdens) =
     [''particulate_diameter'', ''particulate_density'', ''particulate_class'',
      ''particulate_size_class'', ''settled'', ''ocean_vertical_diffusivity'',
      ''ocean_mixed_layer_thickness'']"
  by (simp add: sediment_blocks_def)

lemma blocks_distinct: "distinct (map fst (sediment_blocks n m pc ps pd pdens))"
  by (simp add: blocks_names)

lemma synth_result:
  fixes pc ps :: string and pd pdens :: real
  assumes tr: "map_of (sizes ds) ''trajectory'' = Some n_traj"
      and ti: "map_of (sizes ds) ''time'' = Some n_time"
  defines "bs \<equiv> sediment_blocks n_traj n_time pc ps pd pdens"
  defines "d7 \<equiv> ds\<lparr>variables := variables ds @
                     map (\<lambda>b. (fst b, fst (snd b)))
                       (filter (\<lambda>b. \<not> has_key (fst b) (variables ds)) bs)\<rparr>"
  shows "add_missing_sediment_variables ds pc ps pd pdens =
     Inr (if \<not> has_key ''opendrift_class'' (attrs ds)
          then d7\<lparr>attrs := set_item ''opendrift_class'' (AStr ''SedimentDrift'') (attrs ds)\<rparr>
          else d7,
          map (\<lambda>b. snd (snd b)) (filter (\<lambda>b. \<not> has_key (fst b) (variables ds)) bs))"
  unfolding add_missing_sediment_variables_def tr ti option.case Let_def
    fold_blocks[OF blocks_distinct] bs_def d7_def
  by simp

lemma all_present_after:
  "b \<in> set bs \<Longrightarrow>
   has_key (fst b) (xs @ map (\<lambda>b. (fst b, fst (snd b)))
                          (filter (\<lambda>b. \<not> has_key (fst b) xs) bs))"
proof (cases "has_key (fst b) xs")
  case True
  then show ?thesis by (simp add: has_key_append)
next
  case False
  assume "b \<in> set bs"
  with False have "b \<in> set (filter (\<lambda>b. \<not> has_key (fst b) xs) bs)" by simp
  then have "fst b \<in> (\<lambda>b. fst b) ` set (filter (\<lambda>b. \<not> has_key (fst b) xs) bs)"
    by (rule imageI)
  then have "fst b \<in> fst ` set (map (\<lambda>b. (fst b, fst (snd b)))
                                   (filter (\<lambda>b. \<not> has_key (fst b) xs) bs))"
    by (simp add: image_image)
  then have "has_key (fst b) (map (\<lambda>b. (fst b, fst (snd b)))
                                (filter (\<lambda>b. \<not> has_key (fst b) xs) bs))"
    by (simp only: has_key_iff)
  then show ?thesis by (simp only: has_key_append simp_thms)
qed

lemma names_present_after:
  assumes "map fst bs' = map fst bs"
  shows "filter (\<lambda>b. \<not> has_key (fst b)
                     (xs @ map (\<lambda>b. (fst b, fst (snd b)))
                             (filter (\<lambda>b. \<not> has_key (fst b) xs) bs))) bs' = []"
proof -
  have "has_key (fst b') (xs @ map (\<lambda>b. (fst b, fst (snd b)))
                             (filter (\<lambda>b. \<not> has_key (fst b) xs) bs))"
    if "b' \<in> set bs'" for b'
  proof -
    from that have "fst b' \<in> set (map fst bs')" by simp
    then have "fst b' \<in> set (map fst bs)" by (simp only: assms)
    then obtain b where b: "b \<in> set bs" and e: "fst b = fst b'" by auto
    show ?thesis using all_present_after[OF b, of xs] by (simp only: e)
  qed
  then show ?thesis by (simp add: filter_empty_conv)
qed

lemma synth_lookup:
  fixes pc ps :: string and pd pdens :: real
  assumes tr: "map_of (sizes ds) ''trajectory'' = Some n_traj"
      and ti: "map_of (sizes ds) ''time'' = Some n_time"
      and blk: "(n, arr, msg) \<in> set (sediment_blocks n_traj n_time pc ps pd pdens)"
      and absent: "\<not> has_key n (variables ds)"
  shows "\<exists>ds' added. add_missing_sediment_variables ds pc ps pd pdens = Inr (ds', added)
           \<and> map_of (variables ds') n = Some arr \<and> msg \<in> set added"
proof -
  define bs where "bs = sediment_blocks n_traj n_time pc ps pd pdens"
  define sel where "sel = filter (\<lambda>b. \<not> has_key (fst b) (variables ds)) bs"
  define new where "new = map (\<lambda>b. (fst b, fst (snd b))) sel"
  have dist: "distinct (map fst bs)" unfolding bs_def by (rule blocks_distinct)
  have insel: "(n, arr, msg) \<in> set sel" using blk absent by (simp add: sel_def bs_def)
  have "distinct (map fst sel)" unfolding sel_def using dist by (rule distinct_map_filter)
  then have dnew: "distinct (map fst new)" by (simp add: new_def comp_def)
  have "(n, arr) \<in> set new" using insel by (force simp: new_def)
  with dnew have look: "map_of new n = Some arr" by (rule map_of_is_SomeI)
  have m: "msg \<in> set (map (\<lambda>b. snd (snd b)) sel)" using insel by force
  note r = synth_result[OF tr ti, of pc ps pd pdens, folded bs_def, folded sel_def, folded new_def]
  have v: "map_of (variables ds @ new) n = Some arr"
    using map_of_append_right[OF absent, of new] look by (simp only:)
  show ?thesis
  proof (cases "has_key ''opendrift_class'' (attrs ds)")
    case True
    then show ?thesis using r v m by simp
  next
    case False
    then show ?thesis using r v m by simp
  qed
qed

lemma example_fragment_facts:
  "map_of (sizes example_fragment) ''trajectory'' = Some 50"
  "map_of (sizes example_fragment) ''time'' = Some 10"
  "map_of (variables example_fragment) ''particulate_diameter'' = Some example_diameter"
  "\<not> has_key ''particulate_size_class'' (variables example_fragment)"
  by (simp_all add: example_fragment_def has_key_def)

text \<open>
  Claim C5. On a fragment with both dimensions the synthesizer returns; the variables
  after the call are the variables before it, in place and unchanged, followed by new
  ones whose names are exactly the absent ones among the seven derived names, one
  reported addition each; and a second call on the result, with any parameters, returns
  the same dataset and an empty list of additions.
\<close>

theorem synthesis_idempotent:
  fixes pc ps :: string and pd pdens :: real
  assumes tr: "map_of (sizes ds) ''trajectory'' = Some n_traj"
      and ti: "map_of (sizes ds) ''time'' = Some n_time"
  shows "\<exists>ds' added.
      add_missing_sediment_variables ds pc ps pd pdens = Inr (ds', added)
    \<and> (\<exists>new. variables ds' = variables ds @ new
          \<and> map fst new =
              filter (\<lambda>n. \<not> has_key n (variables ds))
                [''particulate_diameter'', ''particulate_density'', ''particulate_class'',
                 ''particulate_size_class'', ''settled'', ''ocean_vertical_diffusivity'',
                 ''ocean_mixed_layer_thickness'']
          \<and> length added = length new)
    \<and> (\<forall>name v. map_of (variables ds) name = Some v
                 \<longrightarrow> map_of (variables ds') name = Some v)
    \<and> (\<forall>pc2 ps2 pd2 pdens2.
          add_missing_sediment_variables ds' pc2 ps2 pd2 pdens2 = Inr (ds', []))"
proof -
  define bs where "bs = sediment_blocks n_traj n_time pc ps pd pdens"
  define new where "new = map (\<lambda>b. (fst b, fst (snd b)))
                            (filter (\<lambda>b. \<not> has_key (fst b) (variables ds)) bs)"
  define added where "added = map (\<lambda>b. snd (snd b))
                                (filter (\<lambda>b. \<not> has_key (fst b) (variables ds)) bs)"
  define d7 where "d7 = ds\<lparr>variables := variables ds @ new\<rparr>"
  define D where "D = (if \<not> has_key ''opendrift_class'' (attrs ds)
          then d7\<lparr>attrs := set_item ''opendrift_class'' (AStr ''SedimentDrift'') (attrs ds)\<rparr>
          else d7)"
  have res: "add_missing_sediment_variables ds pc ps pd pdens = Inr (D, added)"
    unfolding D_def d7_def new_def added_def bs_def by (rule synth_result[OF tr ti])
  have vD: "variables D = variables ds @ new" by (simp add: D_def d7_def)
  have sD: "sizes D = sizes ds" by (simp add: D_def d7_def)
  have aD: "has_key ''opendrift_class'' (attrs D)"
    by (simp add: D_def d7_def has_key_set_item)
  have names: "map fst new =
      filter (\<lambda>n. \<not> has_key n (variables ds))
        [''particulate_diameter'', ''particulate_density'', ''particulate_class'',
         ''particulate_size_class'', ''settled'', ''ocean_vertical_diffusivity'',
         ''ocean_mixed_layer_thickness'']"
  proof -
    have "map fst new = map fst (filter (\<lambda>b. \<not> has_key (fst b) (variables ds)) bs)"
      by (simp add: new_def)
    also have "\<dots> = filter (\<lambda>n. \<not> has_key n (variables ds)) (map fst bs)"
      by (simp add: filter_map comp_def)
    finally show ?thesis by (simp only: bs_def blocks_names)
  qed
  have len: "length added = length new" by (simp add: added_def new_def)
  have keep: "\<forall>name v. map_of (variables ds) name = Some v
                 \<longrightarrow> map_of (variables D) name = Some v"
    by (simp add: vD map_of_append_left)
  have again: "add_missing_sediment_variables D pc2 ps2 pd2 pdens2 = Inr (D, [])"
    for pc2 ps2 :: string and pd2 pdens2 :: real
  proof -
    have e: "filter (\<lambda>b. \<not> has_key (fst b) (variables D))
               (sediment_blocks n_traj n_time pc2 ps2 pd2 pdens2) = []"
      unfolding vD new_def
      by (rule names_present_after) (simp only: bs_def blocks_names)
    show ?thesis
      using synth_result[of D n_traj n_time pc2 ps2 pd2 pdens2] tr ti aD
      by (simp add: sD e)
  qed
  show ?thesis
  proof (intro exI[of _ D] exI[of _ added] conjI)
    show "add_missing_sediment_variables ds pc ps pd pdens = Inr (D, added)" by (rule res)
    show "\<exists>new. variables D = variables ds @ new
          \<and> map fst new =
              filter (\<lambda>n. \<not> has_key n (variables ds))
                [''particulate_diameter'', ''particulate_density'', ''particulate_class'',
                 ''particulate_size_class'', ''settled'', ''ocean_vertical_diffusivity'',
                 ''ocean_mixed_layer_thickness'']
          \<and> length added = length new"
      using vD names len by blast
    show "\<forall>name v. map_of (variables ds) name = Some v
                 \<longrightarrow> map_of (variables D) name = Some v" by (rule keep)
    show "\<forall>pc2 ps2 pd2 pdens2.
          add_missing_sediment_variables D pc2 ps2 pd2 pdens2 = Inr (D, [])"
      using again by blast
  qed
qed

theorem synthesis_idempotent_witness:
  "map_of (sizes example_fragment) ''trajectory'' = Some 50 \<and>
   map_of (sizes example_fragment) ''time'' = Some 10 \<and>
   (\<exists>ds' added.
      add_missing_sediment_variables example_fragment ''other'' ''medium'' (1 / 10000) 1027
        = Inr (ds', added)
    \<and> length added = 6
    \<and> map_of (variables ds') ''particulate_diameter'' = Some example_diameter
    \<and> add_missing_sediment_variables ds' ''oil'' ''large'' (5 / 1000) 900 = Inr (ds', []))"
proof -
  from synthesis_idempotent[OF example_fragment_facts(1,2), of "''other''" "''medium''" "1 / 10000" 1027]
  obtain ds' added and new :: "(string \<times> data_array) list" where
    r: "add_missing_sediment_variables example_fragment ''other'' ''medium'' (1 / 10000) 1027
          = Inr (ds', added)"
    and n: "map fst new =
              filter (\<lambda>n. \<not> has_key n (variables example_fragment))
                [''particulate_diameter'', ''particulate_density'', ''particulate_class'',
                 ''particulate_size_class'', ''settled'', ''ocean_vertical_diffusivity'',
                 ''ocean_mixed_layer_thickness'']"
    and l: "length added = length new"
    and k: "\<forall>name v. map_of (variables example_fragment) name = Some v
                 \<longrightarrow> map_of (variables ds') name = Some v"
    and a: "\<forall>pc2 ps2 pd2 pdens2.
          add_missing_sediment_variables ds' pc2 ps2 pd2 pdens2 = Inr (ds', [])"
    by blast
  have "length (map fst new) = 6"
    unfolding n by (simp add: example_fragment_def has_key_def)
  then have l6: "length added = 6" using l by simp
  have d: "map_of (variables ds') ''particulate_diameter'' = Some example_diameter"
    using k example_fragment_facts(3) by blast
  have a': "add_missing_sediment_variables ds' ''oil'' ''large'' (5 / 1000) 900 = Inr (ds', [])"
    using a by blast
  show ?thesis
    using example_fragment_facts(1,2) r l6 d a' by blast
qed

text \<open>
  Claim C10. On a fragment that lacks \<^verbatim>\<open>particulate_size_class\<close> the synthesized
  variable has dtype \<^verbatim>\<open>U6\<close> and holds the first 6 characters of the supplied size
  class in every cell; a longer value is cut (the stored text differs from it) and not
  rejected, and the reported addition still shows the value in full.
\<close>

theorem size_class_truncated:
  fixes pc ps :: string and pd pdens :: real
  assumes tr: "map_of (sizes ds) ''trajectory'' = Some n_traj"
      and ti: "map_of (sizes ds) ''time'' = Some n_time"
      and absent: "\<not> has_key ''particulate_size_class'' (variables ds)"
  shows "\<exists>ds' added v.
      add_missing_sediment_variables ds pc ps pd pdens = Inr (ds', added)
    \<and> map_of (variables ds') ''particulate_size_class'' = Some v
    \<and> dtype v = Unicode 6
    \<and> cells v = Array (replicate n_traj (Array (replicate n_time (Scalar (Text (take 6 ps))))))
    \<and> (6 < length ps \<longrightarrow> take 6 ps \<noteq> ps)
    \<and> [Lit (''particulate_size_class ('' @ ps @ '')'')] \<in> set added"
proof -
  let ?arr = "sediment_array n_traj n_time (Unicode 6) (Text (take 6 ps))
         [(''units'', []),
          (''classes'', ''small,medium,large''),
          (''long_name'', ''Particle size classification'')]"
  have blk: "(''particulate_size_class'', ?arr,
              [Lit (''particulate_size_class ('' @ ps @ '')'')])
             \<in> set (sediment_blocks n_traj n_time pc ps pd pdens)"
    by (simp add: sediment_blocks_def)
  from synth_lookup[OF tr ti blk absent] obtain ds' added where
    r: "add_missing_sediment_variables ds pc ps pd pdens = Inr (ds', added)"
    and l: "map_of (variables ds') ''particulate_size_class'' = Some ?arr"
    and m: "[Lit (''particulate_size_class ('' @ ps @ '')'')] \<in> set added"
    by blast
  have t: "6 < length ps \<longrightarrow> take 6 ps \<noteq> ps"
  proof
    assume "6 < length ps"
    then have "length (take 6 ps) \<noteq> length ps" by simp
    then show "take 6 ps \<noteq> ps" by metis
  qed
  show ?thesis
    apply (rule exI[of _ ds'], rule exI[of _ added], rule exI[of _ ?arr])
    using r l m t by (simp add: sediment_array_def np_full_def)
qed

theorem size_class_truncated_witness:
  "map_of (sizes example_fragment) ''trajectory'' = Some 50 \<and>
   map_of (sizes example_fragment) ''time'' = Some 10 \<and>
   \<not> has_key ''particulate_size_class'' (variables example_fragment) \<and>
   (\<exists>ds' added v.
      add_missing_sediment_variables example_fragment ''other'' ''extralarge'' (1 / 10000) 1027
        = Inr (ds', added)
    \<and> map_of (variables ds') ''particulate_size_class'' = Some v
    \<and> dtype v = Unicode 6
    \<and> cells v = Array (replicate 50 (Array (replicate 10 (Scalar (Text ''extral'')))))
    \<and> ''extral'' \<noteq> ''extralarge'')"
proof -
  from size_class_truncated[OF example_fragment_facts(1,2,4),
      of "''other''" "''extralarge''" "1 / 10000" 1027]
  obtain ds' added v where
    r: "add_missing_sediment_variables example_fragment ''other'' ''extralarge'' (1 / 10000) 1027
          = Inr (ds', added)"
    and l: "map_of (variables ds') ''particulate_size_class'' = Some v"
    and t: "dtype v = Unicode 6"
    and c: "cells v = Array (replicate 50 (Array (replicate 10
               (Scalar (Text (take 6 ''extralarge'')))))) "
    and ne: "6 < length ''extralarge'' \<longrightarrow> take 6 ''extralarge'' \<noteq> ''extralarge''"
    by blast
  have c': "cells v = Array (replicate 50 (Array (replicate 10 (Scalar (Text ''extral'')))))"
    using c by simp
  have ne': "''extral'' \<noteq> ''extralarge''" using ne by simp
  show ?thesis
    using example_fragment_facts(1,2,4) r l t c' ne' by blast
qed

subsection \<open>Fragmentation orchestrator\<close>

lemma emit_fields [simp]:
  "available (emit ev w) = available w"
  "stdin (emit ev w) = stdin w"
  "input_files (emit ev w) = input_files w"
  "trace (emit ev w) = trace w @ [ev]"
  by (simp_all add: emit_def)

lemma check_declined:
  assumes est: "estimate_memory_requirements ds percentage (available w) = Inr (e, a, False, r)"
      and av: "0 < available w"
      and inp: "stdin w = line # rest"
      and no: "py_lower (py_strip line) \<noteq> ''y''"
  shows "check_memory_safety ds percentage w =
           (Inr False, emit Prompt ((emit Memory_Check w)\<lparr>stdin := rest\<rparr>))"
proof -
  have "2 powi (- 20) \<le> a"
    unfolding estimate_Inr_available[OF est] by (rule available_mb_pos[OF av])
  then have a: "a \<noteq> 0" using pow2_pos[of "- 20"] by linarith
  have r: "r \<noteq> 0" using estimate_unsafe_recommendation[OF est] by simp
  show ?thesis
    using est a r inp no
    by (simp add: check_memory_safety_def Let_def py_input_def and_then_def)
qed

text \<open>
  Claim C7. When the source opens, the estimate is classified unsafe, the reading of
  available memory is positive (so that the report of the check can be printed) and the
  console's answer to the prompt is not \<^verbatim>\<open>y\<close>, the run returns the empty list; its
  trace is: open, memory check, prompt, close. No fragment is written.
\<close>

theorem declined_run_aborts:
  assumes src: "map_of (input_files w) input_file = Some ds"
      and est: "estimate_memory_requirements ds percentage (available w) = Inr (e, a, False, r)"
      and av: "0 < available w"
      and inp: "stdin w = line # rest"
      and no: "py_lower (py_strip line) \<noteq> ''y''"
  shows "create_fragments input_file output_prefix percentage add_sediment_vars
           particle_class particle_size_class particle_diameter particle_density w =
         (Inr [],
          w\<lparr>stdin := rest,
            trace := trace w @ [Open_Dataset input_file, Memory_Check, Prompt, Close_Dataset]\<rparr>)"
proof -
  from estimate_Inr_sizes[OF est] obtain n m where
    tr: "map_of (sizes ds) ''trajectory'' = Some n" and ti: "map_of (sizes ds) ''time'' = Some m"
    by blast
  let ?w1 = "emit (Open_Dataset input_file) w"
  have c: "check_memory_safety ds percentage ?w1 =
           (Inr False, emit Prompt ((emit Memory_Check ?w1)\<lparr>stdin := rest\<rparr>))"
    by (rule check_declined[where e=e and a=a and r=r and line=line])
       (use est av inp no in simp_all)
  show ?thesis
    unfolding create_fragments_def Let_def src tr ti option.case c and_then_def
    by (simp add: emit_def)
qed

lemma low_memory_world_facts:
  "map_of (input_files low_memory_world) ''mydata.nc'' = Some example_source"
  "estimate_memory_requirements example_source 10 (available low_memory_world) =
     Inr (1200000000 / 1024 ^ 2, 100000000 / 1024 ^ 2, False, 1)"
  "0 < available low_memory_world"
  "stdin low_memory_world = ''n'' # []"
  "py_lower (py_strip ''n'') \<noteq> ''y''"
  by (simp_all add: low_memory_world_def example_estimates
      py_lower_def py_strip_def is_space_def lower_char_def)

theorem declined_run_aborts_witness:
  "map_of (input_files low_memory_world) ''mydata.nc'' = Some example_source \<and>
   estimate_memory_requirements example_source 10 (available low_memory_world) =
     Inr (1200000000 / 1024 ^ 2, 100000000 / 1024 ^ 2, False, 1) \<and>
   0 < available low_memory_world \<and>
   stdin low_memory_world = [''n''] \<and>
   py_lower (py_strip ''n'') \<noteq> ''y'' \<and>
   create_fragments ''mydata.nc'' None 10 True ''other'' ''medium'' (1 / 10000) 1027
       low_memory_world =
     (Inr [],
      low_memory_world\<lparr>stdin := [],
        trace := [Open_Dataset ''mydata.nc'', Memory_Check, Prompt, Close_Dataset]\<rparr>)"
  using declined_run_aborts[OF low_memory_world_facts,
      of None True "''other''" "''medium''" "1 / 10000" 1027]
    low_memory_world_facts
  by (simp add: low_memory_world_def)

lemma check_passed_trace:
  assumes "check_memory_safety ds percentage w = (Inr ok, w')"
  shows "\<exists>evs. trace w' = trace w @ [Memory_Check] @ evs \<and> set evs \<subseteq> {Prompt}"
  using assms
  by (auto simp: check_memory_safety_def Let_def py_input_def and_then_def emit_def
      split: sum.splits if_splits list.splits prod.splits)

lemma check_passed_sizes:
  assumes "check_memory_safety ds percentage w = (Inr ok, w')"
  shows "\<exists>n m. map_of (sizes ds) ''trajectory'' = Some n \<and> map_of (sizes ds) ''time'' = Some m"
proof -
  from assms obtain res where
    "estimate_memory_requirements ds percentage (available w) = Inr res"
    by (auto simp: check_memory_safety_def Let_def split: sum.splits)
  then show ?thesis by (rule estimate_Inr_sizes)
qed

lemma example_world_check:
  "check_memory_safety example_source 150 (emit (Open_Dataset ''mydata.nc'') example_world)
     = (Inr True, example_world\<lparr>trace := [Open_Dataset ''mydata.nc'', Memory_Check]\<rparr>)"
  by (simp add: check_memory_safety_def Let_def example_safe_estimates
      example_world_def emit_def)

text \<open>
  Claim C4, as stated, fails: the percentage is checked after the source is opened and
  after the memory check. At 150 percent with 64 GB available the run raises ValueError
  with the open and the memory check already in its trace; with 100 MB available and the
  prompt declined it returns the empty list and raises nothing.
\<close>

theorem invalid_percentage_counterexample:
  "create_fragments ''mydata.nc'' None 150 True ''other'' ''medium'' (1 / 10000) 1027
       example_world =
     (Inl ValueError, example_world\<lparr>trace := [Open_Dataset ''mydata.nc'', Memory_Check]\<rparr>)
   \<and> create_fragments ''mydata.nc'' None 150 True ''other'' ''medium'' (1 / 10000) 1027
       low_memory_world =
     (Inr [], low_memory_world\<lparr>stdin := [],
        trace := [Open_Dataset ''mydata.nc'', Memory_Check, Prompt, Close_Dataset]\<rparr>)"
  by (simp add: create_fragments_def check_memory_safety_def Let_def
      example_estimates example_safe_estimates example_source_facts example_world_def
      low_memory_world_def emit_def and_then_def py_input_def fragment_plan_def
      py_lower_def py_strip_def is_space_def lower_char_def)

text \<open>
  Claim C4, amended. For every percentage outside \<open>(0, 100]\<close>, once the source is
  opened and the memory check lets the run continue, the run raises ValueError; up to
  there its trace is the open, the memory check and at most the prompt: nothing is
  planned or written.
\<close>

theorem invalid_percentage_after_check:
  assumes bad: "percentage \<le> 0 \<or> 100 < percentage"
      and src: "map_of (input_files w) input_file = Some ds"
      and ok: "check_memory_safety ds percentage (emit (Open_Dataset input_file) w)
                 = (Inr True, w')"
  shows "create_fragments input_file output_prefix percentage add_sediment_vars
           particle_class particle_size_class particle_diameter particle_density w =
         (Inl ValueError, w')
       \<and> (\<exists>evs. trace w' = trace w @ [Open_Dataset input_file, Memory_Check] @ evs
                  \<and> set evs \<subseteq> {Prompt})"
proof -
  from check_passed_sizes[OF ok] obtain n m where
    tr: "map_of (sizes ds) ''trajectory'' = Some n" and ti: "map_of (sizes ds) ''time'' = Some m"
    by blast
  have plan: "fragment_plan n percentage = Inl ValueError"
    using bad by (auto simp: fragment_plan_def)
  have run: "create_fragments input_file output_prefix percentage add_sediment_vars
           particle_class particle_size_class particle_diameter particle_density w =
         (Inl ValueError, w')"
    unfolding create_fragments_def Let_def src tr ti option.case ok and_then_def
    by (simp add: plan)
  from check_passed_trace[OF ok] obtain evs where
    "trace w' = trace (emit (Open_Dataset input_file) w) @ [Memory_Check] @ evs"
    "set evs \<subseteq> {Prompt}" by blast
  then have "trace w' = trace w @ [Open_Dataset input_file, Memory_Check] @ evs
                  \<and> set evs \<subseteq> {Prompt}" by simp
  then show ?thesis using run by blast
qed

theorem invalid_percentage_after_check_witness:
  "((150::real) \<le> 0 \<or> 100 < (150::real)) \<and>
   map_of (input_files example_world) ''mydata.nc'' = Some example_source \<and>
   check_memory_safety example_source 150 (emit (Open_Dataset ''mydata.nc'') example_world)
     = (Inr True, example_world\<lparr>trace := [Open_Dataset ''mydata.nc'', Memory_Check]\<rparr>) \<and>
   create_fragments ''mydata.nc'' None 150 True ''other'' ''medium'' (1 / 10000) 1027
       example_world =
     (Inl ValueError, example_world\<lparr>trace := [Open_Dataset ''mydata.nc'', Memory_Check]\<rparr>)"
proof -
  have b: "(150::real) \<le> 0 \<or> 100 < (150::real)" by simp
  have s: "map_of (input_files example_world) ''mydata.nc'' = Some example_source"
    by (simp add: example_world_def)
  show ?thesis
    using invalid_percentage_after_check[OF b s example_world_check,
        of None True "''other''" "''medium''" "1 / 10000" 1027]
      b s example_world_check
    by simp
qed

subsection \<open>Diameter units on the two entry paths\<close>

lemma small_plan: "fragment_plan 2 50 = Inr [(0, 1), (1, 2)]"
  by (simp add: fragment_plan_def num_fragments_def example_tpf float64_numerals
      fragment_bounds_def upt_rec)

lemmas small_estimate = example_safe_estimates(4)[unfolded small_source_def, simplified]

lemmas run_defs =
  fragmenter_main_def create_fragments_def check_memory_safety_def
  small_estimate small_plan float64_numerals write_fragment_def
  isel_trajectory_def axis_of_def add_missing_sediment_variables_def sediment_blocks_def
  add_if_absent_def has_key_def sediment_array_def emit_def and_then_def py_input_def
  py_strip_def py_lower_def lower_char_def is_space_def basename_def
  superscript_two_def superscript_three_def

lemma fmt_03d_small: "fmt_03d (Suc 0) = ''001''" "fmt_03d (Suc (Suc 0)) = ''002''"
  by code_simp+

lemmas interactive_defs =
  interactive_mode_def ask_particle_properties_def py_isdigit_def py_int_def classes_def
  size_classes_def

lemma interactive_diameter_stored_in_meters:
  "(case interactive_mode table_float ''mydata.nc''
          (small_world\<lparr>stdin := [''50'', ''y'', ''1'', ''3'', ''5.0'', ''900'', [], ''y'']\<rparr>) of
      (r, w) \<Rightarrow>
        r = Inr (Some [''mydata_fragment_001_of_002.nc'', ''mydata_fragment_002_of_002.nc'']) \<and>
        filter (\<lambda>x. x \<noteq> None) (map written_diameter (trace w)) =
          [Some (Array [Array [Scalar (Number (5 / 1000))]]),
           Some (Array [Array [Scalar (Number (5 / 1000))]])])"
  by (simp add: run_defs interactive_defs small_source_def small_world_def table_float_def
      fmt_03d_small upt_rec Let_def written_diameter_def np_full_def)

text \<open>
  Claim C6 at the command line documented in the module docstring
  (\<^verbatim>\<open>INPUT.nc PERCENTAGE [PREFIX] [CLASS] [SIZE] [DIAMETER_MM] [DENSITY]\<close>): with a
  diameter of 5.0 mm on the command line, both fragments written store 0.0001 in every
  cell of \<^verbatim>\<open>particulate_diameter\<close>, not 0.005; \<^verbatim>\<open>main\<close> reads the percentage and
  the prefix only. The interactive path above stores 0.005.
\<close>

theorem cli_diameter_ignored:
  "(case fragmenter_main table_float
          [''GeoViz_Compatibility_Tool.py'', ''mydata.nc'', ''50'', ''oil_spill'', ''oil'',
           ''large'', ''5.0'', ''900'']
          small_world of
      (r, w) \<Rightarrow>
        r = Inr () \<and>
        map written_diameter (trace w) =
          [None, None,
           Some (Array [Array [Scalar (Number (1 / 10000))]]),
           Some (Array [Array [Scalar (Number (1 / 10000))]]),
           None]) \<and>
   (1 / 10000 :: real) \<noteq> 5 / 1000"
  by (simp add: run_defs small_source_def small_world_def table_float_def fmt_03d_small
      upt_rec Let_def written_diameter_def np_full_def)

subsection \<open>Validator\<close>

lemma fold_check_required:
  "fold (check_required ds) xs r =
     r\<lparr>missing := missing r @
          map (\<lambda>nd. [Lit (warning_sign @ ''  MISSING: ''),
                      Lit (fst nd @ '' ('' @ snd nd @ '')'')])
            (filter (\<lambda>nd. \<not> has_key (fst nd) (variables ds)) xs),
       passed := passed r @
          map (\<lambda>nd. [Lit ([CHR 0xE2, CHR 0x9C, CHR 0x93] @ '' ''),
                      Lit (''Required variable '' @ quoted (fst nd) @ '' present'')])
            (filter (\<lambda>nd. has_key (fst nd) (variables ds)) xs)\<rparr>"
  by (induction xs arbitrary: r) (simp_all add: check_required_def add_pass_def add_missing_def)

lemma fold_check_optional:
  "fold (check_optional ds) xs r =
     r\<lparr>info := info r @
          map (\<lambda>nd. [Lit ([CHR 0xE2, CHR 0x84, CHR 0xB9, CHR 0xEF, CHR 0xB8, CHR 0x8F]
                           @ ''  INFO: ''),
                      Lit (''Optional variable '' @ quoted (fst nd) @ '' not present (''
                           @ snd nd @ '')'')])
            (filter (\<lambda>nd. \<not> has_key (fst nd) (variables ds)) xs),
       passed := passed r @
          map (\<lambda>nd. [Lit ([CHR 0xE2, CHR 0x9C, CHR 0x93] @ '' ''),
                      Lit (''Optional variable '' @ quoted (fst nd) @ '' present'')])
            (filter (\<lambda>nd. has_key (fst nd) (variables ds)) xs)\<rparr>"
  by (induction xs arbitrary: r) (simp_all add: check_optional_def add_pass_def add_info_def)

text \<open>
  Claim C8, as stated, fails for two of the seven derived variables: the absence of
  \<^verbatim>\<open>ocean_vertical_diffusivity\<close> and of \<^verbatim>\<open>ocean_mixed_layer_thickness\<close> is recorded
  as information, not as missing. On the example source, which has none of the seven,
  the missing list holds the five required names and the information list the two
  optional ones.
\<close>

theorem sediment_presence_counterexample:
  "\<not> has_key ''ocean_vertical_diffusivity'' (variables example_source)
   \<and> \<not> has_key ''ocean_mixed_layer_thickness'' (variables example_source)
   \<and> missing (validate_sediment_variables example_source) =
       [[Lit (warning_sign @ ''  MISSING: ''), Lit ''particulate_diameter (Particle diameter)''],
        [Lit (warning_sign @ ''  MISSING: ''), Lit ''particulate_density (Particle density)''],
        [Lit (warning_sign @ ''  MISSING: ''), Lit ''particulate_class (Particle classification)''],
        [Lit (warning_sign @ ''  MISSING: ''),
         Lit ''particulate_size_class (Particle size classification)''],
        [Lit (warning_sign @ ''  MISSING: ''), Lit ''settled (Settlement status)'']]
   \<and> map (\<lambda>m. m ! 1) (info (validate_sediment_variables example_source)) =
       [Lit (''Optional variable '' @ quoted ''ocean_vertical_diffusivity''
             @ '' not present (Ocean vertical mixing coefficient)''),
        Lit (''Optional variable '' @ quoted ''ocean_mixed_layer_thickness''
             @ '' not present (Mixed layer depth)'')]"
  unfolding validate_sediment_variables_def fold_check_required fold_check_optional
  by (simp add: new_result_def required_vars_def optional_vars_def example_source_def
      has_key_def quoted_def)

text \<open>
  Claim C8, amended. For every dataset the check of the derived variables records no
  error and no warning; the missing list holds, in order, one entry for each absent
  variable among the five required ones (diameter, density, class, size class, settled),
  and the information list one entry for each absent variable among the two optional
  ones (vertical diffusivity, mixed layer thickness).
\<close>

theorem sediment_presence_categories:
  "errors (validate_sediment_variables ds) = []
   \<and> warnings (validate_sediment_variables ds) = []
   \<and> missing (validate_sediment_variables ds) =
        map (\<lambda>nd. [Lit (warning_sign @ ''  MISSING: ''),
                    Lit (fst nd @ '' ('' @ snd nd @ '')'')])
          (filter (\<lambda>nd. \<not> has_key (fst nd) (variables ds)) required_vars)
   \<and> info (validate_sediment_variables ds) =
        map (\<lambda>nd. [Lit ([CHR 0xE2, CHR 0x84, CHR 0xB9, CHR 0xEF, CHR 0xB8, CHR 0x8F]
                         @ ''  INFO: ''),
                    Lit (''Optional variable '' @ quoted (fst nd) @ '' not present (''
                         @ snd nd @ '')'')])
          (filter (\<lambda>nd. \<not> has_key (fst nd) (variables ds)) optional_vars)
   \<and> map fst required_vars =
        [''particulate_diameter'', ''particulate_density'', ''particulate_class'',
         ''particulate_size_class'', ''settled'']
   \<and> map fst optional_vars = [''ocean_vertical_diffusivity'', ''ocean_mixed_layer_thickness'']"
  unfolding validate_sediment_variables_def fold_check_required fold_check_optional
  by (simp add: new_result_def required_vars_def optional_vars_def)

text \<open>
  Claim C9. For every validation run (a path is given on the command line) the exit
  status is 0 exactly when the result of the run has no error and no missing entry, and
  is 1 otherwise; the warnings, the information and the passed checks of a result have
  no part in its exit status.
\<close>

theorem exit_status_success_iff:
  assumes "2 \<le> length argv"
  shows "(validator_main env argv = 0 \<longleftrightarrow>
            errors (validate_dataset env (argv ! 1)
                      (''--verbose'' \<in> set argv \<or> ''-v'' \<in> set argv)
                      (''--quick'' \<in> set argv \<or> ''-q'' \<in> set argv)) = []
          \<and> missing (validate_dataset env (argv ! 1)
                      (''--verbose'' \<in> set argv \<or> ''-v'' \<in> set argv)
                      (''--quick'' \<in> set argv \<or> ''-q'' \<in> set argv)) = [])
       \<and> (validator_main env argv = 0 \<or> validator_main env argv = 1)
       \<and> (\<forall>r w i p. exit_status (r\<lparr>warnings := w, info := i, passed := p\<rparr>) = exit_status r)"
  using assms
  by (simp add: validator_main_def exit_status_def is_valid_def has_all_required_def Let_def)

lemmas validator_defs =
  validate_dataset_def validate_file_access_def checks_def run_check_def merge_result_def
  validate_dimensions_def check_dimension_def validate_sediment_variables_def
  check_required_def check_optional_def required_vars_def optional_vars_def
  validate_trajectory_variables_def check_common_def common_vars_def
  validate_attributes_def check_recommended_def attr_pieces_def
  validate_data_integrity_def check_sample_def
  add_error_def add_warning_def add_missing_def add_info_def add_pass_def new_result_def
  is_valid_def has_all_required_def py_endswith_def has_key_def

lemma scenario_result:
  "errors (validate_dataset scenario_env ''mydata.nc'' False False) = []"
  "missing (validate_dataset scenario_env ''mydata.nc'' False False) =
     [[Lit (warning_sign @ ''  MISSING: ''), Lit ''particulate_diameter (Particle diameter)''],
      [Lit (warning_sign @ ''  MISSING: ''), Lit ''settled (Settlement status)'']]"
  "[Lit (warning_sign @ ''  WARNING: ''),
    Lit ''Longitude sample values outside valid range [-180, 180]: ['',
    Float_2f (- 200), Lit '', '', Float_2f 170, Lit '']'']
   \<in> set (warnings (validate_dataset scenario_env ''mydata.nc'' False False))"
  by (simp_all add: validator_defs scenario_env_def scenario_dataset_def Let_def)

theorem exit_status_success_iff_witness:
  "2 \<le> length [''GeoViz_Validator.py'', ''mydata.nc''] \<and>
   validator_main scenario_env [''GeoViz_Validator.py'', ''mydata.nc''] = 1 \<and>
   errors (validate_dataset scenario_env ''mydata.nc'' False False) = [] \<and>
   missing (validate_dataset scenario_env ''mydata.nc'' False False) \<noteq> []"
proof -
  have h: "2 \<le> length [''GeoViz_Validator.py'', ''mydata.nc'']" by simp
  have m: "missing (validate_dataset scenario_env ''mydata.nc'' False False) \<noteq> []"
    by (simp add: scenario_result)
  show ?thesis
    using exit_status_success_iff[OF h, of scenario_env] h m scenario_result(1)
    by auto
qed

subsection \<open>A run writes the planned ranges\<close>

text \<open>
  The link between the plan and the files: once the memory check lets the run continue
  and the plan is made, \<^verbatim>\<open>create_fragments\<close> returns one path for each range, and
  the bounds recorded in the fragments it wrote are the ranges of the plan, in order.
\<close>

lemma map_of_set_item:
  "map_of (set_item k v kvs) k' = (if k' = k then Some v else map_of kvs k')"
  by (induction kvs) auto

lemma map_of_resize:
  "map_of (map (\<lambda>dn. if fst dn = k0 then (fst dn, f (snd dn)) else dn) xs) d =
     (if d = k0 then map_option f (map_of xs d) else map_of xs d)"
  by (induction xs) auto

lemma isel_sizes:
  "map_of (sizes ds) d = Some n \<Longrightarrow>
   \<exists>n'. map_of (sizes (isel_trajectory s e ds)) d = Some n'"
  using map_of_resize[of "''trajectory''" "\<lambda>x. min e x - min s x" "sizes ds" d]
  by (cases "d = ''trajectory''") (simp_all add: isel_trajectory_def)

lemma write_fragment_succeeds:
  fixes pc ps :: string and pd pdens :: real
  assumes tr: "map_of (sizes ds) ''trajectory'' = Some n"
      and ti: "map_of (sizes ds) ''time'' = Some m"
  shows "\<exists>f d. write_fragment ds input_file prefix asv pc ps pd pdens num i b w
                 = (Inr f, emit (To_Netcdf f d) w)
               \<and> written_bounds (To_Netcdf f d) = Some b"
proof -
  let ?frag = "isel_trajectory (nat (fst b)) (nat (snd b)) ds"
  from isel_sizes[OF tr] obtain n' where tr': "map_of (sizes ?frag) ''trajectory'' = Some n'"
    by blast
  from isel_sizes[OF ti] obtain m' where ti': "map_of (sizes ?frag) ''time'' = Some m'"
    by blast
  obtain ds1 where s: "(if asv
               then (case add_missing_sediment_variables ?frag pc ps pd pdens of
                       Inl e \<Rightarrow> Inl e
                     | Inr r \<Rightarrow> Inr (fst r))
               else Inr ?frag) = (Inr ds1 :: py_error + dataset)"
    by (cases asv) (simp_all add: synth_result[OF tr' ti'])
  let ?f = "prefix @ ''_fragment_'' @ fmt_03d (i + 1) @ ''_of_'' @ fmt_03d num @ ''.nc''"
  let ?d = "ds1\<lparr>attrs :=
                    set_item ''modified_by'' (AStr ''fragment_with_sediment.py'')
                   (set_item ''original_file'' (AStr (basename input_file))
                   (set_item ''fragment_trajectory_end'' (AInt (snd b))
                   (set_item ''fragment_trajectory_start'' (AInt (fst b))
                   (set_item ''total_fragments'' (AInt (int num))
                   (set_item ''fragment_number'' (AInt (int (i + 1)))
                      (attrs ds1))))))\<rparr>"
  have run: "write_fragment ds input_file prefix asv pc ps pd pdens num i b w
                 = (Inr ?f, emit (To_Netcdf ?f ?d) w)"
    unfolding write_fragment_def Let_def s by simp
  have wb: "written_bounds (To_Netcdf ?f ?d) = Some b"
    by (simp add: written_bounds_def map_of_set_item)
  from run wb show ?thesis by blast
qed

lemma loop_follows_plan:
  assumes body: "\<And>i b w. \<exists>f d. body i b w = (Inr f, emit (To_Netcdf f d) w)
                              \<and> written_bounds (To_Netcdf f d) = Some b"
  shows "\<exists>files w'. for_each_fragment body ibs acc w = (Inr files, w')
           \<and> length files = length acc + length ibs
           \<and> List.map_filter written_bounds (trace w')
               = List.map_filter written_bounds (trace w) @ map snd ibs
           \<and> stdin w' = stdin w"
proof (induction ibs arbitrary: acc w)
  case Nil
  then show ?case by simp
next
  case (Cons ib ibs)
  from body[of "fst ib" "snd ib" w] obtain f d where
    b: "body (fst ib) (snd ib) w = (Inr f, emit (To_Netcdf f d) w)"
    and wb: "written_bounds (To_Netcdf f d) = Some (snd ib)" by blast
  from Cons.IH[of "acc @ [f]" "emit (To_Netcdf f d) w"] obtain files w' where
    r: "for_each_fragment body ibs (acc @ [f]) (emit (To_Netcdf f d) w) = (Inr files, w')"
    and l: "length files = length (acc @ [f]) + length ibs"
    and t: "List.map_filter written_bounds (trace w')
               = List.map_filter written_bounds (trace (emit (To_Netcdf f d) w)) @ map snd ibs"
    and i: "stdin w' = stdin (emit (To_Netcdf f d) w)"
    by blast
  show ?case
    using b wb r l t i by (simp add: emit_def map_filter_def)
qed

lemma no_bounds_in_prompts:
  "set evs \<subseteq> {Prompt} \<Longrightarrow> List.map_filter written_bounds evs = []"
  by (induction evs) (auto simp: map_filter_def written_bounds_def)

lemma create_fragments_follows_plan:
  fixes pc ps :: string and pd pdens :: real
  assumes src: "map_of (input_files w) input_file = Some ds"
      and tr: "map_of (sizes ds) ''trajectory'' = Some n"
      and ok: "check_memory_safety ds percentage (emit (Open_Dataset input_file) w)
                 = (Inr True, w1)"
      and plan: "fragment_plan n percentage = Inr ranges"
  shows "\<exists>files w'. create_fragments input_file prefix percentage asv pc ps pd pdens w
                       = (Inr files, w')
           \<and> length files = length ranges
           \<and> List.map_filter written_bounds (trace w')
               = List.map_filter written_bounds (trace w) @ ranges"
proof -
  from check_passed_sizes[OF ok] tr obtain m where
    ti: "map_of (sizes ds) ''time'' = Some m" by auto
  from check_passed_trace[OF ok] obtain evs where
    t1: "trace w1 = trace (emit (Open_Dataset input_file) w) @ [Memory_Check] @ evs"
    and pe: "set evs \<subseteq> {Prompt}" by blast
  have b1: "List.map_filter written_bounds (trace w1) = List.map_filter written_bounds (trace w)"
    using no_bounds_in_prompts[OF pe]
    by (simp add: t1 map_filter_def written_bounds_def)
  let ?body = "write_fragment ds input_file
                 (case prefix of None \<Rightarrow> remove_nc input_file | Some p \<Rightarrow> p)
                 asv pc ps pd pdens (length ranges)"
  have "\<exists>f d. ?body i b w = (Inr f, emit (To_Netcdf f d) w)
               \<and> written_bounds (To_Netcdf f d) = Some b" for i b w
    by (rule write_fragment_succeeds[OF tr ti])
  from loop_follows_plan[of ?body "zip [0..<length ranges] ranges" "[]" w1, OF this]
  obtain files w2 where
    r: "for_each_fragment ?body (zip [0..<length ranges] ranges) [] w1 = (Inr files, w2)"
    and l: "length files = length ([] :: string list) + length (zip [0..<length ranges] ranges)"
    and t: "List.map_filter written_bounds (trace w2)
              = List.map_filter written_bounds (trace w1)
                @ map snd (zip [0..<length ranges] ranges)"
    by blast
  have ms: "map snd (zip [0..<length ranges] ranges) = ranges" by (simp add: map_snd_zip)
  have run: "create_fragments input_file prefix percentage asv pc ps pd pdens w
               = (Inr files, emit Close_Dataset w2)"
    unfolding create_fragments_def Let_def src tr ti option.case ok and_then_def
    by (simp add: plan r)
  have "List.map_filter written_bounds (trace (emit Close_Dataset w2))
          = List.map_filter written_bounds (trace w) @ ranges"
    using t b1 ms by (simp add: map_filter_def written_bounds_def)
  moreover have "length files = length ranges" using l by simp
  ultimately show ?thesis using run by blast
qed

end
